theory Spec2Isabelle
  imports Complex_Main "HOL-Library.Multiset"
begin

section \<open>The file system and the errors of the runtime\<close>

text \<open>
  The packaging script (\<^verbatim>\<open>create-dmg.ts\<close>) reads and changes the file system through Node's
  \<^verbatim>\<open>fs\<close> module and runs \<^verbatim>\<open>hdiutil\<close> and \<^verbatim>\<open>ln\<close> through \<^verbatim>\<open>execSync\<close>.

  A path is a string; the file system maps a path to what \<^verbatim>\<open>statSync\<close> and \<^verbatim>\<open>readdirSync\<close>
  observe there: nothing, a non-directory with its \<^verbatim>\<open>stats.size\<close>, or a directory with the size
  of the directory entry itself and its listing. Under each name of a listing is what the
  traversal meets there: the node \<^verbatim>\<open>statSync\<close> describes, or the error \<^verbatim>\<open>statSync\<close> throws (a
  dangling link, an entry that was removed or closed to the reader), or a directory, with
  its own size, on which \<^verbatim>\<open>readdirSync\<close> throws.

  A size is the whole number a JavaScript number holds: \<^verbatim>\<open>stats.size\<close> is a double, and so
  is every sum of sizes (see \<open>roundDouble\<close> below).

  Two different strings name two different places. At the paths the script itself tests
  (source, output directory, temporary and output path) a system call throws only for
  what is, or is not, at the path. A listing is a finite tree, so a cycle of symbolic
  links, on which the script would not return, is outside the model.
\<close>

datatype errno = ENOENT | ENOTDIR | EEXIST | EPERM | EACCES

datatype node = File nat | Dir nat "(string \<times> entry) list"
  and entry = Stats node | StatThrows errno | ReaddirThrows nat errno

type_synonym filesystem = "string \<Rightarrow> node option"

text \<open>
  What a \<^verbatim>\<open>throw\<close> carries: \<^verbatim>\<open>new Error(message)\<close>, the error of a failed system call (code,
  system call, path), or the error \<^verbatim>\<open>execSync\<close> throws when the command exits with a
  non-zero status (command, status).
\<close>

datatype error = Error string | SystemError errno string string | CommandFailed string nat

section \<open>Node's path functions (POSIX)\<close>

definition slash :: char where
  "slash = CHR ''/''"

text \<open>
  \<^verbatim>\<open>path.dirname\<close>: scanning from the end down to index 1, trailing slashes are skipped, then
  the last component; \<^verbatim>\<open>end\<close> is the index of the slash before it. Without such a slash the
  result is \<^verbatim>\<open>/\<close> or \<^verbatim>\<open>.\<close>; with \<^verbatim>\<open>end = 1\<close> on a rooted path it is \<^verbatim>\<open>//\<close>; otherwise
  \<^verbatim>\<open>path.slice(0, end)\<close>.
\<close>

definition dirname :: "string \<Rightarrow> string" where
  "dirname path =
     (if path = [] then ''.''
      else
        let hasRoot = (hd path = slash);
            r = dropWhile (\<lambda>c. c \<noteq> slash) (dropWhile (\<lambda>c. c = slash) (rev (tl path)))
        in if r = [] then (if hasRoot then ''/'' else ''.'')
           else if hasRoot \<and> tl r = [] then ''//''
           else hd path # rev (tl r))"

text \<open>Splitting a string at every slash.\<close>

fun segments :: "string \<Rightarrow> string list" where
  "segments [] = [[]]"
| "segments (c # cs) =
     (if c = slash then [] # segments cs
      else (case segments cs of seg # segs \<Rightarrow> (c # seg) # segs | [] \<Rightarrow> [[c]]))"

text \<open>
  \<^verbatim>\<open>normalizeString\<close>: the stack of segments kept so far, most recent first. Empty segments
  and \<^verbatim>\<open>.\<close> are dropped; \<^verbatim>\<open>..\<close> removes the segment before it, and is kept only above the
  start of a relative path.
\<close>

fun normalizeString :: "bool \<Rightarrow> string list \<Rightarrow> string list \<Rightarrow> string list" where
  "normalizeString allowAboveRoot res [] = rev res"
| "normalizeString allowAboveRoot res (seg # segs) =
     (if seg = [] \<or> seg = ''.'' then normalizeString allowAboveRoot res segs
      else if seg = ''..'' then
        (case res of
           [] \<Rightarrow> normalizeString allowAboveRoot (if allowAboveRoot then [''..''] else []) segs
         | lastSegment # below \<Rightarrow>
             if lastSegment = ''..'' then normalizeString allowAboveRoot (''..'' # res) segs
             else normalizeString allowAboveRoot below segs)
      else normalizeString allowAboveRoot (seg # res) segs)"

fun joinWith :: "string list \<Rightarrow> string" where
  "joinWith [] = []"
| "joinWith [seg] = seg"
| "joinWith (seg # segs) = seg @ slash # joinWith segs"

definition normalize :: "string \<Rightarrow> string" where
  "normalize path =
     (if path = [] then ''.''
      else
        let isAbsolute = (hd path = slash);
            trailingSeparator = (last path = slash);
            p = joinWith (normalizeString (\<not> isAbsolute) [] (segments path))
        in if p = [] then (if isAbsolute then ''/'' else if trailingSeparator then ''./'' else ''.'')
           else (if isAbsolute then [slash] else []) @ p @ (if trailingSeparator then [slash] else []))"

text \<open>\<^verbatim>\<open>path.join(a, b)\<close>: the non-empty arguments joined by a slash, then normalised.\<close>

definition pathJoin :: "string \<Rightarrow> string \<Rightarrow> string" where
  "pathJoin a b =
     (if a = [] \<and> b = [] then ''.''
      else if a = [] then normalize b
      else if b = [] then normalize a
      else normalize (a @ slash # b))"

section \<open>Strings\<close>

text \<open>
  \<^verbatim>\<open>s.replace(pattern, replacement)\<close> with a string pattern replaces the first occurrence
  only, and leaves \<^verbatim>\<open>s\<close> as it is when there is none.
\<close>

fun replace :: "string \<Rightarrow> string \<Rightarrow> string \<Rightarrow> string" where
  "replace pat rep [] = (if pat = [] then rep else [])"
| "replace pat rep (c # cs) =
     (if take (length pat) (c # cs) = pat then rep @ drop (length pat) (c # cs)
      else c # replace pat rep cs)"

fun occursIn :: "string \<Rightarrow> string \<Rightarrow> bool" where
  "occursIn pat [] = (pat = [])"
| "occursIn pat (c # cs) = (take (length pat) (c # cs) = pat \<or> occursIn pat cs)"

text \<open>The decimal digits of a number, as a template literal prints an integer.\<close>

definition digit :: "nat \<Rightarrow> char" where
  "digit d = ''0123456789'' ! d"

fun toString :: "nat \<Rightarrow> string" where
  "toString n = (if n < 10 then [digit n] else toString (n div 10) @ [digit (n mod 10)])"

declare toString.simps [simp del]

definition newline :: char where
  "newline = CHR 0x0A"

text \<open>
  The white space \<^verbatim>\<open>trim\<close> removes, among the characters below 256: tab, line feed,
  vertical tab, form feed, carriage return, space and the no-break space.
\<close>

definition isWhiteSpace :: "char \<Rightarrow> bool" where
  "isWhiteSpace c = (c \<in> set [CHR 0x09, CHR 0x0A, CHR 0x0B, CHR 0x0C, CHR 0x0D, CHR 0x20, CHR 0xA0])"

definition trim :: "string \<Rightarrow> string" where
  "trim s = rev (dropWhile isWhiteSpace (rev (dropWhile isWhiteSpace s)))"

text \<open>
  \<^verbatim>\<open>s.match(/\/Volumes\/[^\n]+/)\<close>: the leftmost position where \<^verbatim>\<open>/Volumes/\<close> is followed by
  a character other than a line feed; the match runs to the end of that line.
\<close>

fun matchVolumes :: "string \<Rightarrow> string option" where
  "matchVolumes [] = None"
| "matchVolumes (c # cs) =
     (if take 9 (c # cs) = ''/Volumes/'' \<and> takeWhile (\<lambda>d. d \<noteq> newline) (drop 9 (c # cs)) \<noteq> []
      then Some (''/Volumes/'' @ takeWhile (\<lambda>d. d \<noteq> newline) (drop 9 (c # cs)))
      else matchVolumes cs)"

section \<open>The size of a directory\<close>

text \<open>
  The sum of two doubles that hold whole numbers is the exact sum rounded to 53
  significant bits, a tie going to the even neighbour. Below \<open>2 ^ 53\<close> nothing is rounded.
  The range of the exponent is left out: a sum of \<open>2 ^ 1024\<close> bytes is out of reach.
\<close>

fun bitLength :: "nat \<Rightarrow> nat" where
  "bitLength n = (if n = 0 then 0 else Suc (bitLength (n div 2)))"

declare bitLength.simps [simp del]

definition roundDouble :: "nat \<Rightarrow> nat" where
  "roundDouble n =
     (if n < 2 ^ 53 then n
      else
        let e = bitLength n - 53;
            q = n div 2 ^ e;
            r = n mod 2 ^ e;
            half = 2 ^ (e - 1)
        in (if half < r \<or> (r = half \<and> odd q) then q + 1 else q) * 2 ^ e)"

definition addDouble :: "nat \<Rightarrow> nat \<Rightarrow> nat" where
  "addDouble a b = roundDouble (a + b)"

text \<open>
  \<^verbatim>\<open>getDirectorySize\<close> (lines 16 to 32), called on \<open>dirPath\<close> when \<^verbatim>\<open>readdirSync\<close> returns
  \<open>files\<close> there. \<open>sumEntries\<close> is the \<^verbatim>\<open>for\<close> loop, with \<^verbatim>\<open>totalSize\<close> as its
  accumulator: for each name, \<^verbatim>\<open>statSync\<close> on the joined path either throws, which ends the
  traversal, or gives the \<^verbatim>\<open>stats\<close>; a directory adds what the recursive call returns, whose
  \<^verbatim>\<open>readdirSync\<close> may throw in turn, and anything else adds its \<^verbatim>\<open>stats.size\<close>.
\<close>

fun getDirectorySize :: "string \<Rightarrow> (string \<times> entry) list \<Rightarrow> error + nat"
  and sumEntries :: "string \<Rightarrow> (string \<times> entry) list \<Rightarrow> nat \<Rightarrow> error + nat" where
  "getDirectorySize dirPath files = sumEntries dirPath files 0"
| "sumEntries dirPath [] totalSize = Inr totalSize"
| "sumEntries dirPath ((file, StatThrows code) # rest) totalSize =
     Inl (SystemError code ''stat'' (pathJoin dirPath file))"
| "sumEntries dirPath ((file, ReaddirThrows d code) # rest) totalSize =
     Inl (SystemError code ''scandir'' (pathJoin dirPath file))"
| "sumEntries dirPath ((file, Stats (Dir d sub)) # rest) totalSize =
     (case getDirectorySize (pathJoin dirPath file) sub of
        Inl e \<Rightarrow> Inl e
      | Inr subSize \<Rightarrow> sumEntries dirPath rest (addDouble totalSize subSize))"
| "sumEntries dirPath ((file, Stats (File sz)) # rest) totalSize =
     sumEntries dirPath rest (addDouble totalSize sz)"

text \<open>
  Called on a path: \<^verbatim>\<open>readdirSync\<close> throws when nothing is there, or when it is not a
  directory.
\<close>

definition getDirectorySizeAt :: "filesystem \<Rightarrow> string \<Rightarrow> error + nat" where
  "getDirectorySizeAt fs dirPath =
     (case fs dirPath of
        None \<Rightarrow> Inl (SystemError ENOENT ''scandir'' dirPath)
      | Some (File sz) \<Rightarrow> Inl (SystemError ENOTDIR ''scandir'' dirPath)
      | Some (Dir d files) \<Rightarrow> getDirectorySize dirPath files)"

text \<open>
  Line 50, \<^verbatim>\<open>Math.ceil(appSize / (1024 * 1024)) + 50\<close>, and the \<^verbatim>\<open>Math.round\<close> of lines 52
  and 113, which rounds a half upwards.
\<close>

definition requiredSizeMB :: "nat \<Rightarrow> nat" where
  "requiredSizeMB appSize = nat \<lceil>real appSize / (1024 * 1024)\<rceil> + 50"

definition roundMB :: "nat \<Rightarrow> nat" where
  "roundMB bytes = nat \<lfloor>real bytes / (1024 * 1024) + 1 / 2\<rfloor>"

section \<open>The world: files, the state behind the shell, and the trace of effects\<close>

text \<open>
  Every effect of the script is recorded in order: a line on the console, a command run
  by \<^verbatim>\<open>execSync\<close>, a directory made, a file removed. The shell is a parameter: a command
  reads and changes the files and a state of its own (what is attached, say), and exits
  with a status and its standard output.
\<close>

datatype event =
    ConsoleLog string
  | ConsoleError string error
  | ExecSync string
  | MkdirSync string
  | UnlinkSync string

record 'x world =
  files :: filesystem
  ext :: 'x
  events :: "event list"

type_synonym 'x shell = "string \<Rightarrow> filesystem \<Rightarrow> 'x \<Rightarrow> (nat \<times> string) \<times> filesystem \<times> 'x"

type_synonym ('a, 'x) io = "'x world \<Rightarrow> (error + 'a) \<times> 'x world"

definition consoleLog :: "string \<Rightarrow> 'x world \<Rightarrow> 'x world" where
  "consoleLog message w = w\<lparr>events := events w @ [ConsoleLog message]\<rparr>"

definition consoleError :: "string \<Rightarrow> error \<Rightarrow> 'x world \<Rightarrow> 'x world" where
  "consoleError message err w = w\<lparr>events := events w @ [ConsoleError message err]\<rparr>"

definition existsSync :: "filesystem \<Rightarrow> string \<Rightarrow> bool" where
  "existsSync fs p = (fs p \<noteq> None)"

definition isFile :: "node option \<Rightarrow> bool" where
  "isFile n = (case n of Some (File sz) \<Rightarrow> True | _ \<Rightarrow> False)"


text \<open>\<^verbatim>\<open>statSync(p).size\<close>.\<close>

definition statSyncSize :: "filesystem \<Rightarrow> string \<Rightarrow> error + nat" where
  "statSyncSize fs p =
     (case fs p of
        None \<Rightarrow> Inl (SystemError ENOENT ''stat'' p)
      | Some (File sz) \<Rightarrow> Inr sz
      | Some (Dir d sub) \<Rightarrow> Inr d)"

text \<open>\<^verbatim>\<open>unlinkSync\<close> removes a non-directory, and throws on a directory or on nothing.\<close>

definition unlinkSync :: "string \<Rightarrow> (unit, 'x) io" where
  "unlinkSync p w =
     (case files w p of
        None \<Rightarrow> (Inl (SystemError ENOENT ''unlink'' p), w)
      | Some (Dir d sub) \<Rightarrow> (Inl (SystemError EPERM ''unlink'' p), w)
      | Some (File sz) \<Rightarrow>
          (Inr (), w\<lparr>files := (files w)(p := None), events := events w @ [UnlinkSync p]\<rparr>))"

text \<open>
  \<^verbatim>\<open>mkdirSync(p, { recursive: true })\<close> makes \<^verbatim>\<open>p\<close> and every missing directory above it,
  and throws when one of them is there and is not a directory. The directories above
  \<^verbatim>\<open>p\<close> are its successive \<^verbatim>\<open>dirname\<close>s.
\<close>

function ancestors :: "string \<Rightarrow> string list" where
  "ancestors p = (if length (dirname p) < length p then p # ancestors (dirname p) else [p])"
  by pat_completeness auto
termination
  by (relation "measure length") auto

declare ancestors.simps [simp del]

definition mkdirSyncRecursive :: "string \<Rightarrow> (unit, 'x) io" where
  "mkdirSyncRecursive p w =
     (let fs = files w; chain = ancestors p
      in if list_ex (\<lambda>q. isFile (fs q)) chain
         then (Inl (SystemError (if isFile (fs p) then EEXIST else ENOTDIR) ''mkdir'' p), w)
         else (Inr (),
               w\<lparr>files := (\<lambda>q. if q \<in> set chain \<and> fs q = None then Some (Dir 0 []) else fs q),
                 events := events w @ [MkdirSync p]\<rparr>))"

text \<open>
  \<^verbatim>\<open>execSync\<close> runs the command, which may change the world whatever its status, and
  throws on a non-zero status; otherwise it returns the standard output.
\<close>

definition execSync :: "'x shell \<Rightarrow> string \<Rightarrow> (string, 'x) io" where
  "execSync sh command w =
     (case sh command (files w) (ext w) of
        ((status, stdout), fs', x') \<Rightarrow>
          (if status = 0 then Inr stdout else Inl (CommandFailed command status),
           \<lparr>files = fs', ext = x', events = events w @ [ExecSync command]\<rparr>))"

subsection \<open>Sequencing, and \<^verbatim>\<open>try\<close> ... \<^verbatim>\<open>finally\<close>\<close>

text \<open>
  A statement that throws ends the block with its error. A \<^verbatim>\<open>finally\<close> block runs however
  the \<^verbatim>\<open>try\<close> block ended; when it throws, its error replaces the outcome of the
  \<^verbatim>\<open>try\<close> block.
\<close>

definition andThen :: "('a, 'x) io \<Rightarrow> ('a \<Rightarrow> ('b, 'x) io) \<Rightarrow> ('b, 'x) io" where
  "andThen m f w = (case m w of (Inl e, w') \<Rightarrow> (Inl e, w') | (Inr a, w') \<Rightarrow> f a w')"

definition logThen :: "string \<Rightarrow> ('a, 'x) io \<Rightarrow> ('a, 'x) io" where
  "logThen message m w = m (consoleLog message w)"

definition tryFinally :: "('a, 'x) io \<Rightarrow> (unit, 'x) io \<Rightarrow> ('a, 'x) io" where
  "tryFinally body finalizer w =
     (case body w of
        (r, w1) \<Rightarrow> (case finalizer w1 of (Inl e, w2) \<Rightarrow> (Inl e, w2) | (Inr u, w2) \<Rightarrow> (r, w2)))"

section \<open>The commands\<close>

definition dq :: string where
  "dq = [CHR 0x22]"

definition createCommand :: "string \<Rightarrow> string \<Rightarrow> nat \<Rightarrow> string \<Rightarrow> string" where
  "createCommand appPath volumeName requiredSize tempDmgPath =
     ''hdiutil create -srcfolder '' @ dq @ appPath @ dq @ '' -volname '' @ dq @ volumeName @ dq
     @ '' -fs HFS+ -fsargs '' @ dq @ ''-c c=64,a=16,e=16'' @ dq @ '' -format UDRW -size ''
     @ toString requiredSize @ ''m '' @ dq @ tempDmgPath @ dq"

definition attachCommand :: "string \<Rightarrow> string" where
  "attachCommand tempDmgPath =
     ''hdiutil attach '' @ dq @ tempDmgPath @ dq @ '' -readwrite -noverify -noautoopen''"

definition linkCommand :: "string \<Rightarrow> string" where
  "linkCommand applicationsLink = ''ln -s /Applications '' @ dq @ applicationsLink @ dq"

definition detachCommand :: "string \<Rightarrow> string" where
  "detachCommand mountPoint = ''hdiutil detach '' @ dq @ mountPoint @ dq @ '' -quiet''"

definition convertCommand :: "string \<Rightarrow> string \<Rightarrow> string" where
  "convertCommand tempDmgPath outputPath =
     ''hdiutil convert '' @ dq @ tempDmgPath @ dq @ '' -format UDZO -imagekey zlib-level=9 -o ''
     @ dq @ outputPath @ dq"

section \<open>The pipeline\<close>

text \<open>Line 40 and line 41.\<close>

definition tempDmgPathOf :: "string \<Rightarrow> string" where
  "tempDmgPathOf outputPath = replace ''.dmg'' ''-temp.dmg'' outputPath"

text \<open>
  \<^verbatim>\<open>product.nameLong || 'Code - OSS'\<close>: the value of the key when it is a non-empty string,
  else the default.
\<close>

definition volumeNameOf :: "string option \<Rightarrow> string" where
  "volumeNameOf nameLong =
     (case nameLong of None \<Rightarrow> ''Code - OSS'' | Some s \<Rightarrow> if s = [] then ''Code - OSS'' else s)"

text \<open>Lines 90 to 95, the body of the inner \<^verbatim>\<open>try\<close>.\<close>

definition addApplicationsLink :: "'x shell \<Rightarrow> string \<Rightarrow> (unit, 'x) io" where
  "addApplicationsLink sh mountPoint w =
     (let applicationsLink = pathJoin mountPoint ''Applications''
      in if \<not> existsSync (files w) applicationsLink
         then andThen (execSync sh (linkCommand applicationsLink))
                (\<lambda>out w1. (Inr (), consoleLog ''Added Applications symlink'' w1)) w
         else (Inr (), w))"

text \<open>Lines 97 to 99, the inner \<^verbatim>\<open>finally\<close>.\<close>

definition unmount :: "'x shell \<Rightarrow> string \<Rightarrow> (unit, 'x) io" where
  "unmount sh mountPoint =
     logThen ''Unmounting...''
       (andThen (execSync sh (detachCommand mountPoint)) (\<lambda>out w. (Inr (), w)))"

text \<open>Lines 102 to 113: conversion and the report.\<close>

definition convertAndReport :: "'x shell \<Rightarrow> string \<Rightarrow> string \<Rightarrow> (unit, 'x) io" where
  "convertAndReport sh tempDmgPath outputPath =
     logThen ''Converting to compressed DMG...''
       (andThen (execSync sh (convertCommand tempDmgPath outputPath))
          (\<lambda>out. logThen (''DMG created successfully: '' @ outputPath)
             (\<lambda>w. case statSyncSize (files w) outputPath of
                     Inl e \<Rightarrow> (Inl e, w)
                   | Inr sz \<Rightarrow>
                       (Inr (), consoleLog (''Final DMG size: '' @ toString (roundMB sz) @ ''MB'') w))))"

text \<open>Lines 86 to 113: from the parsed mount point on.\<close>

definition mounted :: "'x shell \<Rightarrow> string \<Rightarrow> string \<Rightarrow> string \<Rightarrow> (unit, 'x) io" where
  "mounted sh tempDmgPath outputPath mountPoint =
     logThen (''Mounted at: '' @ mountPoint)
       (andThen (tryFinally (addApplicationsLink sh mountPoint) (unmount sh mountPoint))
          (\<lambda>u. convertAndReport sh tempDmgPath outputPath))"

text \<open>Lines 70 to 113, the body of the outer \<^verbatim>\<open>try\<close>.\<close>

definition tryBlock ::
  "'x shell \<Rightarrow> string \<Rightarrow> string \<Rightarrow> string \<Rightarrow> nat \<Rightarrow> string \<Rightarrow> (unit, 'x) io" where
  "tryBlock sh appPath outputPath volumeName requiredSize tempDmgPath =
     logThen ''Creating temporary DMG...''
       (andThen (execSync sh (createCommand appPath volumeName requiredSize tempDmgPath))
          (\<lambda>out. logThen ''Mounting DMG to add Applications symlink...''
             (andThen (execSync sh (attachCommand tempDmgPath))
                (\<lambda>mountOutput.
                   case matchVolumes mountOutput of
                     None \<Rightarrow> (\<lambda>w. (Inl (Error ''Failed to parse mount point from hdiutil output''), w))
                   | Some mountMatch \<Rightarrow> mounted sh tempDmgPath outputPath (trim mountMatch)))))"

text \<open>Lines 115 to 118, the outer \<^verbatim>\<open>finally\<close>; lines 62 to 67 use the same statement.\<close>

definition unlinkIfExists :: "string \<Rightarrow> (unit, 'x) io" where
  "unlinkIfExists p w = (if existsSync (files w) p then unlinkSync p w else (Inr (), w))"

text \<open>Lines 56 to 59.\<close>

definition ensureOutputDir :: "string \<Rightarrow> (unit, 'x) io" where
  "ensureOutputDir outputPath w =
     (let outputDir = dirname outputPath
      in if \<not> existsSync (files w) outputDir then mkdirSyncRecursive outputDir w else (Inr (), w))"

text \<open>Lines 61 to 119: the stale files are cleared, then the outer \<^verbatim>\<open>try\<close> ... \<^verbatim>\<open>finally\<close>.\<close>

definition clearAndBuild ::
  "'x shell \<Rightarrow> string \<Rightarrow> string \<Rightarrow> string \<Rightarrow> nat \<Rightarrow> string \<Rightarrow> (unit, 'x) io" where
  "clearAndBuild sh appPath outputPath volumeName requiredSize tempDmgPath =
     andThen (unlinkIfExists tempDmgPath)
       (\<lambda>u. andThen (unlinkIfExists outputPath)
          (\<lambda>u. tryFinally
                  (tryBlock sh appPath outputPath volumeName requiredSize tempDmgPath)
                  (unlinkIfExists tempDmgPath)))"

text \<open>
  \<^verbatim>\<open>createDMG\<close> (lines 37 to 120). The constants \<^verbatim>\<open>appName\<close> and \<^verbatim>\<open>dmgName\<close> of lines 38
  and 39 are never read and \<^verbatim>\<open>path.basename\<close> has no effect, so they are left out. The
  function is \<^verbatim>\<open>async\<close> but awaits nothing: it runs to its end when called, and the promise
  it returns is rejected with what it throws.
\<close>

definition createDMG :: "'x shell \<Rightarrow> string option \<Rightarrow> string \<Rightarrow> string \<Rightarrow> (unit, 'x) io" where
  "createDMG sh nameLong appPath outputPath w =
     (let tempDmgPath = tempDmgPathOf outputPath;
          volumeName = volumeNameOf nameLong
      in if \<not> existsSync (files w) appPath
         then (Inl (Error (''App not found: '' @ appPath)), w)
         else
           (case getDirectorySizeAt (files w) appPath of
              Inl e \<Rightarrow> (Inl e, w)
            | Inr appSize \<Rightarrow>
                logThen (''App size: '' @ toString (roundMB appSize) @ ''MB'')
                  (logThen (''Creating DMG with '' @ toString (requiredSizeMB appSize) @ ''MB capacity...'')
                     (andThen (ensureOutputDir outputPath)
                        (\<lambda>u. clearAndBuild sh appPath outputPath volumeName
                                (requiredSizeMB appSize) tempDmgPath))) w))"

section \<open>The command line\<close>

text \<open>
  Lines 123 to 140, when the module is the entry point: the exit status and the world
  the process leaves. \<^verbatim>\<open>process.exit(1)\<close> ends the process at once; a run that
  succeeds ends with status 0. The module has been loaded: line 11 has read
  \<^verbatim>\<open>product.json\<close>, and \<open>nameLong\<close> is what it holds under that key, if anything.
\<close>

definition usage :: "string list" where
  "usage =
     [''Usage: create-dmg.ts <app-path> <output-dmg-path>'',
      [],
      ''Example:'',
      ''  node build/darwin/create-dmg.ts '' @ dq @ ''.build/electron/Code - OSS.app'' @ dq @ '' ''
        @ dq @ ''.build/Code-OSS-darwin-arm64.dmg'' @ dq]"

definition main :: "'x shell \<Rightarrow> string option \<Rightarrow> string list \<Rightarrow> 'x world \<Rightarrow> nat \<times> 'x world" where
  "main sh nameLong args w =
     (if length args < 2 then (1, fold consoleLog usage w)
      else
        (case createDMG sh nameLong (args ! 0) (args ! 1) w of
           (Inr u, w') \<Rightarrow> (0, w')
         | (Inl err, w') \<Rightarrow> (1, consoleError ''Failed to create DMG:'' err w')))"

section \<open>The vocabulary of the properties\<close>

text \<open>
  The sizes of all the files that can be reached from a node, as a multiset: a file gives
  its own size, a directory the sizes found under its entries and nothing for itself.
\<close>

fun fileSizes :: "node \<Rightarrow> nat multiset"
  and listingSizes :: "(string \<times> entry) list \<Rightarrow> nat multiset" where
  "fileSizes (File sz) = {#sz#}"
| "fileSizes (Dir d listing) = listingSizes listing"
| "listingSizes [] = {#}"
| "listingSizes ((name, Stats n) # rest) = fileSizes n + listingSizes rest"
| "listingSizes ((name, StatThrows code) # rest) = listingSizes rest"
| "listingSizes ((name, ReaddirThrows d code) # rest) = listingSizes rest"

text \<open>A tree in which every entry, at every depth, can be read.\<close>

fun readable :: "node \<Rightarrow> bool"
  and readableListing :: "(string \<times> entry) list \<Rightarrow> bool" where
  "readable (File sz) = True"
| "readable (Dir d listing) = readableListing listing"
| "readableListing [] = True"
| "readableListing ((name, Stats n) # rest) = (readable n \<and> readableListing rest)"
| "readableListing ((name, StatThrows code) # rest) = False"
| "readableListing ((name, ReaddirThrows d code) # rest) = False"

text \<open>
  Two trees are the same up to the order in which \<^verbatim>\<open>readdirSync\<close> lists the entries, at
  every depth.
\<close>

inductive reordered :: "node \<Rightarrow> node \<Rightarrow> bool"
  and reorderedListing :: "(string \<times> entry) list \<Rightarrow> (string \<times> entry) list \<Rightarrow> bool" where
  sameFile: "reordered (File sz) (File sz)"
| inDir: "reorderedListing listing listing' \<Longrightarrow> reordered (Dir d listing) (Dir d listing')"
| noEntry: "reorderedListing [] []"
| entry: "reordered n n' \<Longrightarrow> reorderedListing rest rest' \<Longrightarrow>
          reorderedListing ((name, Stats n) # rest) ((name, Stats n') # rest')"
| noStats: "reorderedListing rest rest' \<Longrightarrow>
          reorderedListing ((name, StatThrows code) # rest) ((name, StatThrows code) # rest')"
| noListing: "reorderedListing rest rest' \<Longrightarrow>
          reorderedListing ((name, ReaddirThrows d code) # rest) ((name, ReaddirThrows d code) # rest')"
| permuted: "reorderedListing listing listing' \<Longrightarrow> mset listing' = mset listing'' \<Longrightarrow>
          reorderedListing listing listing''"

text \<open>The commands of a trace, in the order they ran.\<close>

fun commandsRun :: "event list \<Rightarrow> string list" where
  "commandsRun [] = []"
| "commandsRun (ExecSync command # es) = command # commandsRun es"
| "commandsRun (e # es) = commandsRun es"

text \<open>Every occurrence of the event \<open>a\<close> in a trace has the event \<open>b\<close> somewhere after it.\<close>

fun followedBy :: "event \<Rightarrow> event \<Rightarrow> event list \<Rightarrow> bool" where
  "followedBy a b [] = True"
| "followedBy a b (e # es) = ((e = a \<longrightarrow> b \<in> set es) \<and> followedBy a b es)"

text \<open>The console line of line 87, which a run prints when it has parsed a mount point.\<close>

definition isMountedLog :: "event \<Rightarrow> bool" where
  "isMountedLog e = (case e of ConsoleLog message \<Rightarrow> take 12 message = ''Mounted at: '' | _ \<Rightarrow> False)"

text \<open>What a run added to the trace.\<close>

definition emitted :: "'x world \<Rightarrow> 'x world \<Rightarrow> event list" where
  "emitted w w' = drop (length (events w)) (events w')"

text \<open>A world with nothing on the trace yet, and a shell whose commands all succeed silently.\<close>

definition start :: "filesystem \<Rightarrow> unit world" where
  "start fs = \<lparr>files = fs, ext = (), events = []\<rparr>"

definition quietShell :: "unit shell" where
  "quietShell command fs x = ((0, []), fs, x)"

text \<open>
  The examples run on a bundle of exactly 800 MB, with a stale image at the output path,
  under a shell in which every command whose text starts with \<open>failing\<close> exits with
  status 1: \<^verbatim>\<open>create\<close> leaves an image at the temporary path even when it fails,
  \<^verbatim>\<open>attach\<close> prints the mount point, and \<^verbatim>\<open>ln\<close> and \<^verbatim>\<open>convert\<close> write their file when
  they succeed.
\<close>

definition exampleFiles :: filesystem where
  "exampleFiles =
     [''Code.app'' \<mapsto>
        Dir 96 [(''Contents'', Stats (Dir 128 [(''MacOS'', Stats (File 838860000)), (''Info.plist'', Stats (File 800))]))],
      ''.'' \<mapsto> Dir 64 [],
      ''out.dmg'' \<mapsto> File 111]"

definition exampleMountOutput :: string where
  "exampleMountOutput =
     ''/dev/disk4 GUID_partition_scheme'' @ [newline]
     @ ''/dev/disk4s1 Apple_HFS /Volumes/Code'' @ [newline]"

definition exampleShell :: "string \<Rightarrow> unit shell" where
  "exampleShell failing command fs x =
     (let status = (if failing \<noteq> [] \<and> take (length failing) command = failing then 1 else 0)
      in if take 14 command = ''hdiutil create''
         then ((status, []), fs(''out-temp.dmg'' \<mapsto> File 900), x)
         else if take 14 command = ''hdiutil attach''
         then ((status, exampleMountOutput), fs, x)
         else if take 5 command = ''ln -s''
         then ((status, []), if status = 0 then fs(''/Volumes/Code/Applications'' \<mapsto> File 12) else fs, x)
         else if command = convertCommand ''out-temp.dmg'' ''out.dmg''
         then ((status, []), if status = 0 then fs(''out.dmg'' \<mapsto> File 300) else fs, x)
         else ((status, []), fs, x))"

section \<open>The size estimator\<close>

lemma bitLength_power: "bitLength (2 ^ k) = Suc k"
proof (induction k)
  case 0
  show ?case by (simp add: bitLength.simps [of "Suc 0"] bitLength.simps [of 0])
next
  case (Suc k)
  have "bitLength (2 ^ Suc k) = Suc (bitLength (2 ^ Suc k div 2))"
    by (subst bitLength.simps) simp
  with Suc show ?case by simp
qed

lemma roundDouble_exact: "n \<le> 2 ^ 53 \<Longrightarrow> roundDouble n = n"
proof (cases "n < 2 ^ 53")
  case True
  then show ?thesis by (simp add: roundDouble_def)
next
  case False
  assume "n \<le> 2 ^ 53"
  with False have n: "n = 2 ^ 53" by simp
  have e: "bitLength n - 53 = 1" unfolding n bitLength_power by simp
  have q: "n div 2 ^ 1 = 2 ^ 52" "n mod 2 ^ 1 = 0" unfolding n by simp_all
  have "roundDouble n = 2 ^ 52 * 2 ^ 1"
    using False unfolding roundDouble_def Let_def e q by simp
  then show ?thesis unfolding n by simp
qed

lemma addDouble_exact: "a + b \<le> 2 ^ 53 \<Longrightarrow> addDouble a b = a + b"
  by (simp add: addDouble_def roundDouble_exact)

lemma sum_exact:
  "readableListing listing \<Longrightarrow> sum_mset (listingSizes listing) \<le> 2 ^ 53 \<Longrightarrow>
   getDirectorySize dirPath listing = Inr (sum_mset (listingSizes listing))"
  "readableListing listing \<Longrightarrow> totalSize + sum_mset (listingSizes listing) \<le> 2 ^ 53 \<Longrightarrow>
   sumEntries dirPath listing totalSize = Inr (totalSize + sum_mset (listingSizes listing))"
proof (induction dirPath listing and dirPath listing totalSize rule: getDirectorySize_sumEntries.induct)
  case (1 dirPath listing)
  then show ?case by simp
next
  case (2 dirPath totalSize)
  show ?case by simp
next
  case (3 dirPath name code rest totalSize)
  then show ?case by simp
next
  case (4 dirPath name d code rest totalSize)
  then show ?case by simp
next
  case (5 dirPath name d sub rest totalSize)
  from "5.prems" have rs: "readableListing sub" and rr: "readableListing rest"
    and bound: "totalSize + (sum_mset (listingSizes sub) + sum_mset (listingSizes rest)) \<le> 2 ^ 53"
    by simp_all
  from bound have "sum_mset (listingSizes sub) \<le> 2 ^ 53" by simp
  with "5.IH"(1) rs
  have sub: "getDirectorySize (pathJoin dirPath name) sub = Inr (sum_mset (listingSizes sub))"
    by simp
  from bound have ex: "addDouble totalSize (sum_mset (listingSizes sub))
      = totalSize + sum_mset (listingSizes sub)"
    by (intro addDouble_exact) simp
  from "5.IH"(2) [OF sub rr] bound ex
  have "sumEntries dirPath rest (addDouble totalSize (sum_mset (listingSizes sub)))
      = Inr (totalSize + sum_mset (listingSizes sub) + sum_mset (listingSizes rest))"
    by (simp add: add.assoc)
  with sub show ?case by (simp add: add.assoc del: getDirectorySize.simps)
next
  case (6 dirPath name sz rest totalSize)
  from "6.prems" have rr: "readableListing rest"
    and bound: "totalSize + (sz + sum_mset (listingSizes rest)) \<le> 2 ^ 53"
    by simp_all
  from bound have ex: "addDouble totalSize sz = totalSize + sz"
    by (intro addDouble_exact) simp
  from "6.IH" [OF rr] bound ex
  have "sumEntries dirPath rest (addDouble totalSize sz)
      = Inr (totalSize + sz + sum_mset (listingSizes rest))"
    by (simp add: add.assoc)
  then show ?case by (simp add: add.assoc)
qed

lemma listingSizes_mset:
  "listingSizes listing
     = (\<Sum>e\<in>#mset listing. case snd e of Stats n \<Rightarrow> fileSizes n | _ \<Rightarrow> {#})"
proof (induction listing)
  case Nil
  show ?case by simp
next
  case (Cons e rest)
  obtain name x where e: "e = (name, x)" by (cases e)
  from Cons show ?case unfolding e by (cases x) (simp_all add: ac_simps)
qed

lemma readableListing_mset:
  "readableListing listing
     = (\<forall>e\<in>#mset listing. case snd e of Stats n \<Rightarrow> readable n | _ \<Rightarrow> False)"
proof (induction listing)
  case Nil
  show ?case by simp
next
  case (Cons e rest)
  obtain name x where e: "e = (name, x)" by (cases e)
  from Cons show ?case unfolding e by (cases x) simp_all
qed

lemma traversal_error:
  "getDirectorySize dirPath listing = Inl e \<Longrightarrow> \<exists>code syscall q. e = SystemError code syscall q"
  "sumEntries dirPath listing totalSize = Inl e \<Longrightarrow>
   \<exists>code syscall q. e = SystemError code syscall q"
  by (induction dirPath listing and dirPath listing totalSize
        rule: getDirectorySize_sumEntries.induct)
     (auto split: sum.splits)

lemma reordered_same:
  "reordered n n' \<Longrightarrow> fileSizes n = fileSizes n' \<and> readable n = readable n'"
  "reorderedListing listing listing' \<Longrightarrow>
   listingSizes listing = listingSizes listing' \<and> readableListing listing = readableListing listing'"
proof (induction rule: reordered_reorderedListing.inducts)
  case (permuted listing listing' listing'')
  then show ?case by (simp add: listingSizes_mset readableListing_mset)
qed simp_all

text \<open>
  C4, as the code has it. For every directory tree in which every entry can be read and
  whose file sizes add up to \<open>2 ^ 53\<close> at most, \<^verbatim>\<open>getDirectorySize\<close> returns the sum of the
  sizes of all the files that can be reached from it: a directory adds nothing for itself
  (its own size \<open>d\<close> is never read), its contents are summed by the recursion at any depth,
  and the result is the same in whatever order each directory lists its entries.
\<close>

theorem getDirectorySize_sum:
  assumes "readableListing listing"
    and "sum_mset (listingSizes listing) \<le> 2 ^ 53"
  shows "getDirectorySize dirPath listing = Inr (sum_mset (listingSizes listing)) \<and>
         (\<forall>listing'. reorderedListing listing listing' \<longrightarrow>
            getDirectorySize dirPath listing' = getDirectorySize dirPath listing)"
proof (intro conjI allI impI)
  show here: "getDirectorySize dirPath listing = Inr (sum_mset (listingSizes listing))"
    using assms by (rule sum_exact(1))
  fix listing'
  assume "reorderedListing listing listing'"
  from reordered_same(2) [OF this] assms
  have "readableListing listing'" "sum_mset (listingSizes listing') \<le> 2 ^ 53"
    and "listingSizes listing' = listingSizes listing"
    by simp_all
  with sum_exact(1) [of listing' dirPath] here
  show "getDirectorySize dirPath listing' = getDirectorySize dirPath listing"
    by simp
qed

theorem getDirectorySize_sum_witness:
  "readableListing
     [(''a'', Stats (File 3)),
      (''d'', Stats (Dir 4096 [(''b'', Stats (File 5)), (''c'', Stats (File 7))]))] \<and>
   sum_mset (listingSizes
     [(''a'', Stats (File 3)),
      (''d'', Stats (Dir 4096 [(''b'', Stats (File 5)), (''c'', Stats (File 7))]))]) = 15 \<and>
   reorderedListing
     [(''a'', Stats (File 3)),
      (''d'', Stats (Dir 4096 [(''b'', Stats (File 5)), (''c'', Stats (File 7))]))]
     [(''d'', Stats (Dir 4096 [(''c'', Stats (File 7)), (''b'', Stats (File 5))])),
      (''a'', Stats (File 3))] \<and>
   getDirectorySize ''Code.app''
     [(''d'', Stats (Dir 4096 [(''c'', Stats (File 7)), (''b'', Stats (File 5))])),
      (''a'', Stats (File 3))]
     = getDirectorySize ''Code.app''
         [(''a'', Stats (File 3)),
          (''d'', Stats (Dir 4096 [(''b'', Stats (File 5)), (''c'', Stats (File 7))]))] \<and>
   getDirectorySize ''Code.app''
     [(''a'', Stats (File 3)),
      (''d'', Stats (Dir 4096 [(''b'', Stats (File 5)), (''c'', Stats (File 7))]))] = Inr 15"
proof -
  have readable: "readableListing
     [(''a'', Stats (File 3)),
      (''d'', Stats (Dir 4096 [(''b'', Stats (File 5)), (''c'', Stats (File 7))]))]"
    by simp
  have total: "sum_mset (listingSizes
     [(''a'', Stats (File 3)),
      (''d'', Stats (Dir 4096 [(''b'', Stats (File 5)), (''c'', Stats (File 7))]))]) = 15"
    by simp
  have bound: "sum_mset (listingSizes
     [(''a'', Stats (File 3)),
      (''d'', Stats (Dir 4096 [(''b'', Stats (File 5)), (''c'', Stats (File 7))]))]) \<le> 2 ^ 53"
    unfolding total by simp
  have inner: "reorderedListing
     [(''b'', Stats (File 5)), (''c'', Stats (File 7))]
     [(''c'', Stats (File 7)), (''b'', Stats (File 5))]"
    by (rule permuted [of _ "[(''b'', Stats (File 5)), (''c'', Stats (File 7))]"])
       (auto intro: entry sameFile noEntry)
  have outer: "reorderedListing
     [(''a'', Stats (File 3)),
      (''d'', Stats (Dir 4096 [(''b'', Stats (File 5)), (''c'', Stats (File 7))]))]
     [(''a'', Stats (File 3)),
      (''d'', Stats (Dir 4096 [(''c'', Stats (File 7)), (''b'', Stats (File 5))]))]"
    by (intro entry sameFile noEntry inDir inner)
  have r: "reorderedListing
     [(''a'', Stats (File 3)),
      (''d'', Stats (Dir 4096 [(''b'', Stats (File 5)), (''c'', Stats (File 7))]))]
     [(''d'', Stats (Dir 4096 [(''c'', Stats (File 7)), (''b'', Stats (File 5))])),
      (''a'', Stats (File 3))]"
    by (rule permuted [OF outer]) simp
  from getDirectorySize_sum [OF readable bound, of "''Code.app''"] readable total r
  show ?thesis by (simp del: getDirectorySize.simps)
qed

text \<open>
  C4, as the spec has it, fails. From \<open>2 ^ 53\<close> bytes on the sum is rounded at every step:
  the same three files give one total listed largest first and another listed largest
  last, and only the second is the sum of their sizes. And an entry on which
  \<^verbatim>\<open>statSync\<close> throws ends the traversal with that error instead of a size.
\<close>

theorem getDirectorySize_counterexample:
  "getDirectorySize ''Code.app''
     [(''a'', Stats (File 9007199254740992)), (''b'', Stats (File 1)), (''c'', Stats (File 1))]
     = Inr 9007199254740992 \<and>
   getDirectorySize ''Code.app''
     [(''b'', Stats (File 1)), (''c'', Stats (File 1)), (''a'', Stats (File 9007199254740992))]
     = Inr 9007199254740994 \<and>
   sum_mset (listingSizes
     [(''a'', Stats (File 9007199254740992)), (''b'', Stats (File 1)), (''c'', Stats (File 1))])
     = 9007199254740994 \<and>
   getDirectorySize ''Code.app'' [(''a'', Stats (File 5)), (''gone'', StatThrows ENOENT)]
     = Inl (SystemError ENOENT ''stat'' ''Code.app/gone'')"
proof -
  have b: "bitLength 9007199254740993 = 54" "bitLength 9007199254740994 = 54"
    by (simp_all add: bitLength.simps)
  have tie: "roundDouble 9007199254740993 = 9007199254740992"
    "roundDouble 9007199254740994 = 9007199254740994"
    by (simp_all add: roundDouble_def Let_def b)
  have a: "addDouble 0 9007199254740992 = 9007199254740992"
    "addDouble 9007199254740992 1 = 9007199254740992"
    "addDouble 0 1 = 1" "addDouble 1 1 = 2"
    "addDouble 2 9007199254740992 = 9007199254740994"
    "addDouble 0 5 = 5"
    by (simp_all add: addDouble_def tie roundDouble_exact)
  have first: "getDirectorySize ''Code.app''
     [(''a'', Stats (File 9007199254740992)), (''b'', Stats (File 1)), (''c'', Stats (File 1))]
     = Inr 9007199254740992"
    by (simp only: getDirectorySize.simps sumEntries.simps a)
  have second: "getDirectorySize ''Code.app''
     [(''b'', Stats (File 1)), (''c'', Stats (File 1)), (''a'', Stats (File 9007199254740992))]
     = Inr 9007199254740994"
    by (simp only: getDirectorySize.simps sumEntries.simps a)
  have total: "sum_mset (listingSizes
     [(''a'', Stats (File 9007199254740992)), (''b'', Stats (File 1)), (''c'', Stats (File 1))])
     = 9007199254740994"
    by simp
  have j: "pathJoin ''Code.app'' ''gone'' = ''Code.app/gone''"
    by code_simp
  have third: "getDirectorySize ''Code.app'' [(''a'', Stats (File 5)), (''gone'', StatThrows ENOENT)]
     = Inl (SystemError ENOENT ''stat'' ''Code.app/gone'')"
    by (simp only: getDirectorySize.simps sumEntries.simps a j)
  from first second total third show ?thesis by blast
qed

section \<open>The precondition and the command line\<close>

lemma fold_consoleLog: "fold consoleLog ms w = w\<lparr>events := events w @ map ConsoleLog ms\<rparr>"
  by (induction ms arbitrary: w) (simp_all add: consoleLog_def)

text \<open>
  C5. When nothing exists at the source path, \<^verbatim>\<open>createDMG\<close> throws the not-found error at
  once and the world is as it was: no file is made or removed, at the output path, at the
  temporary path or anywhere else, no command runs and nothing is printed.
\<close>

theorem createDMG_missing_source:
  "\<not> existsSync (files w) appPath \<Longrightarrow>
   createDMG sh nameLong appPath outputPath w = (Inl (Error (''App not found: '' @ appPath)), w)"
  by (simp add: createDMG_def)

theorem createDMG_missing_source_witness:
  "\<not> existsSync (files (start (\<lambda>p. None))) ''Code.app'' \<and>
   createDMG quietShell None ''Code.app'' ''out.dmg'' (start (\<lambda>p. None))
     = (Inl (Error ''App not found: Code.app''), start (\<lambda>p. None))"
  using createDMG_missing_source [of "start (\<lambda>p. None)" "''Code.app''" quietShell None "''out.dmg''"]
  by (simp add: existsSync_def start_def)

text \<open>
  C8. With fewer than two arguments the process prints the usage text and exits with
  status 1; the files and the state behind the shell are untouched and the trace gains
  only the four console lines, so \<^verbatim>\<open>createDMG\<close> is not entered and nothing is written.
\<close>

theorem main_usage:
  "length args < 2 \<Longrightarrow>
   main sh nameLong args w = (1, w\<lparr>events := events w @ map ConsoleLog usage\<rparr>)"
  by (simp add: main_def fold_consoleLog)

theorem main_usage_witness:
  "length [''Code.app''] < 2 \<and>
   main quietShell None [''Code.app''] (start (\<lambda>p. None))
     = (1, (start (\<lambda>p. None))\<lparr>events := map ConsoleLog usage\<rparr>)"
  using main_usage [of "[''Code.app'']" quietShell None "start (\<lambda>p. None)"]
  by (simp add: start_def)

section \<open>The temporary path\<close>

lemma replace_absent: "\<not> occursIn pat s \<Longrightarrow> replace pat rep s = s"
  by (induction s) auto

lemma replace_length:
  "occursIn pat s \<Longrightarrow> length (replace pat rep s) + length pat = length s + length rep"
proof (induction s)
  case Nil
  then show ?case by simp
next
  case (Cons c cs)
  show ?case
  proof (cases "take (length pat) (c # cs) = pat")
    case True
    from arg_cong [OF True, of length] have "length pat \<le> length (c # cs)"
      by simp
    with True show ?thesis by simp
  next
    case False
    with Cons show ?thesis by simp
  qed
qed

lemma replace_dmg_at_end:
  "\<not> occursIn ''.dmg'' stem \<Longrightarrow> replace ''.dmg'' rep (stem @ ''.dmg'') = stem @ rep"
proof (induction stem)
  case Nil
  show ?case by simp
next
  case (Cons c cs)
  from Cons.prems have here: "take (length ''.dmg'') (c # cs) \<noteq> ''.dmg''"
    and rest: "\<not> occursIn ''.dmg'' cs"
    by simp_all
  have "take (length ''.dmg'') ((c # cs) @ ''.dmg'') \<noteq> ''.dmg''"
  proof
    assume eq: "take (length ''.dmg'') ((c # cs) @ ''.dmg'') = ''.dmg''"
    show False
    proof (cases cs)
      case Nil
      with eq show False by simp
    next
      case c1: (Cons x1 r1)
      show False
      proof (cases r1)
        case Nil
        with eq c1 show False by simp
      next
        case c2: (Cons x2 r2)
        show False
        proof (cases r2)
          case Nil
          with eq c1 c2 show False by simp
        next
          case (Cons x3 r3)
          with eq c1 c2 here show False by simp
        qed
      qed
    qed
  qed
  then have "replace ''.dmg'' rep ((c # cs) @ ''.dmg'') = c # replace ''.dmg'' rep (cs @ ''.dmg'')"
    by (simp only: append_Cons replace.simps if_False)
  then show ?case using Cons.IH [OF rest] by simp
qed

lemma dirname_scan:
  assumes "t \<noteq> []" "slash \<notin> set t"
  shows "dropWhile (\<lambda>c. c \<noteq> slash) (dropWhile (\<lambda>c. c = slash) (rev t @ ys))
         = dropWhile (\<lambda>c. c \<noteq> slash) ys"
proof -
  have r: "rev t = last t # rev (butlast t)"
    using assms(1) by (cases t rule: rev_cases) auto
  have a: "last t \<noteq> slash"
    using assms by (metis last_in_set)
  have "dropWhile (\<lambda>c. c = slash) (rev t @ ys) = rev t @ ys"
    unfolding r using a by simp
  moreover have "dropWhile (\<lambda>c. c \<noteq> slash) (rev t @ ys) = dropWhile (\<lambda>c. c \<noteq> slash) ys"
    using assms(2) by (intro dropWhile_append2) auto
  ultimately show ?thesis by simp
qed

lemma dirname_Cons:
  "dirname (c # cs) =
     (if dropWhile (\<lambda>c. c \<noteq> slash) (dropWhile (\<lambda>c. c = slash) (rev cs)) = []
      then (if c = slash then ''/'' else ''.'')
      else if c = slash \<and> tl (dropWhile (\<lambda>c. c \<noteq> slash) (dropWhile (\<lambda>c. c = slash) (rev cs))) = []
           then ''//''
           else c # rev (tl (dropWhile (\<lambda>c. c \<noteq> slash) (dropWhile (\<lambda>c. c = slash) (rev cs)))))"
  by (simp only: dirname_def Let_def list.sel list.distinct if_False)

lemma dirname_Cons_last:
  assumes "t \<noteq> []" "slash \<notin> set t"
  shows "dirname (c # cs @ t) = dirname (c # cs @ [CHR ''x''])"
proof -
  have x: "[CHR ''x''] \<noteq> []" "slash \<notin> set [CHR ''x'']" by (simp_all add: slash_def)
  show ?thesis
    unfolding dirname_Cons rev_append dirname_scan [OF assms] dirname_scan [OF x] ..
qed

lemma dirname_single:
  assumes "t \<noteq> []" "slash \<notin> set t"
  shows "dirname t = ''.''"
proof -
  from assms obtain a as where t: "t = a # as" and a: "a \<noteq> slash" "slash \<notin> set as"
    by (cases t) auto
  have E: "dropWhile (\<lambda>c. c \<noteq> slash) (dropWhile (\<lambda>c. c = slash) (rev as)) = []"
  proof (cases "as = []")
    case True
    then show ?thesis by simp
  next
    case False
    show ?thesis
      using dirname_scan [OF False a(2), of "[]"] by (simp only: append_Nil2 dropWhile.simps)
  qed
  show ?thesis unfolding t dirname_Cons E using a(1) by simp
qed

lemma dirname_last_component:
  assumes "t \<noteq> []" "slash \<notin> set t" "t' \<noteq> []" "slash \<notin> set t'"
  shows "dirname (stem @ t) = dirname (stem @ t')"
proof (cases stem)
  case Nil
  then show ?thesis using dirname_single assms by simp
next
  case (Cons c cs)
  then show ?thesis
    using dirname_Cons_last [OF assms(1,2), of c cs] dirname_Cons_last [OF assms(3,4), of c cs]
    by simp
qed

text \<open>
  What line 40 is written for: when the output path ends in \<^verbatim>\<open>.dmg\<close> and has no
  \<^verbatim>\<open>.dmg\<close> before that, the temporary path is the same path with \<^verbatim>\<open>-temp\<close> put before
  the extension, in the same directory; and whenever the output path contains
  \<^verbatim>\<open>.dmg\<close>, the temporary path differs from it.
\<close>

lemma tempDmgPathOf_extension:
  "(occursIn ''.dmg'' outputPath \<longrightarrow> tempDmgPathOf outputPath \<noteq> outputPath) \<and>
   (\<not> occursIn ''.dmg'' stem \<longrightarrow>
      tempDmgPathOf (stem @ ''.dmg'') = stem @ ''-temp'' @ ''.dmg'' \<and>
      dirname (tempDmgPathOf (stem @ ''.dmg'')) = dirname (stem @ ''.dmg''))"
proof (intro conjI impI)
  assume "occursIn ''.dmg'' outputPath"
  from replace_length [OF this, of "''-temp.dmg''"]
  have "length (tempDmgPathOf outputPath) = length outputPath + 5"
    by (simp add: tempDmgPathOf_def)
  then show "tempDmgPathOf outputPath \<noteq> outputPath" by auto
next
  assume stem: "\<not> occursIn ''.dmg'' stem"
  then show eq: "tempDmgPathOf (stem @ ''.dmg'') = stem @ ''-temp'' @ ''.dmg''"
    by (simp add: tempDmgPathOf_def replace_dmg_at_end)
  have "dirname (stem @ ''-temp.dmg'') = dirname (stem @ ''.dmg'')"
    by (rule dirname_last_component) (simp_all add: slash_def)
  with eq show "dirname (tempDmgPathOf (stem @ ''.dmg'')) = dirname (stem @ ''.dmg'')"
    by simp
qed

lemma tempDmgPathOf_extension_example:
  "occursIn ''.dmg'' ''out/Code.dmg'' \<and>
   tempDmgPathOf ''out/Code.dmg'' \<noteq> ''out/Code.dmg'' \<and>
   \<not> occursIn ''.dmg'' ''out/Code'' \<and>
   tempDmgPathOf (''out/Code'' @ ''.dmg'') = ''out/Code'' @ ''-temp'' @ ''.dmg'' \<and>
   dirname (tempDmgPathOf (''out/Code'' @ ''.dmg'')) = dirname (''out/Code'' @ ''.dmg'')"
proof -
  have a: "occursIn ''.dmg'' ''out/Code.dmg''" by code_simp
  have b: "\<not> occursIn ''.dmg'' ''out/Code''" by code_simp
  from a b tempDmgPathOf_extension [of "''out/Code.dmg''" "''out/Code''"]
  show ?thesis by blast
qed

text \<open>
  C6. Line 40 rewrites the first occurrence of \<^verbatim>\<open>.dmg\<close> in the output path, which need not
  be its extension. For the output path \<^verbatim>\<open>/b.dmg/out.dmg\<close> the temporary path is
  \<^verbatim>\<open>/b-temp.dmg/out.dmg\<close>: it has the base name of the output path, with no suffix, and
  it lies in the directory \<^verbatim>\<open>/b-temp.dmg\<close>, where the output path lies in \<^verbatim>\<open>/b.dmg\<close>,
  so it is not a sibling. For an output path with no \<^verbatim>\<open>.dmg\<close> in it, such as
  \<^verbatim>\<open>out.img\<close>, nothing is rewritten, and the temporary path is the output path itself.
\<close>

theorem tempDmgPathOf_first_occurrence:
  "tempDmgPathOf ''/b.dmg/out.dmg'' = ''/b-temp.dmg/out.dmg'' \<and>
   dirname (tempDmgPathOf ''/b.dmg/out.dmg'') = ''/b-temp.dmg'' \<and>
   dirname ''/b.dmg/out.dmg'' = ''/b.dmg'' \<and>
   tempDmgPathOf ''out.img'' = ''out.img''"
  by code_simp

section \<open>The capacity in whole numbers\<close>

lemma ceil_div_int:
  fixes a b :: int
  assumes "0 < b"
  shows "- (- a div b) = (a + b - 1) div b"
proof -
  define q where "q = (a + b - 1) div b"
  define m where "m = (a + b - 1) mod b"
  have e: "a + b - 1 = b * q + m" by (simp add: q_def m_def)
  have m: "0 \<le> m" "m < b" using assms by (simp_all add: m_def)
  have "- a = b * (- q) + (b - 1 - m)" using e by (simp add: algebra_simps)
  moreover have "0 \<le> b - 1 - m" "b - 1 - m < b" using m by simp_all
  ultimately have "- a div b = - q"
    by (metis assms div_pos_pos_trivial add.right_neutral div_mult_self4 less_irrefl)
  then show ?thesis by (simp add: q_def)
qed

lemma requiredSizeMB_div [code]: "requiredSizeMB appSize = (appSize + 1048575) div 1048576 + 50"
proof -
  have "\<lceil>real appSize / (1024 * 1024)\<rceil> = - (- int appSize div 1048576)"
    using ceiling_divide_eq_div [of "int appSize" 1048576, where ?'a = real] by simp
  also have "\<dots> = (int appSize + 1048576 - 1) div 1048576"
    by (rule ceil_div_int) simp
  finally have "nat \<lceil>real appSize / (1024 * 1024)\<rceil> = nat ((int appSize + 1048575) div 1048576)"
    by simp
  also have "\<dots> = (appSize + 1048575) div 1048576"
    by (simp add: nat_div_distrib nat_add_distrib)
  finally show ?thesis by (simp add: requiredSizeMB_def)
qed

lemma roundMB_div [code]: "roundMB bytes = (bytes + 524288) div 1048576"
proof -
  have eq: "real bytes / (1024 * 1024) + 1 / 2 = (real bytes + 524288) / 1048576"
    by (simp add: add_divide_distrib)
  have "\<lfloor>(real bytes + 524288) / 1048576\<rfloor> = (int bytes + 524288) div 1048576"
    using floor_divide_of_int_eq [of "int bytes + 524288" 1048576, where ?'a = real] by simp
  then have "roundMB bytes = nat ((int bytes + 524288) div 1048576)"
    unfolding roundMB_def eq by simp
  also have "\<dots> = (bytes + 524288) div 1048576"
    by (simp add: nat_div_distrib nat_add_distrib)
  finally show ?thesis .
qed

section \<open>How a run of the pipeline unfolds\<close>

lemma consoleLog_simps [simp]:
  "files (consoleLog m w) = files w"
  "ext (consoleLog m w) = ext w"
  "events (consoleLog m w) = events w @ [ConsoleLog m]"
  by (simp_all add: consoleLog_def)

lemma getDirectorySizeAt_error:
  "getDirectorySizeAt fs p = Inl e \<Longrightarrow> \<exists>code syscall q. e = SystemError code syscall q"
  by (auto simp: getDirectorySizeAt_def simp del: getDirectorySize.simps
        split: option.splits node.splits dest: traversal_error(1))

lemma unlinkIfExists_error:
  "unlinkIfExists p w = (Inl e, w') \<Longrightarrow> \<exists>code. e = SystemError code ''unlink'' p"
  by (auto simp: unlinkIfExists_def unlinkSync_def split: if_splits option.splits node.splits)

lemma unlinkIfExists_ok:
  "unlinkIfExists p w = (Inr u, w') \<Longrightarrow> \<not> existsSync (files w') p"
  by (auto simp: unlinkIfExists_def unlinkSync_def existsSync_def
           split: if_splits option.splits node.splits)

lemma ensureOutputDir_error:
  "ensureOutputDir p w = (Inl e, w') \<Longrightarrow> \<exists>code. e = SystemError code ''mkdir'' (dirname p)"
  by (auto simp: ensureOutputDir_def mkdirSyncRecursive_def Let_def split: if_splits)

text \<open>
  The ways through \<^verbatim>\<open>createDMG\<close> once the source exists: it stops at the measurement, at
  the output directory, or at one of the two stale files, or it runs the guarded block.
\<close>

lemma createDMG_cases [consumes 2]:
  assumes src: "existsSync (files w) appPath"
    and run: "createDMG sh nameLong appPath outputPath w = (r, w')"
  obtains
    (scandir) e where "getDirectorySizeAt (files w) appPath = Inl e" "r = Inl e" "w' = w"
  | (mkdir) appSize e where "getDirectorySizeAt (files w) appPath = Inr appSize"
      "ensureOutputDir outputPath
         (consoleLog (''Creating DMG with '' @ toString (requiredSizeMB appSize) @ ''MB capacity...'')
            (consoleLog (''App size: '' @ toString (roundMB appSize) @ ''MB'') w)) = (Inl e, w')"
      "r = Inl e"
  | (unlinkTemp) appSize w1 e where "getDirectorySizeAt (files w) appPath = Inr appSize"
      "ensureOutputDir outputPath
         (consoleLog (''Creating DMG with '' @ toString (requiredSizeMB appSize) @ ''MB capacity...'')
            (consoleLog (''App size: '' @ toString (roundMB appSize) @ ''MB'') w)) = (Inr (), w1)"
      "unlinkIfExists (tempDmgPathOf outputPath) w1 = (Inl e, w')"
      "r = Inl e"
  | (unlinkOutput) appSize w1 w2 e where "getDirectorySizeAt (files w) appPath = Inr appSize"
      "ensureOutputDir outputPath
         (consoleLog (''Creating DMG with '' @ toString (requiredSizeMB appSize) @ ''MB capacity...'')
            (consoleLog (''App size: '' @ toString (roundMB appSize) @ ''MB'') w)) = (Inr (), w1)"
      "unlinkIfExists (tempDmgPathOf outputPath) w1 = (Inr (), w2)"
      "unlinkIfExists outputPath w2 = (Inl e, w')"
      "r = Inl e"
  | (guarded) appSize w1 w2 w3 where "getDirectorySizeAt (files w) appPath = Inr appSize"
      "ensureOutputDir outputPath
         (consoleLog (''Creating DMG with '' @ toString (requiredSizeMB appSize) @ ''MB capacity...'')
            (consoleLog (''App size: '' @ toString (roundMB appSize) @ ''MB'') w)) = (Inr (), w1)"
      "unlinkIfExists (tempDmgPathOf outputPath) w1 = (Inr (), w2)"
      "unlinkIfExists outputPath w2 = (Inr (), w3)"
      "tryFinally
         (tryBlock sh appPath outputPath (volumeNameOf nameLong) (requiredSizeMB appSize)
            (tempDmgPathOf outputPath))
         (unlinkIfExists (tempDmgPathOf outputPath)) w3 = (r, w')"
proof (cases "getDirectorySizeAt (files w) appPath")
  case (Inl e)
  with src run have "r = Inl e" "w' = w" by (simp_all add: createDMG_def)
  with Inl show ?thesis by (rule scandir)
next
  case (Inr appSize)
  define w0 where "w0 =
     consoleLog (''Creating DMG with '' @ toString (requiredSizeMB appSize) @ ''MB capacity...'')
       (consoleLog (''App size: '' @ toString (roundMB appSize) @ ''MB'') w)"
  define build where "build = clearAndBuild sh appPath outputPath (volumeNameOf nameLong)
      (requiredSizeMB appSize) (tempDmgPathOf outputPath)"
  from src run Inr have run0: "andThen (ensureOutputDir outputPath) (\<lambda>u. build) w0 = (r, w')"
    by (simp add: createDMG_def logThen_def w0_def build_def)
  obtain r1 w1 where s1: "ensureOutputDir outputPath w0 = (r1, w1)"
    by (cases "ensureOutputDir outputPath w0")
  show ?thesis
  proof (cases r1)
    case (Inl e)
    with run0 s1 have "r = Inl e" "w1 = w'" by (simp_all add: andThen_def)
    with Inr s1 Inl show ?thesis unfolding w0_def by (intro mkdir) simp_all
  next
    case u1: (Inr u)
    with run0 s1 have run1: "build w1 = (r, w')" by (simp add: andThen_def)
    from s1 u1 have s1': "ensureOutputDir outputPath w0 = (Inr (), w1)" by simp
    obtain r2 w2 where s2: "unlinkIfExists (tempDmgPathOf outputPath) w1 = (r2, w2)"
      by (cases "unlinkIfExists (tempDmgPathOf outputPath) w1")
    show ?thesis
    proof (cases r2)
      case (Inl e)
      with run1 s2 have "r = Inl e" "w2 = w'"
        by (simp_all add: build_def clearAndBuild_def andThen_def)
      with Inr s1' s2 Inl show ?thesis unfolding w0_def by (intro unlinkTemp) simp_all
    next
      case u2: (Inr u)
      from s2 u2 have s2': "unlinkIfExists (tempDmgPathOf outputPath) w1 = (Inr (), w2)" by simp
      obtain r3 w3 where s3: "unlinkIfExists outputPath w2 = (r3, w3)"
        by (cases "unlinkIfExists outputPath w2")
      show ?thesis
      proof (cases r3)
        case (Inl e)
        with run1 s2 u2 s3 have "r = Inl e" "w3 = w'"
          by (simp_all add: build_def clearAndBuild_def andThen_def)
        with Inr s1' s2' s3 Inl show ?thesis unfolding w0_def by (intro unlinkOutput) simp_all
      next
        case u3: (Inr u)
        from s3 u3 have s3': "unlinkIfExists outputPath w2 = (Inr (), w3)" by simp
        from run1 s2 u2 s3 u3 have "tryFinally
             (tryBlock sh appPath outputPath (volumeNameOf nameLong) (requiredSizeMB appSize)
                (tempDmgPathOf outputPath))
             (unlinkIfExists (tempDmgPathOf outputPath)) w3 = (r, w')"
          by (simp add: build_def clearAndBuild_def andThen_def)
        with Inr s1' s2' s3' show ?thesis unfolding w0_def by (intro guarded) simp_all
      qed
    qed
  qed
qed

text \<open>A \<^verbatim>\<open>finally\<close> block: the two runs it is made of, and whose outcome it ends with.\<close>

lemma tryFinally_cases [consumes 1]:
  assumes "tryFinally body finalizer w = (r, w')"
  obtains (finalizerThrew) r1 w1 e where "body w = (r1, w1)" "finalizer w1 = (Inl e, w')" "r = Inl e"
  | (finalizerDone) w1 where "body w = (r, w1)" "finalizer w1 = (Inr (), w')"
proof -
  obtain r1 w1 where b: "body w = (r1, w1)" by (cases "body w")
  obtain r2 w2 where f: "finalizer w1 = (r2, w2)" by (cases "finalizer w1")
  show ?thesis
  proof (cases r2)
    case (Inl e)
    with assms b f have "r = Inl e" "w2 = w'" by (simp_all add: tryFinally_def)
    with b f Inl show ?thesis by (intro finalizerThrew) simp_all
  next
    case (Inr u)
    with assms b f have "r = r1" "w2 = w'" by (simp_all add: tryFinally_def)
    with b f Inr show ?thesis by (intro finalizerDone) simp_all
  qed
qed

section \<open>The example run\<close>

lemma example_paths:
  "tempDmgPathOf ''out.dmg'' = ''out-temp.dmg''"
  "dirname ''out.dmg'' = ''.''"
  "pathJoin ''/Volumes/Code'' ''Applications'' = ''/Volumes/Code/Applications''"
  "trim ''/Volumes/Code'' = ''/Volumes/Code''"
  "matchVolumes exampleMountOutput = Some ''/Volumes/Code''"
  by code_simp+

lemma example_numbers:
  "getDirectorySizeAt exampleFiles ''Code.app'' = Inr 838860800"
  "requiredSizeMB 838860800 = 850"
  "roundMB 838860800 = 800"
  "roundMB 300 = 0"
  by (simp_all add: getDirectorySizeAt_def exampleFiles_def requiredSizeMB_div roundMB_div
        addDouble_def roundDouble_def)

lemma example_digits:
  "toString 850 = ''850''"
  "toString 800 = ''800''"
  "toString 0 = ''0''"
  by code_simp+

lemmas run_defs =
  createDMG_def clearAndBuild_def tryBlock_def mounted_def convertAndReport_def unmount_def
  addApplicationsLink_def ensureOutputDir_def unlinkIfExists_def unlinkSync_def
  execSync_def andThen_def logThen_def tryFinally_def statSyncSize_def existsSync_def
  createCommand_def attachCommand_def linkCommand_def detachCommand_def convertCommand_def
  volumeNameOf_def dq_def start_def Let_def

lemmas example_defs =
  run_defs example_paths example_numbers example_digits exampleShell_def

lemma exampleFiles_simps [simp]:
  "exampleFiles ''Code.app''
     = Some (Dir 96 [(''Contents'', Stats (Dir 128 [(''MacOS'', Stats (File 838860000)), (''Info.plist'', Stats (File 800))]))])"
  "exampleFiles ''.'' = Some (Dir 64 [])"
  "exampleFiles ''out.dmg'' = Some (File 111)"
  "exampleFiles ''out-temp.dmg'' = None"
  "exampleFiles ''/Volumes/Code/Applications'' = None"
  by (simp_all add: exampleFiles_def)

section \<open>Cleanup of the temporary image\<close>

text \<open>
  C1. When the source exists and has been measured, and the run ends in success, or with
  an error thrown inside the guarded block (a command that failed, the mount point that
  could not be parsed, the final \<^verbatim>\<open>stat\<close>), nothing exists at the temporary path when
  \<^verbatim>\<open>createDMG\<close> returns: the \<^verbatim>\<open>finally\<close> block has run whichever stage failed. The errors
  left out are those of the system calls before the block and of the cleanup's own
  \<^verbatim>\<open>unlink\<close>.
\<close>

theorem createDMG_removes_temporary:
  assumes src: "existsSync (files w) appPath"
    and measured: "getDirectorySizeAt (files w) appPath = Inr appSize"
    and run: "createDMG sh nameLong appPath outputPath w = (r, w')"
    and stage: "\<forall>code syscall p. r = Inl (SystemError code syscall p) \<longrightarrow> syscall = ''stat''"
  shows "\<not> existsSync (files w') (tempDmgPathOf outputPath)"
  using src run
proof (cases rule: createDMG_cases)
  case (scandir e)
  with measured show ?thesis by simp
next
  case (mkdir appSize e)
  with ensureOutputDir_error [OF mkdir(2)] stage show ?thesis by auto
next
  case (unlinkTemp appSize w1 e)
  with unlinkIfExists_error [OF unlinkTemp(3)] stage show ?thesis by auto
next
  case (unlinkOutput appSize w1 w2 e)
  with unlinkIfExists_error [OF unlinkOutput(4)] stage show ?thesis by auto
next
  case (guarded appSize w1 w2 w3)
  from guarded(5) show ?thesis
  proof (cases rule: tryFinally_cases)
    case (finalizerThrew r1 w4 e)
    with unlinkIfExists_error [OF finalizerThrew(2)] stage show ?thesis by auto
  next
    case (finalizerDone w4)
    then show ?thesis by (auto dest: unlinkIfExists_ok)
  qed
qed

theorem createDMG_removes_temporary_witness:
  "existsSync (files (start exampleFiles)) ''Code.app'' \<and>
   getDirectorySizeAt (files (start exampleFiles)) ''Code.app'' = Inr 838860800 \<and>
   fst (createDMG (exampleShell ''hdiutil attach'') None ''Code.app'' ''out.dmg'' (start exampleFiles))
     = Inl (CommandFailed (attachCommand ''out-temp.dmg'') 1) \<and>
   UnlinkSync ''out-temp.dmg'' \<in> set (events (snd
     (createDMG (exampleShell ''hdiutil attach'') None ''Code.app'' ''out.dmg'' (start exampleFiles)))) \<and>
   \<not> existsSync (files (snd
     (createDMG (exampleShell ''hdiutil attach'') None ''Code.app'' ''out.dmg'' (start exampleFiles))))
     (tempDmgPathOf ''out.dmg'')"
proof -
  have src: "existsSync (files (start exampleFiles)) ''Code.app''"
    by (simp add: example_defs)
  have r: "fst (createDMG (exampleShell ''hdiutil attach'') None ''Code.app'' ''out.dmg'' (start exampleFiles))
     = Inl (CommandFailed (attachCommand ''out-temp.dmg'') 1)"
    by (simp add: example_defs)
  have u: "UnlinkSync ''out-temp.dmg'' \<in> set (events (snd
     (createDMG (exampleShell ''hdiutil attach'') None ''Code.app'' ''out.dmg'' (start exampleFiles))))"
    by (simp add: example_defs)
  define R where
    "R = createDMG (exampleShell ''hdiutil attach'') None ''Code.app'' ''out.dmg'' (start exampleFiles)"
  have run: "createDMG (exampleShell ''hdiutil attach'') None ''Code.app'' ''out.dmg'' (start exampleFiles)
      = (fst R, snd R)"
    by (simp add: R_def)
  have stage: "\<forall>code syscall p. fst R = Inl (SystemError code syscall p) \<longrightarrow> syscall = ''stat''"
    using r by (simp add: R_def)
  have measured: "getDirectorySizeAt (files (start exampleFiles)) ''Code.app'' = Inr 838860800"
    by (simp add: start_def example_numbers)
  from createDMG_removes_temporary [OF src measured run stage]
  have "\<not> existsSync (files (snd R)) (tempDmgPathOf ''out.dmg'')" .
  with src measured r u show ?thesis unfolding R_def by blast
qed

section \<open>The guarded block, stage by stage\<close>

lemma execSync_events:
  "execSync sh command w = (r, w') \<Longrightarrow> events w' = events w @ [ExecSync command]"
  by (auto simp: execSync_def split: prod.splits)

lemma execSync_error:
  "execSync sh command w = (Inl e, w') \<Longrightarrow> \<exists>status. e = CommandFailed command status"
  by (auto simp: execSync_def split: prod.splits if_splits)

lemma execSync_files:
  "execSync sh command w = (r, w') \<Longrightarrow> files w' = fst (snd (sh command (files w) (ext w)))"
  by (auto simp: execSync_def split: prod.splits)

lemma tryBlock_cases [consumes 1]:
  assumes "tryBlock sh appPath outputPath volumeName requiredSize tempDmgPath w = (r, w')"
  obtains
    (createFailed) e where
      "execSync sh (createCommand appPath volumeName requiredSize tempDmgPath)
         (consoleLog ''Creating temporary DMG...'' w) = (Inl e, w')"
      "r = Inl e"
  | (attachFailed) out w1 e where
      "execSync sh (createCommand appPath volumeName requiredSize tempDmgPath)
         (consoleLog ''Creating temporary DMG...'' w) = (Inr out, w1)"
      "execSync sh (attachCommand tempDmgPath)
         (consoleLog ''Mounting DMG to add Applications symlink...'' w1) = (Inl e, w')"
      "r = Inl e"
  | (parseFailed) out w1 mountOutput where
      "execSync sh (createCommand appPath volumeName requiredSize tempDmgPath)
         (consoleLog ''Creating temporary DMG...'' w) = (Inr out, w1)"
      "execSync sh (attachCommand tempDmgPath)
         (consoleLog ''Mounting DMG to add Applications symlink...'' w1) = (Inr mountOutput, w')"
      "matchVolumes mountOutput = None"
      "r = Inl (Error ''Failed to parse mount point from hdiutil output'')"
  | (wasMounted) out w1 mountOutput w2 mountMatch where
      "execSync sh (createCommand appPath volumeName requiredSize tempDmgPath)
         (consoleLog ''Creating temporary DMG...'' w) = (Inr out, w1)"
      "execSync sh (attachCommand tempDmgPath)
         (consoleLog ''Mounting DMG to add Applications symlink...'' w1) = (Inr mountOutput, w2)"
      "matchVolumes mountOutput = Some mountMatch"
      "mounted sh tempDmgPath outputPath (trim mountMatch) w2 = (r, w')"
proof -
  obtain r1 w1 where s1:
    "execSync sh (createCommand appPath volumeName requiredSize tempDmgPath)
       (consoleLog ''Creating temporary DMG...'' w) = (r1, w1)"
    by (cases "execSync sh (createCommand appPath volumeName requiredSize tempDmgPath)
                 (consoleLog ''Creating temporary DMG...'' w)")
  show ?thesis
  proof (cases r1)
    case (Inl e)
    with assms s1 have "r = Inl e" "w1 = w'"
      by (simp_all add: tryBlock_def logThen_def andThen_def)
    with s1 Inl show ?thesis by (intro createFailed) simp_all
  next
    case c: (Inr out)
    obtain r2 w2 where s2:
      "execSync sh (attachCommand tempDmgPath)
         (consoleLog ''Mounting DMG to add Applications symlink...'' w1) = (r2, w2)"
      by (cases "execSync sh (attachCommand tempDmgPath)
                   (consoleLog ''Mounting DMG to add Applications symlink...'' w1)")
    show ?thesis
    proof (cases r2)
      case (Inl e)
      with assms s1 c s2 have "r = Inl e" "w2 = w'"
        by (simp_all add: tryBlock_def logThen_def andThen_def)
      with s1 c s2 Inl show ?thesis by (intro attachFailed) simp_all
    next
      case a: (Inr mountOutput)
      show ?thesis
      proof (cases "matchVolumes mountOutput")
        case None
        with assms s1 c s2 a
        have "r = Inl (Error ''Failed to parse mount point from hdiutil output'')" "w2 = w'"
          by (simp_all add: tryBlock_def logThen_def andThen_def)
        with s1 c s2 a None show ?thesis by (intro parseFailed) simp_all
      next
        case (Some mountMatch)
        with assms s1 c s2 a
        have "mounted sh tempDmgPath outputPath (trim mountMatch) w2 = (r, w')"
          by (simp add: tryBlock_def logThen_def andThen_def)
        with s1 c s2 a Some show ?thesis by (intro wasMounted) simp_all
      qed
    qed
  qed
qed

lemma mounted_cases [consumes 1]:
  assumes "mounted sh tempDmgPath outputPath mountPoint w = (r, w')"
  obtains
    (detachFailed) r1 w1 e where
      "addApplicationsLink sh mountPoint (consoleLog (''Mounted at: '' @ mountPoint) w) = (r1, w1)"
      "unmount sh mountPoint w1 = (Inl e, w')"
      "r = Inl e"
  | (linkFailed) e w1 where
      "addApplicationsLink sh mountPoint (consoleLog (''Mounted at: '' @ mountPoint) w) = (Inl e, w1)"
      "unmount sh mountPoint w1 = (Inr (), w')"
      "r = Inl e"
  | (converted) w1 w2 where
      "addApplicationsLink sh mountPoint (consoleLog (''Mounted at: '' @ mountPoint) w) = (Inr (), w1)"
      "unmount sh mountPoint w1 = (Inr (), w2)"
      "convertAndReport sh tempDmgPath outputPath w2 = (r, w')"
proof -
  obtain rs ws where s:
    "tryFinally (addApplicationsLink sh mountPoint) (unmount sh mountPoint)
       (consoleLog (''Mounted at: '' @ mountPoint) w) = (rs, ws)"
    by (cases "tryFinally (addApplicationsLink sh mountPoint) (unmount sh mountPoint)
                 (consoleLog (''Mounted at: '' @ mountPoint) w)")
  from s show ?thesis
  proof (cases rule: tryFinally_cases)
    case (finalizerThrew r1 w1 e)
    with assms s have "r = Inl e" "ws = w'" by (simp_all add: mounted_def logThen_def andThen_def)
    with finalizerThrew show ?thesis by (intro detachFailed) simp_all
  next
    case (finalizerDone w1)
    show ?thesis
    proof (cases rs)
      case (Inl e)
      with assms s have "r = Inl e" "ws = w'" by (simp_all add: mounted_def logThen_def andThen_def)
      with finalizerDone Inl show ?thesis by (intro linkFailed) simp_all
    next
      case (Inr u)
      with assms s have "convertAndReport sh tempDmgPath outputPath ws = (r, w')"
        by (simp add: mounted_def logThen_def andThen_def)
      with finalizerDone Inr show ?thesis by (intro converted) simp_all
    qed
  qed
qed

lemma addApplicationsLink_cases [consumes 1]:
  assumes "addApplicationsLink sh mountPoint w = (r, w')"
  obtains
    (present) "existsSync (files w) (pathJoin mountPoint ''Applications'')" "r = Inr ()" "w' = w"
  | (linkFailed) e where "\<not> existsSync (files w) (pathJoin mountPoint ''Applications'')"
      "execSync sh (linkCommand (pathJoin mountPoint ''Applications'')) w = (Inl e, w')" "r = Inl e"
  | (linked) out w1 where "\<not> existsSync (files w) (pathJoin mountPoint ''Applications'')"
      "execSync sh (linkCommand (pathJoin mountPoint ''Applications'')) w = (Inr out, w1)"
      "w' = consoleLog ''Added Applications symlink'' w1" "r = Inr ()"
proof (cases "existsSync (files w) (pathJoin mountPoint ''Applications'')")
  case True
  with assms show ?thesis by (intro present) (simp_all add: addApplicationsLink_def)
next
  case False
  obtain r1 w1 where s: "execSync sh (linkCommand (pathJoin mountPoint ''Applications'')) w = (r1, w1)"
    by (cases "execSync sh (linkCommand (pathJoin mountPoint ''Applications'')) w")
  show ?thesis
  proof (cases r1)
    case (Inl e)
    with assms False s have "r = Inl e" "w1 = w'"
      by (simp_all add: addApplicationsLink_def andThen_def)
    with False s Inl show ?thesis by (intro linkFailed) simp_all
  next
    case (Inr out)
    with assms False s have "r = Inr ()" "w' = consoleLog ''Added Applications symlink'' w1"
      by (simp_all add: addApplicationsLink_def andThen_def)
    with False s Inr show ?thesis by (intro linked) simp_all
  qed
qed

lemma unmount_exec:
  assumes "unmount sh mountPoint w = (r, w')"
  obtains r1 where
    "execSync sh (detachCommand mountPoint) (consoleLog ''Unmounting...'' w) = (r1, w')"
    "r = (case r1 of Inl e \<Rightarrow> Inl e | Inr out \<Rightarrow> Inr ())"
proof -
  obtain r1 w1 where s:
    "execSync sh (detachCommand mountPoint) (consoleLog ''Unmounting...'' w) = (r1, w1)"
    by (cases "execSync sh (detachCommand mountPoint) (consoleLog ''Unmounting...'' w)")
  with assms have "w1 = w'" "r = (case r1 of Inl e \<Rightarrow> Inl e | Inr out \<Rightarrow> Inr ())"
    by (auto simp: unmount_def logThen_def andThen_def split: sum.splits)
  with s show ?thesis by (intro that) simp_all
qed

lemma convertAndReport_cases [consumes 1]:
  assumes "convertAndReport sh tempDmgPath outputPath w = (r, w')"
  obtains
    (convertFailed) e where
      "execSync sh (convertCommand tempDmgPath outputPath)
         (consoleLog ''Converting to compressed DMG...'' w) = (Inl e, w')"
      "r = Inl e"
  | (statFailed) out w1 e where
      "execSync sh (convertCommand tempDmgPath outputPath)
         (consoleLog ''Converting to compressed DMG...'' w) = (Inr out, w1)"
      "statSyncSize (files w1) outputPath = Inl e"
      "w' = consoleLog (''DMG created successfully: '' @ outputPath) w1"
      "r = Inl e"
  | (reported) out w1 sz where
      "execSync sh (convertCommand tempDmgPath outputPath)
         (consoleLog ''Converting to compressed DMG...'' w) = (Inr out, w1)"
      "statSyncSize (files w1) outputPath = Inr sz"
      "w' = consoleLog (''Final DMG size: '' @ toString (roundMB sz) @ ''MB'')
              (consoleLog (''DMG created successfully: '' @ outputPath) w1)"
      "r = Inr ()"
proof -
  obtain r1 w1 where s:
    "execSync sh (convertCommand tempDmgPath outputPath)
       (consoleLog ''Converting to compressed DMG...'' w) = (r1, w1)"
    by (cases "execSync sh (convertCommand tempDmgPath outputPath)
                 (consoleLog ''Converting to compressed DMG...'' w)")
  show ?thesis
  proof (cases r1)
    case (Inl e)
    with assms s have "r = Inl e" "w1 = w'"
      by (simp_all add: convertAndReport_def logThen_def andThen_def)
    with s Inl show ?thesis by (intro convertFailed) simp_all
  next
    case c: (Inr out)
    show ?thesis
    proof (cases "statSyncSize (files w1) outputPath")
      case (Inl e)
      with assms s c have "r = Inl e" "w' = consoleLog (''DMG created successfully: '' @ outputPath) w1"
        by (simp_all add: convertAndReport_def logThen_def andThen_def)
      with s c Inl show ?thesis by (intro statFailed) simp_all
    next
      case (Inr sz)
      with assms s c have "r = Inr ()"
        "w' = consoleLog (''Final DMG size: '' @ toString (roundMB sz) @ ''MB'')
                (consoleLog (''DMG created successfully: '' @ outputPath) w1)"
        by (simp_all add: convertAndReport_def logThen_def andThen_def)
      with s c Inr show ?thesis by (intro reported) simp_all
    qed
  qed
qed

section \<open>The volume decorator\<close>

text \<open>
  C7. On a mounted volume that already holds the \<^verbatim>\<open>Applications\<close> link, the decoration step
  runs no command and leaves the world as it is, so running it twice gives what running
  it once gives. The same holds after any first run that left the link in place.
\<close>

theorem addApplicationsLink_idempotent:
  "(existsSync (files w) (pathJoin mountPoint ''Applications'') \<longrightarrow>
      addApplicationsLink sh mountPoint w = (Inr (), w) \<and>
      andThen (addApplicationsLink sh mountPoint) (\<lambda>u. addApplicationsLink sh mountPoint) w
        = addApplicationsLink sh mountPoint w) \<and>
   (addApplicationsLink sh mountPoint w = (Inr (), w1) \<and>
    existsSync (files w1) (pathJoin mountPoint ''Applications'') \<longrightarrow>
      andThen (addApplicationsLink sh mountPoint) (\<lambda>u. addApplicationsLink sh mountPoint) w
        = addApplicationsLink sh mountPoint w)"
  by (simp add: addApplicationsLink_def andThen_def)

theorem addApplicationsLink_idempotent_witness:
  "existsSync (files (start (exampleFiles(''/Volumes/Code/Applications'' \<mapsto> File 12))))
     (pathJoin ''/Volumes/Code'' ''Applications'') \<and>
   addApplicationsLink (exampleShell ''ln -s'') ''/Volumes/Code''
       (start (exampleFiles(''/Volumes/Code/Applications'' \<mapsto> File 12)))
     = (Inr (), start (exampleFiles(''/Volumes/Code/Applications'' \<mapsto> File 12))) \<and>
   andThen (addApplicationsLink (exampleShell ''ln -s'') ''/Volumes/Code'')
       (\<lambda>u. addApplicationsLink (exampleShell ''ln -s'') ''/Volumes/Code'')
       (start (exampleFiles(''/Volumes/Code/Applications'' \<mapsto> File 12)))
     = addApplicationsLink (exampleShell ''ln -s'') ''/Volumes/Code''
         (start (exampleFiles(''/Volumes/Code/Applications'' \<mapsto> File 12))) \<and>
   addApplicationsLink (exampleShell []) ''/Volumes/Code'' (start exampleFiles)
     = (Inr (),
        \<lparr>files = exampleFiles(''/Volumes/Code/Applications'' \<mapsto> File 12), ext = (),
          events = [ExecSync (linkCommand ''/Volumes/Code/Applications''),
                    ConsoleLog ''Added Applications symlink'']\<rparr>) \<and>
   andThen (addApplicationsLink (exampleShell []) ''/Volumes/Code'')
       (\<lambda>u. addApplicationsLink (exampleShell []) ''/Volumes/Code'') (start exampleFiles)
     = addApplicationsLink (exampleShell []) ''/Volumes/Code'' (start exampleFiles)"
proof -
  have present: "existsSync (files (start (exampleFiles(''/Volumes/Code/Applications'' \<mapsto> File 12))))
     (pathJoin ''/Volumes/Code'' ''Applications'')"
    by (simp add: existsSync_def start_def example_paths)
  have first: "addApplicationsLink (exampleShell []) ''/Volumes/Code'' (start exampleFiles)
     = (Inr (),
        \<lparr>files = exampleFiles(''/Volumes/Code/Applications'' \<mapsto> File 12), ext = (),
          events = [ExecSync (linkCommand ''/Volumes/Code/Applications''),
                    ConsoleLog ''Added Applications symlink'']\<rparr>)"
    by (simp add: example_defs consoleLog_def)
  have after: "existsSync
     (files \<lparr>files = exampleFiles(''/Volumes/Code/Applications'' \<mapsto> File 12), ext = (),
          events = [ExecSync (linkCommand ''/Volumes/Code/Applications''),
                    ConsoleLog ''Added Applications symlink'']\<rparr>)
     (pathJoin ''/Volumes/Code'' ''Applications'')"
    by (simp add: existsSync_def example_paths)
  from present first after
    addApplicationsLink_idempotent
      [of "start (exampleFiles(''/Volumes/Code/Applications'' \<mapsto> File 12))" "''/Volumes/Code''"
          "exampleShell ''ln -s''"]
    addApplicationsLink_idempotent
      [of "start exampleFiles" "''/Volumes/Code''" "exampleShell []"
          "\<lparr>files = exampleFiles(''/Volumes/Code/Applications'' \<mapsto> File 12), ext = (),
            events = [ExecSync (linkCommand ''/Volumes/Code/Applications''),
                      ConsoleLog ''Added Applications symlink'']\<rparr>"]
  show ?thesis by blast
qed

section \<open>The trace of a run\<close>

lemma followedBy_quiet: "a \<notin> set es \<Longrightarrow> followedBy a b es"
  by (induction es) auto

lemma followedBy_append:
  "followedBy a b xs \<Longrightarrow> followedBy a b ys \<Longrightarrow> followedBy a b (xs @ ys)"
  by (induction xs) auto

lemma isMountedLog_simps [simp]:
  "isMountedLog (ConsoleLog (''Mounted at: '' @ mountPoint))"
  "\<not> isMountedLog (ExecSync command)"
  "\<not> isMountedLog (MkdirSync p)"
  "\<not> isMountedLog (UnlinkSync p)"
  "\<not> isMountedLog (ConsoleError message err)"
  by (simp_all add: isMountedLog_def)

lemma not_mounted_quiet:
  "\<forall>e\<in>set es. \<not> isMountedLog e \<Longrightarrow> ConsoleLog (''Mounted at: '' @ mountPoint) \<notin> set es"
  using isMountedLog_simps(1) by blast

lemma unlinkIfExists_events:
  "unlinkIfExists p w = (r, w') \<Longrightarrow>
   \<exists>es. events w' = events w @ es \<and> commandsRun es = [] \<and> (\<forall>e\<in>set es. \<not> isMountedLog e)"
  by (auto simp: unlinkIfExists_def unlinkSync_def split: if_splits option.splits node.splits)

lemma ensureOutputDir_events:
  "ensureOutputDir p w = (r, w') \<Longrightarrow>
   \<exists>es. events w' = events w @ es \<and> commandsRun es = [] \<and> (\<forall>e\<in>set es. \<not> isMountedLog e)"
  by (auto simp: ensureOutputDir_def mkdirSyncRecursive_def Let_def split: if_splits)

lemma addApplicationsLink_events:
  assumes "addApplicationsLink sh mountPoint w = (r, w')"
  shows "\<exists>es. events w' = events w @ es \<and> (\<forall>e\<in>set es. \<not> isMountedLog e)"
  using assms
proof (cases rule: addApplicationsLink_cases)
  case present
  then show ?thesis by simp
next
  case (linkFailed e)
  from execSync_events [OF linkFailed(2)] show ?thesis by simp
next
  case (linked out w1)
  from execSync_events [OF linked(2)] linked(3) show ?thesis
    by (simp add: isMountedLog_def)
qed

lemma unmount_events:
  assumes "unmount sh mountPoint w = (r, w')"
  shows "events w' = events w @ [ConsoleLog ''Unmounting...'', ExecSync (detachCommand mountPoint)]"
proof -
  from assms obtain r1 where
    "execSync sh (detachCommand mountPoint) (consoleLog ''Unmounting...'' w) = (r1, w')"
    by (rule unmount_exec)
  from execSync_events [OF this] show ?thesis by simp
qed

lemma convertAndReport_events:
  assumes "convertAndReport sh tempDmgPath outputPath w = (r, w')"
  shows "\<exists>es. events w' = events w @ es \<and> (\<forall>e\<in>set es. \<not> isMountedLog e)"
  using assms
proof (cases rule: convertAndReport_cases)
  case (convertFailed e)
  from execSync_events [OF convertFailed(1)] show ?thesis
    by (simp add: isMountedLog_def)
next
  case (statFailed out w1 e)
  from execSync_events [OF statFailed(1)] statFailed(3) show ?thesis
    by (simp add: isMountedLog_def)
next
  case (reported out w1 sz)
  from execSync_events [OF reported(1)] reported(3) show ?thesis
    by (simp add: isMountedLog_def)
qed

text \<open>
  From the parsed mount point on: the line of line 87, then the decoration, then the
  detach of that mount point, whatever the decoration did, then the rest.
\<close>

lemma mounted_events:
  assumes "mounted sh tempDmgPath outputPath mountPoint w = (r, w')"
  shows "\<exists>es1 es2. events w' =
           events w @ ConsoleLog (''Mounted at: '' @ mountPoint) # es1
             @ ConsoleLog ''Unmounting...'' # ExecSync (detachCommand mountPoint) # es2 \<and>
           (\<forall>e\<in>set es1. \<not> isMountedLog e) \<and> (\<forall>e\<in>set es2. \<not> isMountedLog e) \<and>
           (es2 \<noteq> [] \<longrightarrow> (\<exists>u. r \<noteq> Inl u) \<or> (\<exists>code p. r = Inl (SystemError code ''stat'' p))
              \<or> (\<exists>status. r = Inl (CommandFailed (convertCommand tempDmgPath outputPath) status)))"
  using assms
proof (cases rule: mounted_cases)
  case (detachFailed r1 w1 e)
  from addApplicationsLink_events [OF detachFailed(1)] obtain es1 where
    e1: "events w1 = events w @ ConsoleLog (''Mounted at: '' @ mountPoint) # es1"
    and q1: "\<forall>e\<in>set es1. \<not> isMountedLog e"
    by auto
  from e1 q1 unmount_events [OF detachFailed(2)] show ?thesis
    by (intro exI [of _ es1] exI [of _ "[]"]) simp
next
  case (linkFailed e w1)
  from addApplicationsLink_events [OF linkFailed(1)] obtain es1 where
    e1: "events w1 = events w @ ConsoleLog (''Mounted at: '' @ mountPoint) # es1"
    and q1: "\<forall>e\<in>set es1. \<not> isMountedLog e"
    by auto
  from e1 q1 unmount_events [OF linkFailed(2)] show ?thesis
    by (intro exI [of _ es1] exI [of _ "[]"]) simp
next
  case (converted w1 w2)
  from addApplicationsLink_events [OF converted(1)] obtain es1 where
    e1: "events w1 = events w @ ConsoleLog (''Mounted at: '' @ mountPoint) # es1"
    and q1: "\<forall>e\<in>set es1. \<not> isMountedLog e"
    by auto
  from convertAndReport_events [OF converted(3)] obtain es2 where
    e2: "events w' = events w2 @ es2" and q2: "\<forall>e\<in>set es2. \<not> isMountedLog e"
    by auto
  have res: "(\<exists>u. r \<noteq> Inl u) \<or> (\<exists>code p. r = Inl (SystemError code ''stat'' p))
       \<or> (\<exists>status. r = Inl (CommandFailed (convertCommand tempDmgPath outputPath) status))"
    using converted(3)
  proof (cases rule: convertAndReport_cases)
    case (convertFailed e)
    with execSync_error [OF convertFailed(1)] show ?thesis by auto
  next
    case (statFailed out w3 e)
    then show ?thesis by (auto simp: statSyncSize_def split: option.splits node.splits)
  next
    case (reported out w3 sz)
    then show ?thesis by auto
  qed
  from e1 e2 unmount_events [OF converted(2)] q1 q2 res show ?thesis
    by (intro exI [of _ es1] exI [of _ es2]) simp
qed

lemma mounted_detaches:
  assumes "mounted sh tempDmgPath outputPath mountPoint' w = (r, w')"
  shows "\<exists>es. events w' = events w @ es \<and>
           followedBy (ConsoleLog (''Mounted at: '' @ mountPoint))
             (ExecSync (detachCommand mountPoint)) es"
proof -
  from mounted_events [OF assms] obtain es1 es2 where
    e: "events w' = events w @ ConsoleLog (''Mounted at: '' @ mountPoint') # es1
             @ ConsoleLog ''Unmounting...'' # ExecSync (detachCommand mountPoint') # es2"
    and q: "\<forall>e\<in>set es1. \<not> isMountedLog e" "\<forall>e\<in>set es2. \<not> isMountedLog e"
    by blast
  have "ConsoleLog (''Mounted at: '' @ mountPoint)
          \<notin> set (es1 @ ConsoleLog ''Unmounting...'' # ExecSync (detachCommand mountPoint') # es2)"
    using not_mounted_quiet [OF q(1)] not_mounted_quiet [OF q(2)] by simp
  then have "followedBy (ConsoleLog (''Mounted at: '' @ mountPoint))
      (ExecSync (detachCommand mountPoint))
      (es1 @ ConsoleLog ''Unmounting...'' # ExecSync (detachCommand mountPoint') # es2)"
    by (rule followedBy_quiet)
  then have "followedBy (ConsoleLog (''Mounted at: '' @ mountPoint))
      (ExecSync (detachCommand mountPoint))
      (ConsoleLog (''Mounted at: '' @ mountPoint') # es1
         @ ConsoleLog ''Unmounting...'' # ExecSync (detachCommand mountPoint') # es2)"
    by auto
  with e show ?thesis by blast
qed

lemma commandsRun_append: "commandsRun (xs @ ys) = commandsRun xs @ commandsRun ys"
  by (induction xs rule: commandsRun.induct) simp_all

lemma emitted_append: "events w' = events w @ es \<Longrightarrow> emitted w w' = es"
  by (simp add: emitted_def)

lemma tryBlock_events:
  assumes "tryBlock sh appPath outputPath volumeName requiredSize tempDmgPath w = (r, w')"
  shows "\<exists>es. events w' =
           events w @ ConsoleLog ''Creating temporary DMG...''
             # ExecSync (createCommand appPath volumeName requiredSize tempDmgPath) # es \<and>
           followedBy (ConsoleLog (''Mounted at: '' @ mountPoint))
             (ExecSync (detachCommand mountPoint)) es"
  using assms
proof (cases rule: tryBlock_cases)
  case (createFailed e)
  from execSync_events [OF createFailed(1)] show ?thesis by simp
next
  case (attachFailed out w1 e)
  from execSync_events [OF attachFailed(1)] execSync_events [OF attachFailed(2)]
  show ?thesis by simp
next
  case (parseFailed out w1 mountOutput)
  from execSync_events [OF parseFailed(1)] execSync_events [OF parseFailed(2)]
  show ?thesis by simp
next
  case (wasMounted out w1 mountOutput w2 mountMatch)
  from mounted_detaches [OF wasMounted(4), of mountPoint] obtain es where
    e: "events w' = events w2 @ es"
    and f: "followedBy (ConsoleLog (''Mounted at: '' @ mountPoint))
              (ExecSync (detachCommand mountPoint)) es"
    by blast
  from execSync_events [OF wasMounted(1)] execSync_events [OF wasMounted(2)] e f
  show ?thesis
    by (intro exI [of _ "ConsoleLog ''Mounting DMG to add Applications symlink...''
                           # ExecSync (attachCommand tempDmgPath) # es"]) simp
qed

text \<open>
  The trace of a run on an existing source: first what the preparation printed, made
  and removed, which holds no command; then, unless a system call of the preparation
  threw, the \<^verbatim>\<open>create\<close> command with the planned capacity and the rest of the guarded
  block, in which a parsed mount point is always followed by its detach.
\<close>

lemma createDMG_events:
  assumes src: "existsSync (files w) appPath"
    and run: "createDMG sh nameLong appPath outputPath w = (r, w')"
  shows "\<exists>pre es. events w' = events w @ pre @ es \<and> commandsRun pre = [] \<and>
           (\<forall>e\<in>set pre. \<not> isMountedLog e) \<and>
           (es = [] \<and>
              (\<exists>code syscall p. r = Inl (SystemError code syscall p) \<and>
                 (getDirectorySizeAt (files w) appPath = Inl (SystemError code syscall p) \<or>
                  syscall \<in> {''mkdir'', ''unlink''}))
            \<or> (\<exists>appSize rest.
                  getDirectorySizeAt (files w) appPath = Inr appSize \<and>
                  es = ConsoleLog ''Creating temporary DMG...''
                         # ExecSync (createCommand appPath (volumeNameOf nameLong)
                              (requiredSizeMB appSize) (tempDmgPathOf outputPath)) # rest \<and>
                  followedBy (ConsoleLog (''Mounted at: '' @ mountPoint))
                    (ExecSync (detachCommand mountPoint)) rest))"
  using src run
proof (cases rule: createDMG_cases)
  case (scandir e)
  with getDirectorySizeAt_error [OF scandir(1)] show ?thesis
    by (intro exI [of _ "[]"]) auto
next
  case (mkdir appSize e)
  from ensureOutputDir_events [OF mkdir(2)] obtain es0 where
    "events w' = events w @ ConsoleLog (''App size: '' @ toString (roundMB appSize) @ ''MB'')
        # ConsoleLog (''Creating DMG with '' @ toString (requiredSizeMB appSize) @ ''MB capacity...'')
        # es0"
    "commandsRun es0 = []" "\<forall>e\<in>set es0. \<not> isMountedLog e"
    by auto
  with ensureOutputDir_error [OF mkdir(2)] mkdir(3) show ?thesis
    by (intro exI [of _ "ConsoleLog (''App size: '' @ toString (roundMB appSize) @ ''MB'')
        # ConsoleLog (''Creating DMG with '' @ toString (requiredSizeMB appSize) @ ''MB capacity...'')
        # es0"] exI [of _ "[]"]) (auto simp: isMountedLog_def)
next
  case (unlinkTemp appSize w1 e)
  from ensureOutputDir_events [OF unlinkTemp(2)] obtain es0 where
    e0: "events w1 = events w @ ConsoleLog (''App size: '' @ toString (roundMB appSize) @ ''MB'')
        # ConsoleLog (''Creating DMG with '' @ toString (requiredSizeMB appSize) @ ''MB capacity...'')
        # es0"
    and q0: "commandsRun es0 = []" "\<forall>e\<in>set es0. \<not> isMountedLog e"
    by auto
  from unlinkIfExists_events [OF unlinkTemp(3)] obtain es1 where
    e1: "events w' = events w1 @ es1"
    and q1: "commandsRun es1 = []" "\<forall>e\<in>set es1. \<not> isMountedLog e"
    by auto
  from e0 q0 e1 q1 unlinkIfExists_error [OF unlinkTemp(3)] unlinkTemp(4) show ?thesis
    by (intro exI [of _ "ConsoleLog (''App size: '' @ toString (roundMB appSize) @ ''MB'')
        # ConsoleLog (''Creating DMG with '' @ toString (requiredSizeMB appSize) @ ''MB capacity...'')
        # es0 @ es1"] exI [of _ "[]"]) (auto simp: isMountedLog_def commandsRun_append)
next
  case (unlinkOutput appSize w1 w2 e)
  from ensureOutputDir_events [OF unlinkOutput(2)] obtain es0 where
    e0: "events w1 = events w @ ConsoleLog (''App size: '' @ toString (roundMB appSize) @ ''MB'')
        # ConsoleLog (''Creating DMG with '' @ toString (requiredSizeMB appSize) @ ''MB capacity...'')
        # es0"
    and q0: "commandsRun es0 = []" "\<forall>e\<in>set es0. \<not> isMountedLog e"
    by auto
  from unlinkIfExists_events [OF unlinkOutput(3)] obtain es1 where
    e1: "events w2 = events w1 @ es1"
    and q1: "commandsRun es1 = []" "\<forall>e\<in>set es1. \<not> isMountedLog e"
    by auto
  from unlinkIfExists_events [OF unlinkOutput(4)] obtain es2 where
    e2: "events w' = events w2 @ es2"
    and q2: "commandsRun es2 = []" "\<forall>e\<in>set es2. \<not> isMountedLog e"
    by auto
  from e0 q0 e1 q1 e2 q2 unlinkIfExists_error [OF unlinkOutput(4)] unlinkOutput(5) show ?thesis
    by (intro exI [of _ "ConsoleLog (''App size: '' @ toString (roundMB appSize) @ ''MB'')
        # ConsoleLog (''Creating DMG with '' @ toString (requiredSizeMB appSize) @ ''MB capacity...'')
        # es0 @ es1 @ es2"] exI [of _ "[]"]) (auto simp: isMountedLog_def commandsRun_append)
next
  case (guarded appSize w1 w2 w3)
  from ensureOutputDir_events [OF guarded(2)] obtain es0 where
    e0: "events w1 = events w @ ConsoleLog (''App size: '' @ toString (roundMB appSize) @ ''MB'')
        # ConsoleLog (''Creating DMG with '' @ toString (requiredSizeMB appSize) @ ''MB capacity...'')
        # es0"
    and q0: "commandsRun es0 = []" "\<forall>e\<in>set es0. \<not> isMountedLog e"
    by auto
  from unlinkIfExists_events [OF guarded(3)] obtain es1 where
    e1: "events w2 = events w1 @ es1"
    and q1: "commandsRun es1 = []" "\<forall>e\<in>set es1. \<not> isMountedLog e"
    by auto
  from unlinkIfExists_events [OF guarded(4)] obtain es2 where
    e2: "events w3 = events w2 @ es2"
    and q2: "commandsRun es2 = []" "\<forall>e\<in>set es2. \<not> isMountedLog e"
    by auto
  have "\<exists>rest. events w' = events w3 @ ConsoleLog ''Creating temporary DMG...''
             # ExecSync (createCommand appPath (volumeNameOf nameLong)
                  (requiredSizeMB appSize) (tempDmgPathOf outputPath)) # rest \<and>
           followedBy (ConsoleLog (''Mounted at: '' @ mountPoint))
             (ExecSync (detachCommand mountPoint)) rest"
  proof -
    from guarded(5) obtain rb wb rf where
      b: "tryBlock sh appPath outputPath (volumeNameOf nameLong) (requiredSizeMB appSize)
            (tempDmgPathOf outputPath) w3 = (rb, wb)"
      and f: "unlinkIfExists (tempDmgPathOf outputPath) wb = (rf, w')"
      by (cases rule: tryFinally_cases) blast+
    from tryBlock_events [OF b, of mountPoint] obtain es where
      eb: "events wb = events w3 @ ConsoleLog ''Creating temporary DMG...''
             # ExecSync (createCommand appPath (volumeNameOf nameLong)
                  (requiredSizeMB appSize) (tempDmgPathOf outputPath)) # es"
      and fb: "followedBy (ConsoleLog (''Mounted at: '' @ mountPoint))
                 (ExecSync (detachCommand mountPoint)) es"
      by blast
    from unlinkIfExists_events [OF f] obtain es3 where
      e3: "events w' = events wb @ es3" and q3: "\<forall>e\<in>set es3. \<not> isMountedLog e"
      by auto
    have "followedBy (ConsoleLog (''Mounted at: '' @ mountPoint))
            (ExecSync (detachCommand mountPoint)) (es @ es3)"
      using fb followedBy_quiet [OF not_mounted_quiet [OF q3]] by (rule followedBy_append)
    with eb e3 show ?thesis by (intro exI [of _ "es @ es3"]) simp
  qed
  then obtain rest where
    er: "events w' = events w3 @ ConsoleLog ''Creating temporary DMG...''
             # ExecSync (createCommand appPath (volumeNameOf nameLong)
                  (requiredSizeMB appSize) (tempDmgPathOf outputPath)) # rest"
    and fr: "followedBy (ConsoleLog (''Mounted at: '' @ mountPoint))
               (ExecSync (detachCommand mountPoint)) rest"
    by blast
  from e0 q0 e1 q1 e2 q2 er fr guarded(1) show ?thesis
    by (intro exI [of _ "ConsoleLog (''App size: '' @ toString (roundMB appSize) @ ''MB'')
        # ConsoleLog (''Creating DMG with '' @ toString (requiredSizeMB appSize) @ ''MB capacity...'')
        # es0 @ es1 @ es2"]
        exI [of _ "ConsoleLog ''Creating temporary DMG...''
             # ExecSync (createCommand appPath (volumeNameOf nameLong)
                  (requiredSizeMB appSize) (tempDmgPathOf outputPath)) # rest"])
       (auto simp: isMountedLog_def commandsRun_append)
qed

lemma createDMG_extends:
  assumes "createDMG sh nameLong appPath outputPath w = (r, w')"
  shows "\<exists>es. events w' = events w @ es \<and>
           followedBy (ConsoleLog (''Mounted at: '' @ mountPoint))
             (ExecSync (detachCommand mountPoint)) es"
proof (cases "existsSync (files w) appPath")
  case False
  with assms have "w' = w" by (simp add: createDMG_def)
  then show ?thesis by simp
next
  case True
  from createDMG_events [OF True assms, of mountPoint] obtain pre es where
    e: "events w' = events w @ pre @ es" and q: "\<forall>e\<in>set pre. \<not> isMountedLog e"
    and s: "es = [] \<or> (\<exists>c rest. es = ConsoleLog ''Creating temporary DMG...'' # ExecSync c # rest \<and>
              followedBy (ConsoleLog (''Mounted at: '' @ mountPoint))
                (ExecSync (detachCommand mountPoint)) rest)"
    by blast
  from s have "followedBy (ConsoleLog (''Mounted at: '' @ mountPoint))
                 (ExecSync (detachCommand mountPoint)) es"
    by auto
  with followedBy_quiet [OF not_mounted_quiet [OF q]]
  have "followedBy (ConsoleLog (''Mounted at: '' @ mountPoint))
          (ExecSync (detachCommand mountPoint)) (pre @ es)"
    by (rule followedBy_append)
  with e show ?thesis by blast
qed

lemma start_simps [simp]:
  "files (start fs) = fs"
  "ext (start fs) = ()"
  "events (start fs) = []"
  by (simp_all add: start_def)

lemma example_link_fails:
  "createDMG (exampleShell ''ln -s'') None ''Code.app'' ''out.dmg'' (start exampleFiles)
     = (Inl (CommandFailed (linkCommand ''/Volumes/Code/Applications'') 1),
        \<lparr>files = exampleFiles(''out.dmg'' := None, ''out-temp.dmg'' := None), ext = (),
          events =
            [ConsoleLog ''App size: 800MB'',
             ConsoleLog ''Creating DMG with 850MB capacity...'',
             UnlinkSync ''out.dmg'',
             ConsoleLog ''Creating temporary DMG...'',
             ExecSync (createCommand ''Code.app'' ''Code - OSS'' 850 ''out-temp.dmg''),
             ConsoleLog ''Mounting DMG to add Applications symlink...'',
             ExecSync (attachCommand ''out-temp.dmg''),
             ConsoleLog ''Mounted at: /Volumes/Code'',
             ExecSync (linkCommand ''/Volumes/Code/Applications''),
             ConsoleLog ''Unmounting...'',
             ExecSync (detachCommand ''/Volumes/Code''),
             UnlinkSync ''out-temp.dmg'']\<rparr>)"
  by (simp add: example_defs consoleLog_def fun_upd_twist)

section \<open>What the shell was given\<close>

text \<open>
  A command on the trace is a command the shell ran: the outcome of \<^verbatim>\<open>execSync\<close> and the
  world it leaves are those of the shell applied to the command's text.
\<close>

lemma unlinkIfExists_done:
  "unlinkIfExists p w = (Inr u, w') \<Longrightarrow> files w' = (files w)(p := None) \<and> ext w' = ext w"
  by (auto simp: unlinkIfExists_def unlinkSync_def existsSync_def
           split: if_splits option.splits node.splits)

lemma execSync_shell:
  assumes "execSync sh command w = (r, w')"
  shows "\<exists>status out. sh command (files w) (ext w) = ((status, out), files w', ext w') \<and>
     r = (if status = 0 then Inr out else Inl (CommandFailed command status))"
proof -
  obtain res fs' x' where s: "sh command (files w) (ext w) = (res, fs', x')"
    by (rule prod_cases3)
  obtain status out where res: "res = (status, out)"
    by (cases res)
  from assms s res have "files w' = fs'" "ext w' = x'"
    "r = (if status = 0 then Inr out else Inl (CommandFailed command status))"
    by (auto simp: execSync_def)
  with s res show ?thesis by simp
qed

lemma link_differs:
  "createCommand appPath volumeName requiredSize tempDmgPath \<noteq> linkCommand l"
  "attachCommand tempDmgPath \<noteq> linkCommand l"
  "detachCommand mountPoint \<noteq> linkCommand l"
  "convertCommand t outputPath \<noteq> linkCommand l"
  by (simp_all add: createCommand_def attachCommand_def linkCommand_def detachCommand_def
        convertCommand_def)

lemma tryBlock_mounted:
  assumes "tryBlock sh appPath outputPath volumeName requiredSize tempDmgPath w = (r, w')"
  shows "(\<exists>es. events w' = events w @ es \<and> (\<forall>e\<in>set es. \<not> isMountedLog e)) \<or>
         (\<exists>pre mountPoint w2. events w2 = events w @ pre \<and> (\<forall>e\<in>set pre. \<not> isMountedLog e) \<and>
            mounted sh tempDmgPath outputPath mountPoint w2 = (r, w'))"
  using assms
proof (cases rule: tryBlock_cases)
  case (createFailed e)
  from execSync_events [OF createFailed(1)] show ?thesis
    by (intro disjI1) (simp add: isMountedLog_def)
next
  case (attachFailed out w1 e)
  from execSync_events [OF attachFailed(1)] execSync_events [OF attachFailed(2)]
  show ?thesis by (intro disjI1) (simp add: isMountedLog_def)
next
  case (parseFailed out w1 mountOutput)
  from execSync_events [OF parseFailed(1)] execSync_events [OF parseFailed(2)]
  show ?thesis by (intro disjI1) (simp add: isMountedLog_def)
next
  case (wasMounted out w1 mountOutput w2 mountMatch)
  from execSync_events [OF wasMounted(1)] execSync_events [OF wasMounted(2)]
  have "events w2 = events w @
      [ConsoleLog ''Creating temporary DMG...'',
       ExecSync (createCommand appPath volumeName requiredSize tempDmgPath),
       ConsoleLog ''Mounting DMG to add Applications symlink...'',
       ExecSync (attachCommand tempDmgPath)]"
    by simp
  moreover have "\<forall>e\<in>set
      [ConsoleLog ''Creating temporary DMG...'',
       ExecSync (createCommand appPath volumeName requiredSize tempDmgPath),
       ConsoleLog ''Mounting DMG to add Applications symlink...'',
       ExecSync (attachCommand tempDmgPath)]. \<not> isMountedLog e"
    by (simp add: isMountedLog_def)
  ultimately show ?thesis using wasMounted(4) by blast
qed

lemma tryFinally_split:
  "tryFinally body finalizer w = (r, w') \<Longrightarrow>
   \<exists>r1 w1 rc. body w = (r1, w1) \<and> finalizer w1 = (rc, w') \<and>
     r = (case rc of Inl e \<Rightarrow> Inl e | Inr u \<Rightarrow> r1)"
  by (auto simp: tryFinally_def split: prod.splits sum.splits)

text \<open>
  A run that printed a mount point went through the mounted scope for it, and then
  through the cleanup, whose error, if any, is the outcome.
\<close>

lemma createDMG_mounted:
  assumes run: "createDMG sh nameLong appPath outputPath w = (r, w')"
    and printed: "ConsoleLog (''Mounted at: '' @ mountPoint) \<in> set (emitted w w')"
  shows "\<exists>w2 rb w4 rc.
           mounted sh (tempDmgPathOf outputPath) outputPath mountPoint w2 = (rb, w4) \<and>
           unlinkIfExists (tempDmgPathOf outputPath) w4 = (rc, w') \<and>
           r = (case rc of Inl e \<Rightarrow> Inl e | Inr u \<Rightarrow> rb)"
proof -
  have quiet: False if "events w' = events w @ es" "\<forall>e\<in>set es. \<not> isMountedLog e" for es
  proof -
    from that(1) have "emitted w w' = es" by (rule emitted_append)
    with printed not_mounted_quiet [OF that(2), of mountPoint] show False by simp
  qed
  have ql: "\<not> isMountedLog (ConsoleLog (''App size: '' @ x))"
    "\<not> isMountedLog (ConsoleLog (''Creating DMG with '' @ x))"
    "\<not> isMountedLog (ConsoleLog ''Unmounting...'')" for x
    by (simp_all add: isMountedLog_def)
  have src: "existsSync (files w) appPath"
  proof (rule ccontr)
    assume "\<not> existsSync (files w) appPath"
    with run have "w' = w" by (simp add: createDMG_def)
    then have "events w' = events w @ []" by simp
    from quiet [OF this] show False by simp
  qed
  from src run show ?thesis
  proof (cases rule: createDMG_cases)
    case (scandir e)
    then have "events w' = events w @ []" by simp
    from quiet [OF this] show ?thesis by simp
  next
    case (mkdir appSize e)
    from ensureOutputDir_events [OF mkdir(2)] obtain es0 where
      e0: "events w' = events w @ ([ConsoleLog (''App size: '' @ toString (roundMB appSize) @ ''MB''),
        ConsoleLog (''Creating DMG with '' @ toString (requiredSizeMB appSize) @ ''MB capacity...'')]
        @ es0)"
      and q0: "\<forall>e\<in>set es0. \<not> isMountedLog e"
      by auto
    from q0 ql have "\<forall>e\<in>set ([ConsoleLog (''App size: '' @ toString (roundMB appSize) @ ''MB''),
        ConsoleLog (''Creating DMG with '' @ toString (requiredSizeMB appSize) @ ''MB capacity...'')]
        @ es0). \<not> isMountedLog e"
      by (simp add: ball_Un)
    from quiet [OF e0 this] show ?thesis ..
  next
    case (unlinkTemp appSize w1 e)
    from ensureOutputDir_events [OF unlinkTemp(2)] obtain es0 where
      e0: "events w1 = events w @ ([ConsoleLog (''App size: '' @ toString (roundMB appSize) @ ''MB''),
        ConsoleLog (''Creating DMG with '' @ toString (requiredSizeMB appSize) @ ''MB capacity...'')]
        @ es0)"
      and q0: "\<forall>e\<in>set es0. \<not> isMountedLog e"
      by auto
    from unlinkIfExists_events [OF unlinkTemp(3)] obtain es1 where
      e1: "events w' = events w1 @ es1" and q1: "\<forall>e\<in>set es1. \<not> isMountedLog e"
      by auto
    from e0 e1 have e: "events w' = events w @
        ([ConsoleLog (''App size: '' @ toString (roundMB appSize) @ ''MB''),
        ConsoleLog (''Creating DMG with '' @ toString (requiredSizeMB appSize) @ ''MB capacity...'')]
        @ es0 @ es1)"
      by simp
    from q0 q1 ql have "\<forall>e\<in>set ([ConsoleLog (''App size: '' @ toString (roundMB appSize) @ ''MB''),
        ConsoleLog (''Creating DMG with '' @ toString (requiredSizeMB appSize) @ ''MB capacity...'')]
        @ es0 @ es1). \<not> isMountedLog e"
      by (simp add: ball_Un)
    from quiet [OF e this] show ?thesis ..
  next
    case (unlinkOutput appSize w1 w2 e)
    from ensureOutputDir_events [OF unlinkOutput(2)] obtain es0 where
      e0: "events w1 = events w @ ([ConsoleLog (''App size: '' @ toString (roundMB appSize) @ ''MB''),
        ConsoleLog (''Creating DMG with '' @ toString (requiredSizeMB appSize) @ ''MB capacity...'')]
        @ es0)"
      and q0: "\<forall>e\<in>set es0. \<not> isMountedLog e"
      by auto
    from unlinkIfExists_events [OF unlinkOutput(3)] obtain es1 where
      e1: "events w2 = events w1 @ es1" and q1: "\<forall>e\<in>set es1. \<not> isMountedLog e"
      by auto
    from unlinkIfExists_events [OF unlinkOutput(4)] obtain es2 where
      e2: "events w' = events w2 @ es2" and q2: "\<forall>e\<in>set es2. \<not> isMountedLog e"
      by auto
    from e0 e1 e2 have e: "events w' = events w @
        ([ConsoleLog (''App size: '' @ toString (roundMB appSize) @ ''MB''),
        ConsoleLog (''Creating DMG with '' @ toString (requiredSizeMB appSize) @ ''MB capacity...'')]
        @ es0 @ es1 @ es2)"
      by simp
    from q0 q1 q2 ql
    have "\<forall>e\<in>set ([ConsoleLog (''App size: '' @ toString (roundMB appSize) @ ''MB''),
        ConsoleLog (''Creating DMG with '' @ toString (requiredSizeMB appSize) @ ''MB capacity...'')]
        @ es0 @ es1 @ es2). \<not> isMountedLog e"
      by (simp add: ball_Un)
    from quiet [OF e this] show ?thesis ..
  next
    case (guarded appSize w1 w2 w3)
    from ensureOutputDir_events [OF guarded(2)] obtain es0 where
      e0: "events w1 = events w @ ([ConsoleLog (''App size: '' @ toString (roundMB appSize) @ ''MB''),
        ConsoleLog (''Creating DMG with '' @ toString (requiredSizeMB appSize) @ ''MB capacity...'')]
        @ es0)"
      and q0: "\<forall>e\<in>set es0. \<not> isMountedLog e"
      by auto
    from unlinkIfExists_events [OF guarded(3)] obtain es1 where
      e1: "events w2 = events w1 @ es1" and q1: "\<forall>e\<in>set es1. \<not> isMountedLog e"
      by auto
    from unlinkIfExists_events [OF guarded(4)] obtain es2 where
      e2: "events w3 = events w2 @ es2" and q2: "\<forall>e\<in>set es2. \<not> isMountedLog e"
      by auto
    define prep where "prep =
        [ConsoleLog (''App size: '' @ toString (roundMB appSize) @ ''MB''),
        ConsoleLog (''Creating DMG with '' @ toString (requiredSizeMB appSize) @ ''MB capacity...'')]
        @ es0 @ es1 @ es2"
    from e0 e1 e2 have e3: "events w3 = events w @ prep" by (simp add: prep_def)
    from q0 q1 q2 ql have q3: "\<forall>e\<in>set prep. \<not> isMountedLog e"
      by (simp add: prep_def ball_Un)
    from tryFinally_split [OF guarded(5)] obtain r1 w4 rc where
      body: "tryBlock sh appPath outputPath (volumeNameOf nameLong) (requiredSizeMB appSize)
               (tempDmgPathOf outputPath) w3 = (r1, w4)"
      and fin: "unlinkIfExists (tempDmgPathOf outputPath) w4 = (rc, w')"
      and res: "r = (case rc of Inl e \<Rightarrow> Inl e | Inr u \<Rightarrow> r1)"
      by blast
    from unlinkIfExists_events [OF fin] obtain es5 where
      e5: "events w' = events w4 @ es5" and q5: "\<forall>e\<in>set es5. \<not> isMountedLog e"
      by auto
    from tryBlock_mounted [OF body] show ?thesis
    proof
      assume "\<exists>es. events w4 = events w3 @ es \<and> (\<forall>e\<in>set es. \<not> isMountedLog e)"
      then obtain es4 where e4: "events w4 = events w3 @ es4"
        and q4: "\<forall>e\<in>set es4. \<not> isMountedLog e"
        by blast
      from e3 e4 e5 have e: "events w' = events w @ (prep @ es4 @ es5)" by simp
      from q3 q4 q5 have "\<forall>e\<in>set (prep @ es4 @ es5). \<not> isMountedLog e"
        by (simp add: ball_Un)
      from quiet [OF e this] show ?thesis ..
    next
      assume "\<exists>pre mountPoint' w2'. events w2' = events w3 @ pre \<and>
                (\<forall>e\<in>set pre. \<not> isMountedLog e) \<and>
                mounted sh (tempDmgPathOf outputPath) outputPath mountPoint' w2' = (r1, w4)"
      then obtain pre mountPoint' w2' where ep: "events w2' = events w3 @ pre"
        and qp: "\<forall>e\<in>set pre. \<not> isMountedLog e"
        and m: "mounted sh (tempDmgPathOf outputPath) outputPath mountPoint' w2' = (r1, w4)"
        by blast
      from mounted_events [OF m] obtain ea eb where
        em: "events w4 = events w2' @ ConsoleLog (''Mounted at: '' @ mountPoint') # ea
               @ ConsoleLog ''Unmounting...'' # ExecSync (detachCommand mountPoint') # eb"
        and qa: "\<forall>e\<in>set ea. \<not> isMountedLog e" and qb: "\<forall>e\<in>set eb. \<not> isMountedLog e"
        by blast
      define before where "before = prep @ pre"
      define after where "after =
        ea @ ConsoleLog ''Unmounting...'' # ExecSync (detachCommand mountPoint') # eb @ es5"
      from e3 ep em e5 have "events w' = events w @
          (before @ ConsoleLog (''Mounted at: '' @ mountPoint') # after)"
        by (simp add: before_def after_def)
      then have em': "emitted w w' = before @ ConsoleLog (''Mounted at: '' @ mountPoint') # after"
        by (rule emitted_append)
      from q3 qp have "\<forall>e\<in>set before. \<not> isMountedLog e"
        by (simp add: before_def ball_Un)
      then have nb: "ConsoleLog (''Mounted at: '' @ mountPoint) \<notin> set before"
        by (rule not_mounted_quiet)
      from qa qb q5 ql have "\<forall>e\<in>set after. \<not> isMountedLog e"
        by (simp add: after_def ball_Un)
      then have na: "ConsoleLog (''Mounted at: '' @ mountPoint) \<notin> set after"
        by (rule not_mounted_quiet)
      from printed em' nb na have "mountPoint' = mountPoint" by simp
      with m fin res show ?thesis by blast
    qed
  qed
qed

lemma detach_differs:
  "createCommand appPath volumeName requiredSize tempDmgPath \<noteq> detachCommand m"
  "attachCommand tempDmgPath \<noteq> detachCommand m"
  "linkCommand l \<noteq> detachCommand m"
  "convertCommand t outputPath \<noteq> detachCommand m"
  by (simp_all add: createCommand_def attachCommand_def linkCommand_def detachCommand_def
        convertCommand_def)

text \<open>
  The mounted scope ends with the error of \<^verbatim>\<open>ln\<close> only when \<^verbatim>\<open>ln\<close> failed on the link under
  the mount point and the shell then ran the detach command, with status 0, on the world
  \<^verbatim>\<open>ln\<close> left.
\<close>

lemma mounted_link_failure:
  assumes "mounted sh tempDmgPath outputPath mountPoint w
             = (Inl (CommandFailed (linkCommand l) status), w')"
  shows "l = pathJoin mountPoint ''Applications'' \<and>
         (\<exists>fs0 x0 out0 fs1 x1 out.
            sh (linkCommand l) fs0 x0 = ((status, out0), fs1, x1) \<and>
            sh (detachCommand mountPoint) fs1 x1 = ((0, out), files w', ext w'))"
  using assms
proof (cases rule: mounted_cases)
  case (detachFailed r1 w1 e)
  from detachFailed(2) obtain rd where
    x: "execSync sh (detachCommand mountPoint) (consoleLog ''Unmounting...'' w1) = (rd, w')"
    and rd: "Inl e = (case rd of Inl e \<Rightarrow> Inl e | Inr out \<Rightarrow> Inr ())"
    by (rule unmount_exec)
  from rd have "rd = Inl e" by (cases rd) simp_all
  with x have "execSync sh (detachCommand mountPoint) (consoleLog ''Unmounting...'' w1) = (Inl e, w')"
    by simp
  from execSync_error [OF this] detachFailed(3)
  have "detachCommand mountPoint = linkCommand l" by auto
  with link_differs(3) show ?thesis by blast
next
  case (linkFailed e w1)
  from linkFailed(1) have link:
    "execSync sh (linkCommand (pathJoin mountPoint ''Applications''))
       (consoleLog (''Mounted at: '' @ mountPoint) w) = (Inl e, w1)"
    by (cases rule: addApplicationsLink_cases) simp_all
  from execSync_shell [OF link] obtain st out0 where
    s0: "sh (linkCommand (pathJoin mountPoint ''Applications'')) (files w) (ext w)
           = ((st, out0), files w1, ext w1)"
    and r0: "Inl e = (if st = 0 then Inr out0
                      else Inl (CommandFailed (linkCommand (pathJoin mountPoint ''Applications'')) st))"
    by auto
  from r0 linkFailed(3) have same: "linkCommand (pathJoin mountPoint ''Applications'') = linkCommand l"
    and st: "st = status"
    by (auto split: if_splits)
  from same have l: "l = pathJoin mountPoint ''Applications''"
    by (simp add: linkCommand_def)
  from linkFailed(2) obtain rd where
    x: "execSync sh (detachCommand mountPoint) (consoleLog ''Unmounting...'' w1) = (rd, w')"
    and rd: "Inr () = (case rd of Inl e \<Rightarrow> Inl e | Inr out \<Rightarrow> Inr ())"
    by (rule unmount_exec)
  from execSync_shell [OF x] obtain sd out where
    s1: "sh (detachCommand mountPoint) (files w1) (ext w1) = ((sd, out), files w', ext w')"
    and r1: "rd = (if sd = 0 then Inr out else Inl (CommandFailed (detachCommand mountPoint) sd))"
    by auto
  from rd r1 have "sd = 0" by (auto split: if_splits)
  with s0 s1 st l show ?thesis by blast
next
  case (converted w1 w2)
  from converted(3) show ?thesis
  proof (cases rule: convertAndReport_cases)
    case (convertFailed e)
    from execSync_error [OF convertFailed(1)] convertFailed(2) converted
    have "convertCommand tempDmgPath outputPath = linkCommand l" by auto
    with link_differs(4) show ?thesis by blast
  next
    case (statFailed out w3 e)
    then show ?thesis by (auto simp: statSyncSize_def split: option.splits node.splits)
  next
    case (reported out w3 sz)
    then show ?thesis by simp
  qed
qed

text \<open>
  It ends with the error of the detach command only when the shell ran that command and
  it exited with that status.
\<close>

lemma mounted_detach_failure:
  assumes "mounted sh tempDmgPath outputPath mountPoint w
             = (Inl (CommandFailed (detachCommand mountPoint) status), w')"
  shows "status \<noteq> 0 \<and>
         (\<exists>fs1 x1 out. sh (detachCommand mountPoint) fs1 x1 = ((status, out), files w', ext w'))"
  using assms
proof (cases rule: mounted_cases)
  case (detachFailed r1 w1 e)
  from detachFailed(2) obtain rd where
    x: "execSync sh (detachCommand mountPoint) (consoleLog ''Unmounting...'' w1) = (rd, w')"
    and rd: "Inl e = (case rd of Inl e \<Rightarrow> Inl e | Inr out \<Rightarrow> Inr ())"
    by (rule unmount_exec)
  from rd have rd': "rd = Inl e" by (cases rd) simp_all
  from execSync_shell [OF x] obtain sd out where
    s1: "sh (detachCommand mountPoint) (files w1) (ext w1) = ((sd, out), files w', ext w')"
    and r1: "rd = (if sd = 0 then Inr out else Inl (CommandFailed (detachCommand mountPoint) sd))"
    by auto
  from rd' r1 detachFailed(3) have "sd \<noteq> 0" "sd = status" by (auto split: if_splits)
  with s1 show ?thesis by auto
next
  case (linkFailed e w1)
  from linkFailed(1) have
    "execSync sh (linkCommand (pathJoin mountPoint ''Applications''))
       (consoleLog (''Mounted at: '' @ mountPoint) w) = (Inl e, w1)"
    by (cases rule: addApplicationsLink_cases) simp_all
  from execSync_error [OF this] linkFailed(3)
  have "linkCommand (pathJoin mountPoint ''Applications'') = detachCommand mountPoint" by auto
  with detach_differs(3) show ?thesis by blast
next
  case (converted w1 w2)
  from converted(3) show ?thesis
  proof (cases rule: convertAndReport_cases)
    case (convertFailed e)
    from execSync_error [OF convertFailed(1)] convertFailed(2) converted
    have "convertCommand tempDmgPath outputPath = detachCommand mountPoint" by auto
    with detach_differs(4) show ?thesis by blast
  next
    case (statFailed out w3 e)
    then show ?thesis by (auto simp: statSyncSize_def split: option.splits node.splits)
  next
    case (reported out w3 sz)
    then show ?thesis by simp
  qed
qed

text \<open>
  When the decoration and the detach both succeeded, the conversion runs on the world the
  detach left, and its status decides how the scope ends.
\<close>

lemma mounted_closed:
  assumes link: "addApplicationsLink sh mountPoint w0 = (Inr (), w1)"
    and detach: "unmount sh mountPoint w1 = (Inr (), w2)"
    and convert: "convertAndReport sh tempDmgPath outputPath w2 = (r, w')"
  shows "\<exists>fs1 x1 out st out'.
           sh (detachCommand mountPoint) fs1 x1 = ((0, out), files w2, ext w2) \<and>
           sh (convertCommand tempDmgPath outputPath) (files w2) (ext w2)
             = ((st, out'), files w', ext w') \<and>
           r = (if st = 0
                then (case statSyncSize (files w') outputPath of
                        Inl e \<Rightarrow> Inl e | Inr sz \<Rightarrow> Inr ())
                else Inl (CommandFailed (convertCommand tempDmgPath outputPath) st))"
proof -
  from detach obtain rd where
    x: "execSync sh (detachCommand mountPoint) (consoleLog ''Unmounting...'' w1) = (rd, w2)"
    and rd: "Inr () = (case rd of Inl e \<Rightarrow> Inl e | Inr out \<Rightarrow> Inr ())"
    by (rule unmount_exec)
  from execSync_shell [OF x] obtain sd out where
    s1: "sh (detachCommand mountPoint) (files w1) (ext w1) = ((sd, out), files w2, ext w2)"
    and r1: "rd = (if sd = 0 then Inr out else Inl (CommandFailed (detachCommand mountPoint) sd))"
    by auto
  from rd r1 have sd: "sd = 0" by (auto split: if_splits)
  from convert show ?thesis
  proof (cases rule: convertAndReport_cases)
    case (convertFailed e)
    from execSync_shell [OF convertFailed(1)] obtain st out' where
      s2: "sh (convertCommand tempDmgPath outputPath) (files w2) (ext w2)
             = ((st, out'), files w', ext w')"
      and r2: "Inl e = (if st = 0 then Inr out'
                        else Inl (CommandFailed (convertCommand tempDmgPath outputPath) st))"
      by auto
    from r2 have "st \<noteq> 0" "e = CommandFailed (convertCommand tempDmgPath outputPath) st"
      by (auto split: if_splits)
    with s1 sd s2 convertFailed(2) show ?thesis by auto
  next
    case (statFailed out0 w3 e)
    from execSync_shell [OF statFailed(1)] obtain st out' where
      s2: "sh (convertCommand tempDmgPath outputPath) (files w2) (ext w2)
             = ((st, out'), files w3, ext w3)"
      and r2: "Inr out0 = (if st = 0 then Inr out'
                        else Inl (CommandFailed (convertCommand tempDmgPath outputPath) st))"
      by auto
    from r2 have "st = 0" by (auto split: if_splits)
    with s1 sd s2 statFailed(2,3,4) show ?thesis by auto
  next
    case (reported out0 w3 sz)
    from execSync_shell [OF reported(1)] obtain st out' where
      s2: "sh (convertCommand tempDmgPath outputPath) (files w2) (ext w2)
             = ((st, out'), files w3, ext w3)"
      and r2: "Inr out0 = (if st = 0 then Inr out'
                        else Inl (CommandFailed (convertCommand tempDmgPath outputPath) st))"
      by auto
    from r2 have "st = 0" by (auto split: if_splits)
    with s1 sd s2 reported(2,3,4) show ?thesis by auto
  qed
qed

lemma mounted_converted:
  assumes m: "mounted sh tempDmgPath outputPath mountPoint w = (r, w')"
    and r: "r = Inr () \<or> r = Inl (SystemError ENOENT ''stat'' outputPath)"
  shows "\<exists>fs1 x1 out fs2 x2 out'.
           sh (detachCommand mountPoint) fs1 x1 = ((0, out), fs2, x2) \<and>
           sh (convertCommand tempDmgPath outputPath) fs2 x2 = ((0, out'), files w', ext w')"
  using m
proof (cases rule: mounted_cases)
  case (detachFailed r1 w1 e)
  from detachFailed(2) obtain rd where
    x: "execSync sh (detachCommand mountPoint) (consoleLog ''Unmounting...'' w1) = (rd, w')"
    and rd: "Inl e = (case rd of Inl e \<Rightarrow> Inl e | Inr out \<Rightarrow> Inr ())"
    by (rule unmount_exec)
  from rd have "rd = Inl e" by (cases rd) simp_all
  with x have "execSync sh (detachCommand mountPoint) (consoleLog ''Unmounting...'' w1) = (Inl e, w')"
    by simp
  from execSync_error [OF this] detachFailed(3) r show ?thesis by auto
next
  case (linkFailed e w1)
  from linkFailed(1) have
    "execSync sh (linkCommand (pathJoin mountPoint ''Applications''))
       (consoleLog (''Mounted at: '' @ mountPoint) w) = (Inl e, w1)"
    by (cases rule: addApplicationsLink_cases) simp_all
  from execSync_error [OF this] linkFailed(3) r show ?thesis by auto
next
  case (converted w1 w2)
  from mounted_closed [OF converted] obtain fs1 x1 out st out' where
    s1: "sh (detachCommand mountPoint) fs1 x1 = ((0, out), files w2, ext w2)"
    and s2: "sh (convertCommand tempDmgPath outputPath) (files w2) (ext w2)
             = ((st, out'), files w', ext w')"
    and res: "r = (if st = 0
                then (case statSyncSize (files w') outputPath of
                        Inl e \<Rightarrow> Inl e | Inr sz \<Rightarrow> Inr ())
                else Inl (CommandFailed (convertCommand tempDmgPath outputPath) st))"
    by blast
  from res r have "st = 0" by (auto split: if_splits)
  with s1 s2 show ?thesis by blast
qed

lemma mounted_convert_failure:
  assumes m: "mounted sh tempDmgPath outputPath mountPoint w
                = (Inl (CommandFailed (convertCommand tempDmgPath outputPath) status), w')"
  shows "status \<noteq> 0 \<and>
         (\<exists>fs1 x1 out fs2 x2 out'.
            sh (detachCommand mountPoint) fs1 x1 = ((0, out), fs2, x2) \<and>
            sh (convertCommand tempDmgPath outputPath) fs2 x2 = ((status, out'), files w', ext w'))"
  using m
proof (cases rule: mounted_cases)
  case (detachFailed r1 w1 e)
  from detachFailed(2) obtain rd where
    x: "execSync sh (detachCommand mountPoint) (consoleLog ''Unmounting...'' w1) = (rd, w')"
    and rd: "Inl e = (case rd of Inl e \<Rightarrow> Inl e | Inr out \<Rightarrow> Inr ())"
    by (rule unmount_exec)
  from rd have "rd = Inl e" by (cases rd) simp_all
  with x have "execSync sh (detachCommand mountPoint) (consoleLog ''Unmounting...'' w1) = (Inl e, w')"
    by simp
  from execSync_error [OF this] detachFailed(3)
  have "convertCommand tempDmgPath outputPath = detachCommand mountPoint" by auto
  with detach_differs(4) show ?thesis by blast
next
  case (linkFailed e w1)
  from linkFailed(1) have
    "execSync sh (linkCommand (pathJoin mountPoint ''Applications''))
       (consoleLog (''Mounted at: '' @ mountPoint) w) = (Inl e, w1)"
    by (cases rule: addApplicationsLink_cases) simp_all
  from execSync_error [OF this] linkFailed(3)
  have "convertCommand tempDmgPath outputPath = linkCommand (pathJoin mountPoint ''Applications'')"
    by auto
  with link_differs(4) show ?thesis by blast
next
  case (converted w1 w2)
  from mounted_closed [OF converted] obtain fs1 x1 out st out' where
    s1: "sh (detachCommand mountPoint) fs1 x1 = ((0, out), files w2, ext w2)"
    and s2: "sh (convertCommand tempDmgPath outputPath) (files w2) (ext w2)
             = ((st, out'), files w', ext w')"
    and res: "Inl (CommandFailed (convertCommand tempDmgPath outputPath) status)
              = (if st = 0
                then (case statSyncSize (files w') outputPath of
                        Inl e \<Rightarrow> Inl e | Inr sz \<Rightarrow> Inr ())
                else Inl (CommandFailed (convertCommand tempDmgPath outputPath) st))"
    by blast
  from res have "st = status \<and> st \<noteq> 0"
    by (auto simp: statSyncSize_def split: if_splits option.splits node.splits)
  with s1 s2 show ?thesis by blast
qed

section \<open>The mount is always released\<close>

lemma example_detach_fails:
  "createDMG (exampleShell ''hdiutil detach'') None ''Code.app'' ''out.dmg'' (start exampleFiles)
     = (Inl (CommandFailed (detachCommand ''/Volumes/Code'') 1),
        \<lparr>files = exampleFiles(''out.dmg'' := None, ''out-temp.dmg'' := None,
                  ''/Volumes/Code/Applications'' \<mapsto> File 12), ext = (),
          events =
            [ConsoleLog ''App size: 800MB'',
             ConsoleLog ''Creating DMG with 850MB capacity...'',
             UnlinkSync ''out.dmg'',
             ConsoleLog ''Creating temporary DMG...'',
             ExecSync (createCommand ''Code.app'' ''Code - OSS'' 850 ''out-temp.dmg''),
             ConsoleLog ''Mounting DMG to add Applications symlink...'',
             ExecSync (attachCommand ''out-temp.dmg''),
             ConsoleLog ''Mounted at: /Volumes/Code'',
             ExecSync (linkCommand ''/Volumes/Code/Applications''),
             ConsoleLog ''Added Applications symlink'',
             ConsoleLog ''Unmounting...'',
             ExecSync (detachCommand ''/Volumes/Code''),
             UnlinkSync ''out-temp.dmg'']\<rparr>)"
  by (simp add: example_defs consoleLog_def fun_upd_twist)

lemma example_succeeds:
  "createDMG (exampleShell []) None ''Code.app'' ''out.dmg'' (start exampleFiles)
     = (Inr (),
        \<lparr>files = exampleFiles(''out.dmg'' \<mapsto> File 300, ''out-temp.dmg'' := None,
                  ''/Volumes/Code/Applications'' \<mapsto> File 12), ext = (),
          events =
            [ConsoleLog ''App size: 800MB'',
             ConsoleLog ''Creating DMG with 850MB capacity...'',
             UnlinkSync ''out.dmg'',
             ConsoleLog ''Creating temporary DMG...'',
             ExecSync (createCommand ''Code.app'' ''Code - OSS'' 850 ''out-temp.dmg''),
             ConsoleLog ''Mounting DMG to add Applications symlink...'',
             ExecSync (attachCommand ''out-temp.dmg''),
             ConsoleLog ''Mounted at: /Volumes/Code'',
             ExecSync (linkCommand ''/Volumes/Code/Applications''),
             ConsoleLog ''Added Applications symlink'',
             ConsoleLog ''Unmounting...'',
             ExecSync (detachCommand ''/Volumes/Code''),
             ConsoleLog ''Converting to compressed DMG...'',
             ExecSync (convertCommand ''out-temp.dmg'' ''out.dmg''),
             ConsoleLog ''DMG created successfully: out.dmg'',
             ConsoleLog ''Final DMG size: 0MB'',
             UnlinkSync ''out-temp.dmg'']\<rparr>)"
  by (simp add: example_defs consoleLog_def fun_upd_twist)

lemma example_convert_fails:
  "createDMG (exampleShell ''hdiutil convert'') None ''Code.app'' ''out.dmg'' (start exampleFiles)
     = (Inl (CommandFailed (convertCommand ''out-temp.dmg'' ''out.dmg'') 1),
        \<lparr>files = exampleFiles(''out.dmg'' := None, ''out-temp.dmg'' := None,
                  ''/Volumes/Code/Applications'' \<mapsto> File 12), ext = (),
          events =
            [ConsoleLog ''App size: 800MB'',
             ConsoleLog ''Creating DMG with 850MB capacity...'',
             UnlinkSync ''out.dmg'',
             ConsoleLog ''Creating temporary DMG...'',
             ExecSync (createCommand ''Code.app'' ''Code - OSS'' 850 ''out-temp.dmg''),
             ConsoleLog ''Mounting DMG to add Applications symlink...'',
             ExecSync (attachCommand ''out-temp.dmg''),
             ConsoleLog ''Mounted at: /Volumes/Code'',
             ExecSync (linkCommand ''/Volumes/Code/Applications''),
             ConsoleLog ''Added Applications symlink'',
             ConsoleLog ''Unmounting...'',
             ExecSync (detachCommand ''/Volumes/Code''),
             ConsoleLog ''Converting to compressed DMG...'',
             ExecSync (convertCommand ''out-temp.dmg'' ''out.dmg''),
             UnlinkSync ''out-temp.dmg'']\<rparr>)"
  by (simp add: example_defs consoleLog_def fun_upd_twist)

text \<open>
  C2. In every run of \<^verbatim>\<open>createDMG\<close>, a mount point that was parsed (the run printed the
  line of line 87 for it) is followed in the trace by the command
  \<^verbatim>\<open>hdiutil detach "<mount point>" -quiet\<close>, whatever the decoration step did. The
  command on the trace is the command the shell ran: a run that ends with the error of
  \<^verbatim>\<open>ln\<close> failed on the link under the mount point, then gave that detach command to the
  shell on the world \<^verbatim>\<open>ln\<close> left, the detach exited with status 0, and the world
  \<^verbatim>\<open>createDMG\<close> returns is the one the detach left, less the temporary image; a run
  that ends with the error of the detach command gave it to the shell and got that
  status; and a run that ends in success, or with the error of the conversion or of the
  final \<^verbatim>\<open>stat\<close>, gave the detach command to the shell, got status 0, and ran the
  conversion on the world the detach left. The command line reports a failure only after
  everything \<^verbatim>\<open>createDMG\<close> did, so after the detach.
\<close>

theorem createDMG_detaches_before_report:
  assumes run: "createDMG sh nameLong appPath outputPath w = (r, w')"
  shows "followedBy (ConsoleLog (''Mounted at: '' @ mountPoint))
           (ExecSync (''hdiutil detach '' @ dq @ mountPoint @ dq @ '' -quiet'')) (emitted w w') \<and>
         (ConsoleLog (''Mounted at: '' @ mountPoint) \<in> set (emitted w w') \<and>
          r = Inl (CommandFailed (''ln -s /Applications '' @ dq @ applicationsLink @ dq) status) \<longrightarrow>
            applicationsLink = pathJoin mountPoint ''Applications'' \<and>
            (\<exists>fs0 x0 out0 fs1 x1 out fs2 x2.
               sh (''ln -s /Applications '' @ dq @ applicationsLink @ dq) fs0 x0
                 = ((status, out0), fs1, x1) \<and>
               sh (''hdiutil detach '' @ dq @ mountPoint @ dq @ '' -quiet'') fs1 x1
                 = ((0, out), fs2, x2) \<and>
               files w' = fs2(tempDmgPathOf outputPath := None) \<and> ext w' = x2)) \<and>
         (ConsoleLog (''Mounted at: '' @ mountPoint) \<in> set (emitted w w') \<and>
          r = Inl (CommandFailed (''hdiutil detach '' @ dq @ mountPoint @ dq @ '' -quiet'') status) \<longrightarrow>
            status \<noteq> 0 \<and>
            (\<exists>fs1 x1 out fs2 x2.
               sh (''hdiutil detach '' @ dq @ mountPoint @ dq @ '' -quiet'') fs1 x1
                 = ((status, out), fs2, x2) \<and>
               files w' = fs2(tempDmgPathOf outputPath := None) \<and> ext w' = x2)) \<and>
         (ConsoleLog (''Mounted at: '' @ mountPoint) \<in> set (emitted w w') \<and>
          (r = Inr () \<or> r = Inl (SystemError ENOENT ''stat'' outputPath)) \<longrightarrow>
            (\<exists>fs1 x1 out fs2 x2 out' fs3 x3.
               sh (''hdiutil detach '' @ dq @ mountPoint @ dq @ '' -quiet'') fs1 x1
                 = ((0, out), fs2, x2) \<and>
               sh (''hdiutil convert '' @ dq @ tempDmgPathOf outputPath @ dq
                   @ '' -format UDZO -imagekey zlib-level=9 -o '' @ dq @ outputPath @ dq) fs2 x2
                 = ((0, out'), fs3, x3) \<and>
               files w' = fs3(tempDmgPathOf outputPath := None) \<and> ext w' = x3)) \<and>
         (ConsoleLog (''Mounted at: '' @ mountPoint) \<in> set (emitted w w') \<and>
          r = Inl (CommandFailed
                (''hdiutil convert '' @ dq @ tempDmgPathOf outputPath @ dq
                 @ '' -format UDZO -imagekey zlib-level=9 -o '' @ dq @ outputPath @ dq) status) \<longrightarrow>
            status \<noteq> 0 \<and>
            (\<exists>fs1 x1 out fs2 x2 out' fs3 x3.
               sh (''hdiutil detach '' @ dq @ mountPoint @ dq @ '' -quiet'') fs1 x1
                 = ((0, out), fs2, x2) \<and>
               sh (''hdiutil convert '' @ dq @ tempDmgPathOf outputPath @ dq
                   @ '' -format UDZO -imagekey zlib-level=9 -o '' @ dq @ outputPath @ dq) fs2 x2
                 = ((status, out'), fs3, x3) \<and>
               files w' = fs3(tempDmgPathOf outputPath := None) \<and> ext w' = x3)) \<and>
         emitted w (snd (main sh nameLong [appPath, outputPath] w))
           = emitted w w' @
             (case r of Inl err \<Rightarrow> [ConsoleError ''Failed to create DMG:'' err] | Inr u \<Rightarrow> [])"
proof -
  have detachText: "''hdiutil detach '' @ dq @ m @ dq @ '' -quiet'' = detachCommand m" for m
    by (simp add: detachCommand_def)
  have linkText: "''ln -s /Applications '' @ dq @ l @ dq = linkCommand l" for l
    by (simp add: linkCommand_def)
  have convertText: "''hdiutil convert '' @ dq @ t @ dq
      @ '' -format UDZO -imagekey zlib-level=9 -o '' @ dq @ p @ dq = convertCommand t p" for t p
    by (simp add: convertCommand_def)
  from createDMG_extends [OF run, of mountPoint] obtain es where
    e: "events w' = events w @ es"
    and f: "followedBy (ConsoleLog (''Mounted at: '' @ mountPoint))
              (ExecSync (detachCommand mountPoint)) es"
    by blast
  from e have em: "emitted w w' = es" by (rule emitted_append)
  from f em have first: "followedBy (ConsoleLog (''Mounted at: '' @ mountPoint))
      (ExecSync (''hdiutil detach '' @ dq @ mountPoint @ dq @ '' -quiet'')) (emitted w w')"
    by (simp only: detachText)
  have "events (snd (main sh nameLong [appPath, outputPath] w))
          = events w @ es @
            (case r of Inl err \<Rightarrow> [ConsoleError ''Failed to create DMG:'' err] | Inr u \<Rightarrow> [])"
    using run e by (cases r) (simp_all add: main_def consoleError_def)
  then have "emitted w (snd (main sh nameLong [appPath, outputPath] w))
          = es @ (case r of Inl err \<Rightarrow> [ConsoleError ''Failed to create DMG:'' err] | Inr u \<Rightarrow> [])"
    by (rule emitted_append)
  with em have last: "emitted w (snd (main sh nameLong [appPath, outputPath] w))
           = emitted w w' @
             (case r of Inl err \<Rightarrow> [ConsoleError ''Failed to create DMG:'' err] | Inr u \<Rightarrow> [])"
    by simp
  have scope: "\<exists>w2 w4. mounted sh (tempDmgPathOf outputPath) outputPath mountPoint w2 = (r, w4) \<and>
                 files w' = (files w4)(tempDmgPathOf outputPath := None) \<and> ext w' = ext w4"
    if printed: "ConsoleLog (''Mounted at: '' @ mountPoint) \<in> set (emitted w w')"
      and failed: "\<forall>code. r \<noteq> Inl (SystemError code ''unlink'' (tempDmgPathOf outputPath))"
  proof -
    from createDMG_mounted [OF run printed] obtain w2 rb w4 rc where
      m: "mounted sh (tempDmgPathOf outputPath) outputPath mountPoint w2 = (rb, w4)"
      and fin: "unlinkIfExists (tempDmgPathOf outputPath) w4 = (rc, w')"
      and res: "r = (case rc of Inl e \<Rightarrow> Inl e | Inr u \<Rightarrow> rb)"
      by blast
    show ?thesis
    proof (cases rc)
      case (Inl e)
      with fin unlinkIfExists_error [of "tempDmgPathOf outputPath" w4 e w'] res failed
      show ?thesis by auto
    next
      case (Inr u)
      with res have "rb = r" by simp
      with m unlinkIfExists_done [OF fin [unfolded Inr]] show ?thesis by blast
    qed
  qed
  have link: "applicationsLink = pathJoin mountPoint ''Applications'' \<and>
            (\<exists>fs0 x0 out0 fs1 x1 out fs2 x2.
               sh (''ln -s /Applications '' @ dq @ applicationsLink @ dq) fs0 x0
                 = ((status, out0), fs1, x1) \<and>
               sh (''hdiutil detach '' @ dq @ mountPoint @ dq @ '' -quiet'') fs1 x1
                 = ((0, out), fs2, x2) \<and>
               files w' = fs2(tempDmgPathOf outputPath := None) \<and> ext w' = x2)"
    if printed: "ConsoleLog (''Mounted at: '' @ mountPoint) \<in> set (emitted w w')"
      and failed: "r = Inl (CommandFailed (''ln -s /Applications '' @ dq @ applicationsLink @ dq) status)"
  proof -
    from failed have "\<forall>code. r \<noteq> Inl (SystemError code ''unlink'' (tempDmgPathOf outputPath))"
      by simp
    from scope [OF printed this] obtain w2 w4 where
      m: "mounted sh (tempDmgPathOf outputPath) outputPath mountPoint w2 = (r, w4)"
      and fs: "files w' = (files w4)(tempDmgPathOf outputPath := None)" and x: "ext w' = ext w4"
      by blast
    from m failed have "mounted sh (tempDmgPathOf outputPath) outputPath mountPoint w2
        = (Inl (CommandFailed (linkCommand applicationsLink) status), w4)"
      by (simp only: linkText)
    from mounted_link_failure [OF this] obtain fs0 x0 out0 fs1 x1 out where
      l: "applicationsLink = pathJoin mountPoint ''Applications''"
      and s0: "sh (linkCommand applicationsLink) fs0 x0 = ((status, out0), fs1, x1)"
      and s1: "sh (detachCommand mountPoint) fs1 x1 = ((0, out), files w4, ext w4)"
      by blast
    from s0 have t0: "sh (''ln -s /Applications '' @ dq @ applicationsLink @ dq) fs0 x0
        = ((status, out0), fs1, x1)"
      by (simp only: linkText)
    from s1 have t1: "sh (''hdiutil detach '' @ dq @ mountPoint @ dq @ '' -quiet'') fs1 x1
        = ((0, out), files w4, ext w4)"
      by (simp only: detachText)
    from t0 t1 fs x have "\<exists>fs0 x0 out0 fs1 x1 out fs2 x2.
               sh (''ln -s /Applications '' @ dq @ applicationsLink @ dq) fs0 x0
                 = ((status, out0), fs1, x1) \<and>
               sh (''hdiutil detach '' @ dq @ mountPoint @ dq @ '' -quiet'') fs1 x1
                 = ((0, out), fs2, x2) \<and>
               files w' = fs2(tempDmgPathOf outputPath := None) \<and> ext w' = x2"
      by (intro exI conjI)
    with l show ?thesis by (rule conjI)
  qed
  have detach: "status \<noteq> 0 \<and>
            (\<exists>fs1 x1 out fs2 x2.
               sh (''hdiutil detach '' @ dq @ mountPoint @ dq @ '' -quiet'') fs1 x1
                 = ((status, out), fs2, x2) \<and>
               files w' = fs2(tempDmgPathOf outputPath := None) \<and> ext w' = x2)"
    if printed: "ConsoleLog (''Mounted at: '' @ mountPoint) \<in> set (emitted w w')"
      and failed: "r = Inl (CommandFailed (''hdiutil detach '' @ dq @ mountPoint @ dq @ '' -quiet'') status)"
  proof -
    from failed have "\<forall>code. r \<noteq> Inl (SystemError code ''unlink'' (tempDmgPathOf outputPath))"
      by simp
    from scope [OF printed this] obtain w2 w4 where
      m: "mounted sh (tempDmgPathOf outputPath) outputPath mountPoint w2 = (r, w4)"
      and fs: "files w' = (files w4)(tempDmgPathOf outputPath := None)" and x: "ext w' = ext w4"
      by blast
    from m failed have "mounted sh (tempDmgPathOf outputPath) outputPath mountPoint w2
        = (Inl (CommandFailed (detachCommand mountPoint) status), w4)"
      by (simp only: detachText)
    from mounted_detach_failure [OF this] obtain fs1 x1 out where
      nz: "status \<noteq> 0"
      and s1: "sh (detachCommand mountPoint) fs1 x1 = ((status, out), files w4, ext w4)"
      by blast
    from s1 have t1: "sh (''hdiutil detach '' @ dq @ mountPoint @ dq @ '' -quiet'') fs1 x1
        = ((status, out), files w4, ext w4)"
      by (simp only: detachText)
    from t1 fs x have "\<exists>fs1 x1 out fs2 x2.
               sh (''hdiutil detach '' @ dq @ mountPoint @ dq @ '' -quiet'') fs1 x1
                 = ((status, out), fs2, x2) \<and>
               files w' = fs2(tempDmgPathOf outputPath := None) \<and> ext w' = x2"
      by (intro exI conjI)
    with nz show ?thesis by (rule conjI)
  qed
  have converted: "\<exists>fs1 x1 out fs2 x2 out' fs3 x3.
               sh (''hdiutil detach '' @ dq @ mountPoint @ dq @ '' -quiet'') fs1 x1
                 = ((0, out), fs2, x2) \<and>
               sh (''hdiutil convert '' @ dq @ tempDmgPathOf outputPath @ dq
                   @ '' -format UDZO -imagekey zlib-level=9 -o '' @ dq @ outputPath @ dq) fs2 x2
                 = ((0, out'), fs3, x3) \<and>
               files w' = fs3(tempDmgPathOf outputPath := None) \<and> ext w' = x3"
    if printed: "ConsoleLog (''Mounted at: '' @ mountPoint) \<in> set (emitted w w')"
      and ended: "r = Inr () \<or> r = Inl (SystemError ENOENT ''stat'' outputPath)"
  proof -
    from ended have "\<forall>code. r \<noteq> Inl (SystemError code ''unlink'' (tempDmgPathOf outputPath))"
      by auto
    from scope [OF printed this] obtain w2 w4 where
      m: "mounted sh (tempDmgPathOf outputPath) outputPath mountPoint w2 = (r, w4)"
      and fs: "files w' = (files w4)(tempDmgPathOf outputPath := None)" and x: "ext w' = ext w4"
      by blast
    from mounted_converted [OF m ended] obtain fs1 x1 out fs2 x2 out' where
      s1: "sh (detachCommand mountPoint) fs1 x1 = ((0, out), fs2, x2)"
      and s2: "sh (convertCommand (tempDmgPathOf outputPath) outputPath) fs2 x2
                 = ((0, out'), files w4, ext w4)"
      by blast
    from s1 have t1: "sh (''hdiutil detach '' @ dq @ mountPoint @ dq @ '' -quiet'') fs1 x1
        = ((0, out), fs2, x2)"
      by (simp only: detachText)
    from s2 have t2: "sh (''hdiutil convert '' @ dq @ tempDmgPathOf outputPath @ dq
                   @ '' -format UDZO -imagekey zlib-level=9 -o '' @ dq @ outputPath @ dq) fs2 x2
        = ((0, out'), files w4, ext w4)"
      by (simp only: convertText)
    from t1 t2 fs x show ?thesis by (intro exI conjI)
  qed
  have convertFailed: "status \<noteq> 0 \<and>
            (\<exists>fs1 x1 out fs2 x2 out' fs3 x3.
               sh (''hdiutil detach '' @ dq @ mountPoint @ dq @ '' -quiet'') fs1 x1
                 = ((0, out), fs2, x2) \<and>
               sh (''hdiutil convert '' @ dq @ tempDmgPathOf outputPath @ dq
                   @ '' -format UDZO -imagekey zlib-level=9 -o '' @ dq @ outputPath @ dq) fs2 x2
                 = ((status, out'), fs3, x3) \<and>
               files w' = fs3(tempDmgPathOf outputPath := None) \<and> ext w' = x3)"
    if printed: "ConsoleLog (''Mounted at: '' @ mountPoint) \<in> set (emitted w w')"
      and failed: "r = Inl (CommandFailed
                (''hdiutil convert '' @ dq @ tempDmgPathOf outputPath @ dq
                 @ '' -format UDZO -imagekey zlib-level=9 -o '' @ dq @ outputPath @ dq) status)"
  proof -
    from failed have "\<forall>code. r \<noteq> Inl (SystemError code ''unlink'' (tempDmgPathOf outputPath))"
      by simp
    from scope [OF printed this] obtain w2 w4 where
      m: "mounted sh (tempDmgPathOf outputPath) outputPath mountPoint w2 = (r, w4)"
      and fs: "files w' = (files w4)(tempDmgPathOf outputPath := None)" and x: "ext w' = ext w4"
      by blast
    from m failed have "mounted sh (tempDmgPathOf outputPath) outputPath mountPoint w2
        = (Inl (CommandFailed (convertCommand (tempDmgPathOf outputPath) outputPath) status), w4)"
      by (simp only: convertText)
    from mounted_convert_failure [OF this] obtain fs1 x1 out fs2 x2 out' where
      nz: "status \<noteq> 0"
      and s1: "sh (detachCommand mountPoint) fs1 x1 = ((0, out), fs2, x2)"
      and s2: "sh (convertCommand (tempDmgPathOf outputPath) outputPath) fs2 x2
                 = ((status, out'), files w4, ext w4)"
      by blast
    from s1 have t1: "sh (''hdiutil detach '' @ dq @ mountPoint @ dq @ '' -quiet'') fs1 x1
        = ((0, out), fs2, x2)"
      by (simp only: detachText)
    from s2 have t2: "sh (''hdiutil convert '' @ dq @ tempDmgPathOf outputPath @ dq
                   @ '' -format UDZO -imagekey zlib-level=9 -o '' @ dq @ outputPath @ dq) fs2 x2
        = ((status, out'), files w4, ext w4)"
      by (simp only: convertText)
    from t1 t2 fs x have "\<exists>fs1 x1 out fs2 x2 out' fs3 x3.
               sh (''hdiutil detach '' @ dq @ mountPoint @ dq @ '' -quiet'') fs1 x1
                 = ((0, out), fs2, x2) \<and>
               sh (''hdiutil convert '' @ dq @ tempDmgPathOf outputPath @ dq
                   @ '' -format UDZO -imagekey zlib-level=9 -o '' @ dq @ outputPath @ dq) fs2 x2
                 = ((status, out'), fs3, x3) \<and>
               files w' = fs3(tempDmgPathOf outputPath := None) \<and> ext w' = x3"
      by (intro exI conjI)
    with nz show ?thesis by (rule conjI)
  qed
  show ?thesis
  proof (intro conjI impI)
    show "followedBy (ConsoleLog (''Mounted at: '' @ mountPoint))
      (ExecSync (''hdiutil detach '' @ dq @ mountPoint @ dq @ '' -quiet'')) (emitted w w')"
      by (rule first)
  next
    assume a: "ConsoleLog (''Mounted at: '' @ mountPoint) \<in> set (emitted w w') \<and>
      r = Inl (CommandFailed (''ln -s /Applications '' @ dq @ applicationsLink @ dq) status)"
    from link [OF conjunct1 [OF a] conjunct2 [OF a]]
    show "applicationsLink = pathJoin mountPoint ''Applications''"
      by (rule conjunct1)
    from link [OF conjunct1 [OF a] conjunct2 [OF a]]
    show "\<exists>fs0 x0 out0 fs1 x1 out fs2 x2.
               sh (''ln -s /Applications '' @ dq @ applicationsLink @ dq) fs0 x0
                 = ((status, out0), fs1, x1) \<and>
               sh (''hdiutil detach '' @ dq @ mountPoint @ dq @ '' -quiet'') fs1 x1
                 = ((0, out), fs2, x2) \<and>
               files w' = fs2(tempDmgPathOf outputPath := None) \<and> ext w' = x2"
      by (rule conjunct2)
  next
    assume a: "ConsoleLog (''Mounted at: '' @ mountPoint) \<in> set (emitted w w') \<and>
      r = Inl (CommandFailed (''hdiutil detach '' @ dq @ mountPoint @ dq @ '' -quiet'') status)"
    from detach [OF conjunct1 [OF a] conjunct2 [OF a]]
    show "status \<noteq> 0"
      by (rule conjunct1)
    from detach [OF conjunct1 [OF a] conjunct2 [OF a]]
    show "\<exists>fs1 x1 out fs2 x2.
               sh (''hdiutil detach '' @ dq @ mountPoint @ dq @ '' -quiet'') fs1 x1
                 = ((status, out), fs2, x2) \<and>
               files w' = fs2(tempDmgPathOf outputPath := None) \<and> ext w' = x2"
      by (rule conjunct2)
  next
    assume a: "ConsoleLog (''Mounted at: '' @ mountPoint) \<in> set (emitted w w') \<and>
      (r = Inr () \<or> r = Inl (SystemError ENOENT ''stat'' outputPath))"
    from converted [OF conjunct1 [OF a] conjunct2 [OF a]]
    show "\<exists>fs1 x1 out fs2 x2 out' fs3 x3.
               sh (''hdiutil detach '' @ dq @ mountPoint @ dq @ '' -quiet'') fs1 x1
                 = ((0, out), fs2, x2) \<and>
               sh (''hdiutil convert '' @ dq @ tempDmgPathOf outputPath @ dq
                   @ '' -format UDZO -imagekey zlib-level=9 -o '' @ dq @ outputPath @ dq) fs2 x2
                 = ((0, out'), fs3, x3) \<and>
               files w' = fs3(tempDmgPathOf outputPath := None) \<and> ext w' = x3" .
  next
    assume a: "ConsoleLog (''Mounted at: '' @ mountPoint) \<in> set (emitted w w') \<and>
      r = Inl (CommandFailed
                (''hdiutil convert '' @ dq @ tempDmgPathOf outputPath @ dq
                 @ '' -format UDZO -imagekey zlib-level=9 -o '' @ dq @ outputPath @ dq) status)"
    from convertFailed [OF conjunct1 [OF a] conjunct2 [OF a]]
    show "status \<noteq> 0"
      by (rule conjunct1)
    from convertFailed [OF conjunct1 [OF a] conjunct2 [OF a]]
    show "\<exists>fs1 x1 out fs2 x2 out' fs3 x3.
               sh (''hdiutil detach '' @ dq @ mountPoint @ dq @ '' -quiet'') fs1 x1
                 = ((0, out), fs2, x2) \<and>
               sh (''hdiutil convert '' @ dq @ tempDmgPathOf outputPath @ dq
                   @ '' -format UDZO -imagekey zlib-level=9 -o '' @ dq @ outputPath @ dq) fs2 x2
                 = ((status, out'), fs3, x3) \<and>
               files w' = fs3(tempDmgPathOf outputPath := None) \<and> ext w' = x3"
      by (rule conjunct2)
  next
    show "emitted w (snd (main sh nameLong [appPath, outputPath] w))
           = emitted w w' @
             (case r of Inl err \<Rightarrow> [ConsoleError ''Failed to create DMG:'' err] | Inr u \<Rightarrow> [])"
      by (rule last)
  qed
qed

theorem createDMG_detaches_before_report_witness:
  "fst (createDMG (exampleShell ''ln -s'') None ''Code.app'' ''out.dmg'' (start exampleFiles))
     = Inl (CommandFailed (''ln -s /Applications '' @ dq @ ''/Volumes/Code/Applications'' @ dq) 1) \<and>
   ConsoleLog (''Mounted at: '' @ ''/Volumes/Code'')
     \<in> set (emitted (start exampleFiles) (snd (createDMG (exampleShell ''ln -s'') None ''Code.app'' ''out.dmg'' (start exampleFiles)))) \<and>
   followedBy (ConsoleLog (''Mounted at: '' @ ''/Volumes/Code''))
     (ExecSync (''hdiutil detach '' @ dq @ ''/Volumes/Code'' @ dq @ '' -quiet''))
     (emitted (start exampleFiles) (snd (createDMG (exampleShell ''ln -s'') None ''Code.app'' ''out.dmg'' (start exampleFiles)))) \<and>
   ''/Volumes/Code/Applications'' = pathJoin ''/Volumes/Code'' ''Applications'' \<and>
   (\<exists>fs0 x0 out0 fs1 x1 out fs2 x2.
      exampleShell ''ln -s'' (''ln -s /Applications '' @ dq @ ''/Volumes/Code/Applications'' @ dq) fs0 x0
        = ((1, out0), fs1, x1) \<and>
      exampleShell ''ln -s'' (''hdiutil detach '' @ dq @ ''/Volumes/Code'' @ dq @ '' -quiet'') fs1 x1
        = ((0, out), fs2, x2) \<and>
      files (snd (createDMG (exampleShell ''ln -s'') None ''Code.app'' ''out.dmg'' (start exampleFiles)))
        = fs2(tempDmgPathOf ''out.dmg'' := None) \<and>
      ext (snd (createDMG (exampleShell ''ln -s'') None ''Code.app'' ''out.dmg'' (start exampleFiles))) = x2) \<and>
   emitted (start exampleFiles)
       (snd (main (exampleShell ''ln -s'') None [''Code.app'', ''out.dmg''] (start exampleFiles)))
     = emitted (start exampleFiles) (snd (createDMG (exampleShell ''ln -s'') None ''Code.app'' ''out.dmg'' (start exampleFiles)))
       @ [ConsoleError ''Failed to create DMG:''
            (CommandFailed (''ln -s /Applications '' @ dq @ ''/Volumes/Code/Applications'' @ dq) 1)] \<and>
   fst (createDMG (exampleShell ''hdiutil detach'') None ''Code.app'' ''out.dmg'' (start exampleFiles))
     = Inl (CommandFailed (''hdiutil detach '' @ dq @ ''/Volumes/Code'' @ dq @ '' -quiet'') 1) \<and>
   ConsoleLog (''Mounted at: '' @ ''/Volumes/Code'')
     \<in> set (emitted (start exampleFiles) (snd (createDMG (exampleShell ''hdiutil detach'') None ''Code.app'' ''out.dmg'' (start exampleFiles)))) \<and>
   (\<exists>fs1 x1 out fs2 x2.
      exampleShell ''hdiutil detach'' (''hdiutil detach '' @ dq @ ''/Volumes/Code'' @ dq @ '' -quiet'') fs1 x1
        = ((1, out), fs2, x2) \<and>
      files (snd (createDMG (exampleShell ''hdiutil detach'') None ''Code.app'' ''out.dmg'' (start exampleFiles)))
        = fs2(tempDmgPathOf ''out.dmg'' := None) \<and>
      ext (snd (createDMG (exampleShell ''hdiutil detach'') None ''Code.app'' ''out.dmg'' (start exampleFiles))) = x2) \<and>
   fst (createDMG (exampleShell []) None ''Code.app'' ''out.dmg'' (start exampleFiles))
     = Inr () \<and>
   ConsoleLog (''Mounted at: '' @ ''/Volumes/Code'')
     \<in> set (emitted (start exampleFiles) (snd (createDMG (exampleShell []) None ''Code.app'' ''out.dmg'' (start exampleFiles)))) \<and>
   (\<exists>fs1 x1 out fs2 x2 out' fs3 x3.
      exampleShell [] (''hdiutil detach '' @ dq @ ''/Volumes/Code'' @ dq @ '' -quiet'') fs1 x1
        = ((0, out), fs2, x2) \<and>
      exampleShell []
          (''hdiutil convert '' @ dq @ tempDmgPathOf ''out.dmg'' @ dq
           @ '' -format UDZO -imagekey zlib-level=9 -o '' @ dq @ ''out.dmg'' @ dq) fs2 x2
        = ((0, out'), fs3, x3) \<and>
      files (snd (createDMG (exampleShell []) None ''Code.app'' ''out.dmg'' (start exampleFiles)))
        = fs3(tempDmgPathOf ''out.dmg'' := None) \<and>
      ext (snd (createDMG (exampleShell []) None ''Code.app'' ''out.dmg'' (start exampleFiles))) = x3) \<and>
   fst (createDMG (exampleShell ''hdiutil convert'') None ''Code.app'' ''out.dmg'' (start exampleFiles))
     = Inl (CommandFailed
         (''hdiutil convert '' @ dq @ tempDmgPathOf ''out.dmg'' @ dq
           @ '' -format UDZO -imagekey zlib-level=9 -o '' @ dq @ ''out.dmg'' @ dq) 1) \<and>
   ConsoleLog (''Mounted at: '' @ ''/Volumes/Code'')
     \<in> set (emitted (start exampleFiles) (snd (createDMG (exampleShell ''hdiutil convert'') None ''Code.app'' ''out.dmg'' (start exampleFiles)))) \<and>
   (\<exists>fs1 x1 out fs2 x2 out' fs3 x3.
      exampleShell ''hdiutil convert'' (''hdiutil detach '' @ dq @ ''/Volumes/Code'' @ dq @ '' -quiet'') fs1 x1
        = ((0, out), fs2, x2) \<and>
      exampleShell ''hdiutil convert''
          (''hdiutil convert '' @ dq @ tempDmgPathOf ''out.dmg'' @ dq
           @ '' -format UDZO -imagekey zlib-level=9 -o '' @ dq @ ''out.dmg'' @ dq) fs2 x2
        = ((1, out'), fs3, x3) \<and>
      files (snd (createDMG (exampleShell ''hdiutil convert'') None ''Code.app'' ''out.dmg'' (start exampleFiles)))
        = fs3(tempDmgPathOf ''out.dmg'' := None) \<and>
      ext (snd (createDMG (exampleShell ''hdiutil convert'') None ''Code.app'' ''out.dmg'' (start exampleFiles))) = x3)"
proof -
  have linkText: "''ln -s /Applications '' @ dq @ ''/Volumes/Code/Applications'' @ dq
      = linkCommand ''/Volumes/Code/Applications''"
    by (simp add: linkCommand_def)
  have detachText: "''hdiutil detach '' @ dq @ ''/Volumes/Code'' @ dq @ '' -quiet''
      = detachCommand ''/Volumes/Code''"
    by (simp add: detachCommand_def)
  have convertText: "''hdiutil convert '' @ dq @ tempDmgPathOf ''out.dmg'' @ dq
      @ '' -format UDZO -imagekey zlib-level=9 -o '' @ dq @ ''out.dmg'' @ dq
      = convertCommand ''out-temp.dmg'' ''out.dmg''"
    by (simp add: convertCommand_def example_paths)
  have printed1: "ConsoleLog (''Mounted at: '' @ ''/Volumes/Code'')
     \<in> set (emitted (start exampleFiles) (snd (createDMG (exampleShell ''ln -s'') None ''Code.app'' ''out.dmg'' (start exampleFiles))))"
    by (simp add: example_link_fails emitted_def)
  have printed2: "ConsoleLog (''Mounted at: '' @ ''/Volumes/Code'')
     \<in> set (emitted (start exampleFiles) (snd (createDMG (exampleShell ''hdiutil detach'') None ''Code.app'' ''out.dmg'' (start exampleFiles))))"
    by (simp add: example_detach_fails emitted_def)
  have printed3: "ConsoleLog (''Mounted at: '' @ ''/Volumes/Code'')
     \<in> set (emitted (start exampleFiles) (snd (createDMG (exampleShell []) None ''Code.app'' ''out.dmg'' (start exampleFiles))))"
    by (simp add: example_succeeds emitted_def)
  have printed4: "ConsoleLog (''Mounted at: '' @ ''/Volumes/Code'')
     \<in> set (emitted (start exampleFiles) (snd (createDMG (exampleShell ''hdiutil convert'') None ''Code.app'' ''out.dmg'' (start exampleFiles))))"
    by (simp add: example_convert_fails emitted_def)
  have r1: "fst (createDMG (exampleShell ''ln -s'') None ''Code.app'' ''out.dmg'' (start exampleFiles))
     = Inl (CommandFailed (''ln -s /Applications '' @ dq @ ''/Volumes/Code/Applications'' @ dq) 1)"
    by (simp only: linkText example_link_fails fst_conv)
  have r2: "fst (createDMG (exampleShell ''hdiutil detach'') None ''Code.app'' ''out.dmg'' (start exampleFiles))
     = Inl (CommandFailed (''hdiutil detach '' @ dq @ ''/Volumes/Code'' @ dq @ '' -quiet'') 1)"
    by (simp only: detachText example_detach_fails fst_conv)
  have r3: "fst (createDMG (exampleShell []) None ''Code.app'' ''out.dmg'' (start exampleFiles))
     = Inr ()"
    by (simp only: example_succeeds fst_conv)
  have r4: "fst (createDMG (exampleShell ''hdiutil convert'') None ''Code.app'' ''out.dmg'' (start exampleFiles))
     = Inl (CommandFailed
         (''hdiutil convert '' @ dq @ tempDmgPathOf ''out.dmg'' @ dq
           @ '' -format UDZO -imagekey zlib-level=9 -o '' @ dq @ ''out.dmg'' @ dq) 1)"
    by (simp only: convertText example_convert_fails fst_conv)
  have run1: "createDMG (exampleShell ''ln -s'') None ''Code.app'' ''out.dmg'' (start exampleFiles)
     = (Inl (CommandFailed (''ln -s /Applications '' @ dq @ ''/Volumes/Code/Applications'' @ dq) 1),
        snd (createDMG (exampleShell ''ln -s'') None ''Code.app'' ''out.dmg'' (start exampleFiles)))"
    by (rule prod_eqI) (simp_all only: fst_conv snd_conv r1)
  have run2: "createDMG (exampleShell ''hdiutil detach'') None ''Code.app'' ''out.dmg'' (start exampleFiles)
     = (Inl (CommandFailed (''hdiutil detach '' @ dq @ ''/Volumes/Code'' @ dq @ '' -quiet'') 1),
        snd (createDMG (exampleShell ''hdiutil detach'') None ''Code.app'' ''out.dmg'' (start exampleFiles)))"
    by (rule prod_eqI) (simp_all only: fst_conv snd_conv r2)
  have run3: "createDMG (exampleShell []) None ''Code.app'' ''out.dmg'' (start exampleFiles)
     = (Inr (),
        snd (createDMG (exampleShell []) None ''Code.app'' ''out.dmg'' (start exampleFiles)))"
    by (rule prod_eqI) (simp_all only: fst_conv snd_conv r3)
  have run4: "createDMG (exampleShell ''hdiutil convert'') None ''Code.app'' ''out.dmg'' (start exampleFiles)
     = (Inl (CommandFailed
         (''hdiutil convert '' @ dq @ tempDmgPathOf ''out.dmg'' @ dq
           @ '' -format UDZO -imagekey zlib-level=9 -o '' @ dq @ ''out.dmg'' @ dq) 1),
        snd (createDMG (exampleShell ''hdiutil convert'') None ''Code.app'' ''out.dmg'' (start exampleFiles)))"
    by (rule prod_eqI) (simp_all only: fst_conv snd_conv r4)
  note a = createDMG_detaches_before_report
    [where mountPoint = "''/Volumes/Code''" and applicationsLink = "''/Volumes/Code/Applications''"
       and status = 1, OF run1]
  note b = createDMG_detaches_before_report
    [where mountPoint = "''/Volumes/Code''" and applicationsLink = "''/Volumes/Code/Applications''"
       and status = 1, OF run2]
  note c = createDMG_detaches_before_report
    [where mountPoint = "''/Volumes/Code''" and applicationsLink = "''/Volumes/Code/Applications''"
       and status = 1, OF run3]
  note d = createDMG_detaches_before_report
    [where mountPoint = "''/Volumes/Code''" and applicationsLink = "''/Volumes/Code/Applications''"
       and status = 1, OF run4]
  note a1 = conjunct1 [OF a]
  note a2 = mp [OF conjunct1 [OF conjunct2 [OF a]] conjI [OF printed1 refl]]
  note a2l = conjunct1 [OF a2]
  note a2s = conjunct2 [OF a2]
  from conjunct2 [OF conjunct2 [OF conjunct2 [OF conjunct2 [OF conjunct2 [OF a]]]]]
  have a3: "emitted (start exampleFiles)
       (snd (main (exampleShell ''ln -s'') None [''Code.app'', ''out.dmg''] (start exampleFiles)))
     = emitted (start exampleFiles) (snd (createDMG (exampleShell ''ln -s'') None ''Code.app'' ''out.dmg'' (start exampleFiles)))
       @ [ConsoleError ''Failed to create DMG:''
            (CommandFailed (''ln -s /Applications '' @ dq @ ''/Volumes/Code/Applications'' @ dq) 1)]"
    by (simp only: sum.case)
  note b2 = conjunct2 [OF mp [OF conjunct1 [OF conjunct2 [OF conjunct2 [OF b]]]
      conjI [OF printed2 refl]]]
  note c2 = mp [OF conjunct1 [OF conjunct2 [OF conjunct2 [OF conjunct2 [OF c]]]]
      conjI [OF printed3 disjI1 [OF refl]]]
  note d2 = conjunct2 [OF mp [OF conjunct1 [OF conjunct2 [OF conjunct2 [OF conjunct2 [OF conjunct2 [OF d]]]]]
      conjI [OF printed4 refl]]]
  show ?thesis
    by (intro conjI) (rule r1 printed1 a1 a2l a2s a3 r2 printed2 b2 r3 printed3 c2 r4 printed4 d2)+
qed

section \<open>The planned capacity\<close>

text \<open>
  C3. The capacity planned for a measured size is \<open>\<lceil>bytes / 1048576\<rceil> + 50\<close>, which is 850
  for 838860800 bytes. On a source directory measured as \<open>appSize\<close> bytes, a run that does
  not stop at a \<^verbatim>\<open>mkdir\<close> or \<^verbatim>\<open>unlink\<close> error issues the \<^verbatim>\<open>hdiutil create\<close> command as
  its first command, with that capacity after \<^verbatim>\<open>-size\<close>: \<^verbatim>\<open>-size 850m\<close> for 800 MB.
\<close>

theorem createDMG_capacity:
  assumes dir: "files w appPath = Some (Dir d listing)"
    and measured: "getDirectorySize appPath listing = Inr appSize"
    and run: "createDMG sh nameLong appPath outputPath w = (r, w')"
    and prepared: "\<forall>code syscall p. r = Inl (SystemError code syscall p) \<longrightarrow>
                     syscall \<noteq> ''mkdir'' \<and> syscall \<noteq> ''unlink''"
  shows "requiredSizeMB bytes = nat \<lceil>real bytes / 1048576\<rceil> + 50 \<and>
         requiredSizeMB 838860800 = 850 \<and>
         (\<exists>rest. commandsRun (emitted w w')
            = createCommand appPath (volumeNameOf nameLong)
                (nat \<lceil>real appSize / 1048576\<rceil> + 50)
                (tempDmgPathOf outputPath) # rest) \<and>
         (appSize = 838860800 \<longrightarrow>
            (\<exists>rest. commandsRun (emitted w w')
               = (''hdiutil create -srcfolder '' @ dq @ appPath @ dq
                  @ '' -volname '' @ dq @ volumeNameOf nameLong @ dq
                  @ '' -fs HFS+ -fsargs '' @ dq @ ''-c c=64,a=16,e=16'' @ dq
                  @ '' -format UDRW -size 850m '' @ dq @ tempDmgPathOf outputPath @ dq) # rest))"
proof -
  have formula: "requiredSizeMB n = nat \<lceil>real n / 1048576\<rceil> + 50" for n
    by (simp add: requiredSizeMB_def)
  have concrete: "requiredSizeMB 838860800 = 850"
    by (simp add: requiredSizeMB_div)
  from dir measured have src: "existsSync (files w) appPath"
    and sizeAt: "getDirectorySizeAt (files w) appPath = Inr appSize"
    by (simp_all add: existsSync_def getDirectorySizeAt_def)
  from createDMG_events [OF src run, of "[]"] obtain pre es where
    e: "events w' = events w @ pre @ es" and q: "commandsRun pre = []"
    and s: "es = [] \<and>
              (\<exists>code syscall p. r = Inl (SystemError code syscall p) \<and>
                 (getDirectorySizeAt (files w) appPath = Inl (SystemError code syscall p) \<or>
                  syscall \<in> {''mkdir'', ''unlink''}))
            \<or> (\<exists>measuredSize rest.
                  getDirectorySizeAt (files w) appPath = Inr measuredSize \<and>
                  es = ConsoleLog ''Creating temporary DMG...''
                         # ExecSync (createCommand appPath (volumeNameOf nameLong)
                              (requiredSizeMB measuredSize) (tempDmgPathOf outputPath)) # rest)"
    by blast
  from s show ?thesis
  proof
    assume "es = [] \<and>
              (\<exists>code syscall p. r = Inl (SystemError code syscall p) \<and>
                 (getDirectorySizeAt (files w) appPath = Inl (SystemError code syscall p) \<or>
                  syscall \<in> {''mkdir'', ''unlink''}))"
    with sizeAt prepared show ?thesis by auto
  next
    assume "\<exists>measuredSize rest.
              getDirectorySizeAt (files w) appPath = Inr measuredSize \<and>
              es = ConsoleLog ''Creating temporary DMG...''
                     # ExecSync (createCommand appPath (volumeNameOf nameLong)
                          (requiredSizeMB measuredSize) (tempDmgPathOf outputPath)) # rest"
    with sizeAt obtain rest where
      "es = ConsoleLog ''Creating temporary DMG...''
              # ExecSync (createCommand appPath (volumeNameOf nameLong)
                   (requiredSizeMB appSize) (tempDmgPathOf outputPath)) # rest"
      by auto
    with e q have cmds: "commandsRun (emitted w w')
        = createCommand appPath (volumeNameOf nameLong)
            (requiredSizeMB appSize) (tempDmgPathOf outputPath)
          # commandsRun rest"
      by (simp add: emitted_def commandsRun_append)
    have text850: "createCommand appPath (volumeNameOf nameLong) 850 (tempDmgPathOf outputPath)
        = ''hdiutil create -srcfolder '' @ dq @ appPath @ dq
          @ '' -volname '' @ dq @ volumeNameOf nameLong @ dq
          @ '' -fs HFS+ -fsargs '' @ dq @ ''-c c=64,a=16,e=16'' @ dq
          @ '' -format UDRW -size 850m '' @ dq @ tempDmgPathOf outputPath @ dq"
      by (simp add: createCommand_def example_digits)
    from cmds formula concrete text850 show ?thesis by auto
  qed
qed

theorem createDMG_capacity_witness:
  "files (start exampleFiles) ''Code.app''
     = Some (Dir 96 [(''Contents'', Stats (Dir 128 [(''MacOS'', Stats (File 838860000)), (''Info.plist'', Stats (File 800))]))]) \<and>
   getDirectorySize ''Code.app'' [(''Contents'', Stats (Dir 128 [(''MacOS'', Stats (File 838860000)), (''Info.plist'', Stats (File 800))]))]
     = Inr 838860800 \<and>
   fst (createDMG (exampleShell []) None ''Code.app'' ''out.dmg'' (start exampleFiles)) = Inr () \<and>
   (\<exists>rest. commandsRun (emitted (start exampleFiles)
        (snd (createDMG (exampleShell []) None ''Code.app'' ''out.dmg'' (start exampleFiles))))
      = (''hdiutil create -srcfolder '' @ dq @ ''Code.app'' @ dq
         @ '' -volname '' @ dq @ volumeNameOf None @ dq
         @ '' -fs HFS+ -fsargs '' @ dq @ ''-c c=64,a=16,e=16'' @ dq
         @ '' -format UDRW -size 850m '' @ dq @ tempDmgPathOf ''out.dmg'' @ dq) # rest)"
proof -
  have dir: "files (start exampleFiles) ''Code.app''
     = Some (Dir 96 [(''Contents'', Stats (Dir 128 [(''MacOS'', Stats (File 838860000)), (''Info.plist'', Stats (File 800))]))])"
    by simp
  have sz: "getDirectorySize ''Code.app''
      [(''Contents'', Stats (Dir 128 [(''MacOS'', Stats (File 838860000)), (''Info.plist'', Stats (File 800))]))]
     = Inr 838860800"
    using example_numbers(1) by (simp add: getDirectorySizeAt_def del: getDirectorySize.simps)
  have ok: "\<forall>code syscall p. Inr () = Inl (SystemError code syscall p) \<longrightarrow>
              syscall \<noteq> ''mkdir'' \<and> syscall \<noteq> ''unlink''"
    by simp
  from createDMG_capacity [OF dir sz example_succeeds ok] sz
  show ?thesis using dir by (simp add: example_succeeds del: getDirectorySize.simps)
qed

section \<open>A failed run and the previous output\<close>

lemma commands_differ:
  "createCommand appPath volumeName requiredSize tempDmgPath \<noteq> convertCommand t outputPath"
  "attachCommand tempDmgPath \<noteq> convertCommand t outputPath"
  "linkCommand applicationsLink \<noteq> convertCommand t outputPath"
  "detachCommand mountPoint \<noteq> convertCommand t outputPath"
  by (simp_all add: createCommand_def attachCommand_def linkCommand_def detachCommand_def
        convertCommand_def)

lemma execSync_absent:
  assumes "\<forall>command fs x. command \<noteq> convert \<longrightarrow> fs p = None \<longrightarrow>
             fst (snd (sh command fs x)) p = None"
    and "command \<noteq> convert"
    and "files w p = None"
    and "execSync sh command w = (r, w')"
  shows "files w' p = None"
  using assms execSync_files [OF assms(4)] by simp

lemma unlinkIfExists_absent:
  "unlinkIfExists q w = (r, w') \<Longrightarrow> files w p = None \<Longrightarrow> files w' p = None"
  by (auto simp: unlinkIfExists_def unlinkSync_def split: if_splits option.splits node.splits)

lemma unlinkIfExists_other:
  "unlinkIfExists q w = (r, w') \<Longrightarrow> p \<noteq> q \<Longrightarrow> files w' p = files w p"
  by (auto simp: unlinkIfExists_def unlinkSync_def split: if_splits option.splits node.splits)

lemma unlinkIfExists_removes:
  "unlinkIfExists p w = (r, w') \<Longrightarrow> isFile (files w p) \<Longrightarrow>
   events w' = events w @ [UnlinkSync p]"
  by (auto simp: unlinkIfExists_def unlinkSync_def isFile_def existsSync_def
           split: if_splits option.splits node.splits)

lemma ensureOutputDir_keeps:
  "ensureOutputDir outputPath w = (r, w') \<Longrightarrow> files w p \<noteq> None \<Longrightarrow> files w' p = files w p"
  by (auto simp: ensureOutputDir_def mkdirSyncRecursive_def Let_def split: if_splits)

lemma addApplicationsLink_absent:
  assumes frame: "\<forall>command fs x. command \<noteq> convertCommand t outputPath \<longrightarrow> fs outputPath = None \<longrightarrow>
             fst (snd (sh command fs x)) outputPath = None"
    and absent: "files w outputPath = None"
    and run: "addApplicationsLink sh mountPoint w = (r, w')"
  shows "files w' outputPath = None"
  using run
proof (cases rule: addApplicationsLink_cases)
  case present
  with absent show ?thesis by simp
next
  case (linkFailed e)
  from execSync_absent [OF frame commands_differ(3) absent linkFailed(2)] show ?thesis .
next
  case (linked out w1)
  from execSync_absent [OF frame commands_differ(3) absent linked(2)] linked(3)
  show ?thesis by simp
qed

lemma unmount_absent:
  assumes frame: "\<forall>command fs x. command \<noteq> convertCommand t outputPath \<longrightarrow> fs outputPath = None \<longrightarrow>
             fst (snd (sh command fs x)) outputPath = None"
    and absent: "files w outputPath = None"
    and run: "unmount sh mountPoint w = (r, w')"
  shows "files w' outputPath = None"
proof -
  from run obtain r1 where
    x: "execSync sh (detachCommand mountPoint) (consoleLog ''Unmounting...'' w) = (r1, w')"
    by (rule unmount_exec)
  from absent have "files (consoleLog ''Unmounting...'' w) outputPath = None" by simp
  from execSync_absent [OF frame commands_differ(4) this x] show ?thesis .
qed

text \<open>
  A guarded block that ends with an error of a stage before the conversion never ran the
  conversion, so a missing output is still missing.
\<close>

lemma tryBlock_early_failure:
  assumes frame: "\<forall>command fs x. command \<noteq> convertCommand tempDmgPath outputPath \<longrightarrow>
             fs outputPath = None \<longrightarrow> fst (snd (sh command fs x)) outputPath = None"
    and absent: "files w outputPath = None"
    and run: "tryBlock sh appPath outputPath volumeName requiredSize tempDmgPath w = (Inl e, w')"
    and early: "e = Error ''Failed to parse mount point from hdiutil output'' \<or>
                (\<exists>command status. e = CommandFailed command status \<and>
                   command \<noteq> convertCommand tempDmgPath outputPath)"
  shows "files w' outputPath = None"
  using run
proof (cases rule: tryBlock_cases)
  case (createFailed e')
  from absent have "files (consoleLog ''Creating temporary DMG...'' w) outputPath = None" by simp
  from execSync_absent [OF frame commands_differ(1) this createFailed(1)] show ?thesis .
next
  case (attachFailed out w1 e')
  from absent have "files (consoleLog ''Creating temporary DMG...'' w) outputPath = None" by simp
  from execSync_absent [OF frame commands_differ(1) this attachFailed(1)]
  have "files (consoleLog ''Mounting DMG to add Applications symlink...'' w1) outputPath = None"
    by simp
  from execSync_absent [OF frame commands_differ(2) this attachFailed(2)] show ?thesis .
next
  case (parseFailed out w1 mountOutput)
  from absent have "files (consoleLog ''Creating temporary DMG...'' w) outputPath = None" by simp
  from execSync_absent [OF frame commands_differ(1) this parseFailed(1)]
  have "files (consoleLog ''Mounting DMG to add Applications symlink...'' w1) outputPath = None"
    by simp
  from execSync_absent [OF frame commands_differ(2) this parseFailed(2)] show ?thesis .
next
  case (wasMounted out w1 mountOutput w2 mountMatch)
  from absent have "files (consoleLog ''Creating temporary DMG...'' w) outputPath = None" by simp
  from execSync_absent [OF frame commands_differ(1) this wasMounted(1)]
  have "files (consoleLog ''Mounting DMG to add Applications symlink...'' w1) outputPath = None"
    by simp
  from execSync_absent [OF frame commands_differ(2) this wasMounted(2)]
  have a2: "files (consoleLog (''Mounted at: '' @ trim mountMatch) w2) outputPath = None"
    by simp
  from wasMounted(4) show ?thesis
  proof (cases rule: mounted_cases)
    case (detachFailed r1 w3 e')
    from addApplicationsLink_absent [OF frame a2 detachFailed(1)]
    have "files w3 outputPath = None" .
    from unmount_absent [OF frame this detachFailed(2)] show ?thesis .
  next
    case (linkFailed e' w3)
    from addApplicationsLink_absent [OF frame a2 linkFailed(1)]
    have "files w3 outputPath = None" .
    from unmount_absent [OF frame this linkFailed(2)] show ?thesis .
  next
    case (converted w3 w4)
    from converted(3) show ?thesis
    proof (cases rule: convertAndReport_cases)
      case (convertFailed e')
      with execSync_error [OF convertFailed(1)] early show ?thesis by auto
    next
      case (statFailed out' w5 e')
      with early show ?thesis
        by (auto simp: statSyncSize_def split: option.splits node.splits)
    next
      case (reported out' w5 sz)
      then show ?thesis by simp
    qed
  qed
qed

text \<open>
  C9. A file at the output path when a run starts on an existing source is removed by
  the clearing of stale files. When the run then fails at a stage from the creation of
  the staging image to the unmount (a command other than the conversion exits with a
  non-zero status, or the mount point cannot be parsed), and no command but the
  conversion writes the output path, nothing exists at the output path when
  \<^verbatim>\<open>createDMG\<close> returns: the previous image is gone and is not restored.
\<close>

theorem createDMG_failure_loses_output:
  assumes src: "existsSync (files w) appPath"
    and old: "isFile (files w outputPath)"
    and frame: "\<forall>command fs x. command \<noteq> convertCommand (tempDmgPathOf outputPath) outputPath \<longrightarrow>
             fs outputPath = None \<longrightarrow> fst (snd (sh command fs x)) outputPath = None"
    and run: "createDMG sh nameLong appPath outputPath w = (Inl e, w')"
    and early: "e = Error ''Failed to parse mount point from hdiutil output'' \<or>
                (\<exists>command status. e = CommandFailed command status \<and>
                   command \<noteq> convertCommand (tempDmgPathOf outputPath) outputPath)"
  shows "\<not> existsSync (files w') outputPath \<and> UnlinkSync outputPath \<in> set (emitted w w')"
  using src run
proof (cases rule: createDMG_cases)
  case (scandir e')
  with getDirectorySizeAt_error [OF scandir(1)] early show ?thesis by auto
next
  case (mkdir appSize e')
  with ensureOutputDir_error [OF mkdir(2)] early show ?thesis by auto
next
  case (unlinkTemp appSize w1 e')
  with unlinkIfExists_error [OF unlinkTemp(3)] early show ?thesis by auto
next
  case (unlinkOutput appSize w1 w2 e')
  with unlinkIfExists_error [OF unlinkOutput(4)] early show ?thesis by auto
next
  case (guarded appSize w1 w2 w3)
  from ensureOutputDir_events [OF guarded(2)] obtain es1 where
    e1: "events w1 = events w @ es1" by auto
  from old have "files w outputPath \<noteq> None" by (auto simp: isFile_def split: option.splits)
  with ensureOutputDir_keeps [OF guarded(2), of outputPath] old
  have old1: "isFile (files w1 outputPath)" by simp
  from unlinkIfExists_events [OF guarded(3)] obtain es2 where
    e2: "events w2 = events w1 @ es2" by auto
  from unlinkIfExists_events [OF guarded(4)] obtain es3 where
    e3: "events w3 = events w2 @ es3" by auto
  have removed: "UnlinkSync outputPath \<in> set (es2 @ es3)"
  proof (cases "outputPath = tempDmgPathOf outputPath")
    case True
    with unlinkIfExists_removes [OF guarded(3)] old1 e2 show ?thesis by simp
  next
    case False
    with unlinkIfExists_other [OF guarded(3), of outputPath] old1
    have "isFile (files w2 outputPath)" by simp
    with unlinkIfExists_removes [OF guarded(4)] e3 show ?thesis by simp
  qed
  from unlinkIfExists_ok [OF guarded(4)] have a3: "files w3 outputPath = None"
    by (simp add: existsSync_def)
  from guarded(5) show ?thesis
  proof (cases rule: tryFinally_cases)
    case (finalizerThrew r1 w4 e')
    with unlinkIfExists_error [OF finalizerThrew(2)] early show ?thesis by auto
  next
    case (finalizerDone w4)
    from tryBlock_early_failure [OF frame a3 finalizerDone(1) early]
    have "files w4 outputPath = None" .
    with unlinkIfExists_absent [OF finalizerDone(2)] have gone: "files w' outputPath = None"
      by simp
    from tryBlock_events [OF finalizerDone(1), of "[]"] obtain es4 where
      e4: "events w4 = events w3 @ es4" by auto
    from unlinkIfExists_events [OF finalizerDone(2)] obtain es5 where
      e5: "events w' = events w4 @ es5" by auto
    from e1 e2 e3 e4 e5 have "emitted w w' = es1 @ es2 @ es3 @ es4 @ es5"
      by (simp add: emitted_def)
    with removed gone show ?thesis by (auto simp: existsSync_def)
  qed
qed

theorem createDMG_failure_loses_output_witness:
  "existsSync (files (start exampleFiles)) ''Code.app'' \<and>
   isFile (files (start exampleFiles) ''out.dmg'') \<and>
   fst (createDMG (exampleShell ''ln -s'') None ''Code.app'' ''out.dmg'' (start exampleFiles))
     = Inl (CommandFailed (linkCommand ''/Volumes/Code/Applications'') 1) \<and>
   linkCommand ''/Volumes/Code/Applications'' \<noteq> convertCommand (tempDmgPathOf ''out.dmg'') ''out.dmg'' \<and>
   \<not> existsSync
      (files (snd (createDMG (exampleShell ''ln -s'') None ''Code.app'' ''out.dmg'' (start exampleFiles))))
      ''out.dmg'' \<and>
   UnlinkSync ''out.dmg'' \<in> set (emitted (start exampleFiles)
      (snd (createDMG (exampleShell ''ln -s'') None ''Code.app'' ''out.dmg'' (start exampleFiles))))"
proof -
  have src: "existsSync (files (start exampleFiles)) ''Code.app''"
    by (simp add: existsSync_def)
  have old: "isFile (files (start exampleFiles) ''out.dmg'')"
    by (simp add: isFile_def)
  have frame: "\<forall>command fs x. command \<noteq> convertCommand (tempDmgPathOf ''out.dmg'') ''out.dmg'' \<longrightarrow>
      fs ''out.dmg'' = None \<longrightarrow> fst (snd (exampleShell ''ln -s'' command fs x)) ''out.dmg'' = None"
    by (simp add: exampleShell_def Let_def example_paths)
  have early: "CommandFailed (linkCommand ''/Volumes/Code/Applications'') 1
        = Error ''Failed to parse mount point from hdiutil output'' \<or>
      (\<exists>command status.
          CommandFailed (linkCommand ''/Volumes/Code/Applications'') 1 = CommandFailed command status \<and>
          command \<noteq> convertCommand (tempDmgPathOf ''out.dmg'') ''out.dmg'')"
    by (simp add: commands_differ)
  from createDMG_failure_loses_output [OF src old frame example_link_fails early]
    src old commands_differ(3)
  show ?thesis by (simp add: example_link_fails)
qed

section \<open>The output directory\<close>





end
